(* ===== verification/Prelude.thy ===== *)
theory Prelude
  imports Main
begin

text \<open>
  Shared vocabulary of the development: the identifiers of the model, the JavaScript
  string primitives the client calls (\<open>toLowerCase\<close>, \<open>toUpperCase\<close>, \<open>trim\<close>,
  \<open>includes\<close>, truthiness of an optional string) written over \<open>string\<close>, and the
  generic lemmas on them that the component theories share. The primitives act on the
  ASCII range, which is the range of every literal the client compares against.
\<close>

named_theorems js_string_simps "evaluation and algebra of the JavaScript string primitives"

type_synonym user_id = nat
type_synonym item_id = nat
type_synonym claim_id = nat
type_synonym path = string

subsection \<open>Case mapping\<close>

definition js_lower_char :: "char \<Rightarrow> char" where
  "js_lower_char c =
     (let n = (of_char c :: nat) in if 65 \<le> n \<and> n \<le> 90 then char_of (n + 32) else c)"

definition js_upper_char :: "char \<Rightarrow> char" where
  "js_upper_char c =
     (let n = (of_char c :: nat) in if 97 \<le> n \<and> n \<le> 122 then char_of (n - 32) else c)"

definition js_lower :: "string \<Rightarrow> string" where
  "js_lower s = map js_lower_char s"

definition js_upper :: "string \<Rightarrow> string" where
  "js_upper s = map js_upper_char s"

subsection \<open>Whitespace trimming\<close>

definition js_is_space :: "char \<Rightarrow> bool" where
  "js_is_space c \<longleftrightarrow> (of_char c :: nat) \<in> {9, 10, 11, 12, 13, 32}"

definition js_trim :: "string \<Rightarrow> string" where
  "js_trim s = rev (dropWhile js_is_space (rev (dropWhile js_is_space s)))"

subsection \<open>Substring search\<close>

fun starts_with :: "string \<Rightarrow> string \<Rightarrow> bool" where
  "starts_with s [] = True"
| "starts_with [] (c # cs) = False"
| "starts_with (d # ds) (c # cs) = (d = c \<and> starts_with ds cs)"

text \<open>\<open>js_includes s q\<close> is \<open>s.includes(q)\<close>: try every start position of \<open>s\<close>.\<close>

fun js_includes :: "string \<Rightarrow> string \<Rightarrow> bool" where
  "js_includes [] q = (q = [])"
| "js_includes (c # cs) q = (starts_with (c # cs) q \<or> js_includes cs q)"

text \<open>JavaScript truthiness of an optional string field: \<open>null\<close> and \<open>""\<close> are falsy.\<close>

fun js_truthy :: "string option \<Rightarrow> bool" where
  "js_truthy None = False"
| "js_truthy (Some s) = (s \<noteq> [])"

text \<open>\<open>x || d\<close> on an optional string.\<close>

definition js_or :: "string option \<Rightarrow> string \<Rightarrow> string" where
  "js_or x d = (if js_truthy x then the x else d)"

lemma js_or_simps [simp]:
  "js_or None d = d"
  "js_or (Some s) d = (if s = [] then d else s)"
  by (simp_all add: js_or_def)

text \<open>\<open>String(n)\<close> for a non-negative integer: its decimal digits.\<close>

fun js_string_of_nat :: "nat \<Rightarrow> string" where
  "js_string_of_nat n =
     (if n < 10 then [char_of (48 + n)]
      else js_string_of_nat (n div 10) @ [char_of (48 + n mod 10)])"

lemmas js_prim_defs [js_string_simps] =
  js_lower_def js_upper_def js_lower_char_def js_upper_char_def js_is_space_def js_trim_def
  char_of_def bit_simps

subsection \<open>Lemmas on the primitives\<close>

declare js_string_of_nat.simps [simp del]

lemma starts_with_iff [simp]: "starts_with s q \<longleftrightarrow> (\<exists>b. s = q @ b)"
  by (induction s q rule: starts_with.induct) auto

text \<open>The executable search agrees with the reference meaning of a substring.\<close>

lemma js_includes_iff: "js_includes s q \<longleftrightarrow> (\<exists>a b. s = a @ q @ b)"
proof (induction s)
  case Nil
  then show ?case by simp
next
  case (Cons c cs)
  have "(\<exists>a b. c # cs = a @ q @ b) \<longleftrightarrow> (\<exists>b. c # cs = q @ b) \<or> (\<exists>a b. cs = a @ q @ b)"
    by (auto simp: Cons_eq_append_conv)
  with Cons.IH show ?case by simp
qed

lemma js_includes_Nil [simp]: "js_includes s []"
  by (cases s) simp_all

lemma js_includes_self [simp]: "js_includes s s"
  by (metis append.left_neutral append_Nil2 js_includes_iff)

lemma js_lower_char_idem [simp]: "js_lower_char (js_lower_char c) = js_lower_char c"
  by (simp add: js_lower_char_def Let_def)

lemma js_lower_idem [simp]: "js_lower (js_lower s) = js_lower s"
  by (simp add: js_lower_def comp_def)

lemma length_js_lower [simp]: "length (js_lower s) = length s"
  by (simp add: js_lower_def)

lemma js_trim_Nil [simp]: "js_trim [] = []"
  by (simp add: js_trim_def)

lemma js_lower_Nil [simp]: "js_lower [] = []"
  by (simp add: js_lower_def)

lemma js_lower_Nil_iff [simp]: "js_lower s = [] \<longleftrightarrow> s = []"
  by (simp add: js_lower_def)

lemma js_lower_append [simp]: "js_lower (a @ b) = js_lower a @ js_lower b"
  by (simp add: js_lower_def)

lemma js_includes_lower: "js_includes s q \<Longrightarrow> js_includes (js_lower s) (js_lower q)"
  unfolding js_includes_iff by (metis js_lower_append)

text \<open>\<open>String(n)\<close> is injective: an id printed into a form field identifies the
  record it came from.\<close>

lemma js_string_of_nat_snoc:
  "js_string_of_nat n =
     (if n < 10 then [] else js_string_of_nat (n div 10)) @ [char_of (48 + n mod 10)]"
  by (subst js_string_of_nat.simps) simp

lemma js_string_of_nat_not_Nil [simp]: "js_string_of_nat n \<noteq> []" "[] \<noteq> js_string_of_nat n"
  by (subst js_string_of_nat_snoc, simp)+

lemma char_of_digit_inj:
  assumes "char_of (48 + a mod 10) = (char_of (48 + b mod 10) :: char)"
  shows "a mod 10 = (b mod 10 :: nat)"
proof -
  have "of_char (char_of (48 + a mod 10) :: char) = (of_char (char_of (48 + b mod 10) :: char) :: nat)"
    using assms by simp
  then show ?thesis by simp
qed

lemma js_string_of_nat_inj:
  "js_string_of_nat m = js_string_of_nat n \<Longrightarrow> m = n"
proof (induction m arbitrary: n rule: less_induct)
  case (less m)
  let ?p = "\<lambda>k. if k < 10 then [] else js_string_of_nat (k div 10)"
  have "?p m @ [char_of (48 + m mod 10)] = ?p n @ [char_of (48 + n mod 10)]"
    using less.prems by (simp only: js_string_of_nat_snoc [symmetric])
  then have p: "?p m = ?p n" and d: "m mod 10 = n mod 10"
    using char_of_digit_inj by auto
  have "m div 10 = n div 10"
  proof (cases "m < 10")
    case True
    with p show ?thesis by (auto split: if_splits)
  next
    case False
    with p less.IH show ?thesis by (auto split: if_splits)
  qed
  with d show ?case by (metis div_mult_mod_eq)
qed

lemma js_string_of_nat_eq_iff [simp]: "js_string_of_nat m = js_string_of_nat n \<longleftrightarrow> m = n"
  using js_string_of_nat_inj by blast

lemma find_key_Some:
  assumes "x \<in> set xs"
  shows "\<exists>y. find (\<lambda>y. f y = f x) xs = Some y \<and> f y = f x"
  using assms by (induction xs) auto

lemma find_key_distinct:
  assumes "distinct (map f xs)" and "x \<in> set xs"
  shows "find (\<lambda>y. f y = f x) xs = Some x"
  using assms by (induction xs) (auto simp: rev_image_eqI)

end
