(* ===== verification/Session.thy ===== *)
theory Session
  imports Prelude
begin

text \<open>
  The Session Store: \<open>src/frontend/src/context/UserContext.js\<close> (the \<open>UserProvider\<close>
  with its two effects and its \<open>login\<close>, \<open>logout\<close>, \<open>updateUser\<close>), together with
  the other writers of the browser's \<open>localStorage\<close>: the Login page's success branch
  (\<open>Login.js\<close>), the Profile page's logout (\<open>Profile.js\<close>) and the landing page's
  mount effect (\<open>Index.js\<close>). The React state (\<open>user\<close>, \<open>loading\<close>) and the three
  storage keys (\<open>user\<close>, \<open>token\<close>, \<open>isAuthenticated\<close>) form one record; every
  handler is a function on it. The stored user is kept as the decoded value: the client
  only writes it with \<open>JSON.stringify\<close> of a plain object, which \<open>JSON.parse\<close> inverts.
\<close>

subsection \<open>State\<close>

record app_user =
  userId :: "nat option"
  username :: "string option"
  email :: "string option"
  fname :: "string option"
  lname :: "string option"
  role :: "string option"
  mname :: "string option"

record storage =
  ls_user :: "app_user option"
  ls_token :: "string option"
  ls_auth :: "string option"

record session =
  user :: "app_user option"
  loading :: bool
  storage :: storage

text \<open>Reply of \<open>GET /api/users/current\<close> as \<open>fetchUser\<close> sees it: a 2xx body, a non-2xx
  status, or a thrown exception (network failure or an unreadable body).\<close>

datatype current_reply = Reply_ok app_user | Reply_not_ok | Network_error

subsection \<open>The provider: initial state and the identity-resolution effect\<close>

definition provider_init :: "storage \<Rightarrow> session" where
  "provider_init st = \<lparr>user = None, loading = True, storage = st\<rparr>"

text \<open>\<open>fetchUser\<close> up to its first \<open>await\<close>: the cached user is shown at once.\<close>

definition fetch_user_start :: "session \<Rightarrow> session" where
  "fetch_user_start s =
     (case ls_user (storage s) of None \<Rightarrow> s | Some u \<Rightarrow> s\<lparr>user := Some u\<rparr>)"

definition fetch_user_needs_reply :: "session \<Rightarrow> bool" where
  "fetch_user_needs_reply s \<longleftrightarrow> js_truthy (ls_token (storage s))"

text \<open>The rest of \<open>fetchUser\<close> once the reply is in, \<open>finally\<close> included.\<close>

definition fetch_user_reply :: "current_reply \<Rightarrow> session \<Rightarrow> session" where
  "fetch_user_reply r s =
     (case r of
        Reply_ok u \<Rightarrow> s\<lparr>user := Some u, storage := (storage s)\<lparr>ls_user := Some u\<rparr>\<rparr>
      | Reply_not_ok \<Rightarrow>
          s\<lparr>user := None, storage := (storage s)\<lparr>ls_user := None, ls_token := None\<rparr>\<rparr>
      | Network_error \<Rightarrow> s)\<lparr>loading := False\<rparr>"

definition fetch_user_no_token :: "session \<Rightarrow> session" where
  "fetch_user_no_token s = s\<lparr>loading := False\<rparr>"

text \<open>The second effect, run after a commit with the \<open>user\<close> of that render.\<close>

definition sync_user_effect :: "app_user option \<Rightarrow> session \<Rightarrow> session" where
  "sync_user_effect u s = s\<lparr>storage := (storage s)\<lparr>ls_user := u\<rparr>\<rparr>"

text \<open>
  Mounting the provider. After the first render both effects run in order: \<open>fetchUser\<close>
  reaches its \<open>await\<close> (or finishes, with no token), then the storage effect runs with the
  first render's \<open>user = null\<close>. If \<open>fetchUser\<close> changed \<open>user\<close>, the re-render runs
  the storage effect again with the new value. The reply, when there is a token, comes
  last and is followed by one more storage effect.
\<close>

definition mount_transient :: "storage \<Rightarrow> session" where
  "mount_transient st =
     (let s0 = provider_init st;
          s1 = fetch_user_start s0;
          s1' = (if fetch_user_needs_reply s0 then s1 else fetch_user_no_token s1)
      in sync_user_effect (user s0) s1')"

definition mount_settled :: "storage \<Rightarrow> session" where
  "mount_settled st =
     (let s = mount_transient st
      in if user s = user (provider_init st) then s else sync_user_effect (user s) s)"

definition mount_session :: "storage \<Rightarrow> current_reply \<Rightarrow> session" where
  "mount_session st r =
     (let s = mount_settled st
      in if fetch_user_needs_reply (provider_init st)
         then (let s' = fetch_user_reply r s in sync_user_effect (user s') s')
         else s)"

subsection \<open>The context's operations\<close>

definition login :: "app_user \<Rightarrow> string \<Rightarrow> session \<Rightarrow> session" where
  "login u t s =
     s\<lparr>user := Some u, storage := (storage s)\<lparr>ls_user := Some u, ls_token := Some t\<rparr>\<rparr>"

definition logout :: "session \<Rightarrow> session" where
  "logout s = s\<lparr>user := None, storage := (storage s)\<lparr>ls_user := None, ls_token := None\<rparr>\<rparr>"

definition updateUser :: "app_user \<Rightarrow> session \<Rightarrow> session" where
  "updateUser u s = s\<lparr>user := Some u, storage := (storage s)\<lparr>ls_user := Some u\<rparr>\<rparr>"

subsection \<open>The other writers of the session\<close>

text \<open>Reply of \<open>POST /api/users/login\<close> as \<open>handleLogin\<close> reads it.\<close>

datatype login_reply =
    Login_unparsable string
  | Login_rejected "string option"
  | Login_accepted app_user
  | Login_network_error

datatype login_outcome = Login_message string | Login_navigate path

definition wildcats_domain :: string where
  "wildcats_domain = ''@wildcatsf.com''"

text \<open>The redirect test of \<open>handleLogin\<close>: upper-cased role, or the domain in the e-mail
  or in the user name.\<close>

definition login_is_admin :: "app_user \<Rightarrow> bool" where
  "login_is_admin u \<longleftrightarrow>
     (case role u of Some r \<Rightarrow> js_upper r = ''ADMIN'' | None \<Rightarrow> False)
     \<or> (case email u of Some e \<Rightarrow> js_includes e wildcats_domain | None \<Rightarrow> False)
     \<or> (case username u of Some n \<Rightarrow> js_includes n wildcats_domain | None \<Rightarrow> False)"

definition handleLogin :: "login_reply \<Rightarrow> session \<Rightarrow> session \<times> login_outcome" where
  "handleLogin r s =
     (case r of
        Login_unparsable txt \<Rightarrow>
          (s, Login_message (js_or (Some txt) ''Invalid server response''))
      | Login_rejected err \<Rightarrow>
          (s, Login_message (js_or err ''Something went wrong''))
      | Login_network_error \<Rightarrow> (s, Login_message ''Wrong credentials. Please try again.'')
      | Login_accepted u \<Rightarrow>
          (s\<lparr>user := Some u,
              storage := (storage s)\<lparr>ls_user := Some u, ls_auth := Some ''true''\<rparr>\<rparr>,
           Login_navigate (if login_is_admin u then ''/admin'' else ''/home'')))"

text \<open>The Login page's mount effect.\<close>

definition login_redirect :: "session \<Rightarrow> path option" where
  "login_redirect s = (if ls_auth (storage s) = Some ''true'' then Some ''/home'' else None)"

text \<open>The Index page's mount effect.\<close>

definition index_mount :: "session \<Rightarrow> session" where
  "index_mount s = s\<lparr>storage := (storage s)\<lparr>ls_auth := None\<rparr>\<rparr>"

text \<open>Profile's \<open>handleLogout\<close>: after the confirmation, the context's \<open>logout\<close>, the
  flag removed, and a full page load of \<open>/login\<close>: the storage survives, the React state
  starts again from it.\<close>

definition profile_logout :: "bool \<Rightarrow> session \<Rightarrow> storage option" where
  "profile_logout confirmed s =
     (if \<not> confirmed then None
      else Some ((storage (logout s))\<lparr>ls_auth := None\<rparr>))"

subsection \<open>Session events\<close>

text \<open>Everything that writes the session after the provider has mounted, as one step
  function; a reload mounts a new provider on the storage left behind.\<close>

datatype session_event =
    Ev_login app_user string
  | Ev_logout
  | Ev_update app_user
  | Ev_page_login login_reply
  | Ev_index_mount

fun session_step :: "session_event \<Rightarrow> session \<Rightarrow> session" where
  "session_step (Ev_login u t) s = login u t s"
| "session_step Ev_logout s = logout s"
| "session_step (Ev_update u) s = updateUser u s"
| "session_step (Ev_page_login r) s = fst (handleLogin r s)"
| "session_step Ev_index_mount s = index_mount s"

inductive session_reach :: "session \<Rightarrow> bool" where
  mount: "session_reach (mount_session st r)"
| step: "session_reach s \<Longrightarrow> session_reach (session_step e s)"
| reload: "session_reach s \<Longrightarrow> session_reach (mount_session (storage s) r)"

definition synced :: "session \<Rightarrow> bool" where
  "synced s \<longleftrightarrow> user s = ls_user (storage s)"

definition paired :: "storage \<Rightarrow> bool" where
  "paired st \<longleftrightarrow> (ls_user st = None \<longleftrightarrow> ls_token st = None)"

lemmas session_defs =
  provider_init_def fetch_user_start_def fetch_user_needs_reply_def fetch_user_reply_def
  fetch_user_no_token_def sync_user_effect_def login_def logout_def updateUser_def
  index_mount_def

lemmas mount_defs = mount_session_def mount_settled_def mount_transient_def

subsection \<open>Behaviour of each operation\<close>

lemma mount_transient_simps:
  "user (mount_transient st) = ls_user st"
  "ls_user (storage (mount_transient st)) = None"
  "ls_token (storage (mount_transient st)) = ls_token st"
  "ls_auth (storage (mount_transient st)) = ls_auth st"
  "loading (mount_transient st) = js_truthy (ls_token st)"
  by (simp_all add: mount_transient_def session_defs Let_def split: option.split)

lemma mount_settled_simps:
  "user (mount_settled st) = ls_user st"
  "ls_user (storage (mount_settled st)) = ls_user st"
  "ls_token (storage (mount_settled st)) = ls_token st"
  "ls_auth (storage (mount_settled st)) = ls_auth st"
  "loading (mount_settled st) = js_truthy (ls_token st)"
  by (auto simp: mount_settled_def mount_transient_simps session_defs Let_def)

lemma mount_session_token:
  assumes "js_truthy (ls_token st)"
  shows "mount_session st r =
           sync_user_effect (user (fetch_user_reply r (mount_settled st)))
             (fetch_user_reply r (mount_settled st))"
  using assms by (simp add: mount_session_def fetch_user_needs_reply_def provider_init_def Let_def)

lemma mount_session_no_token:
  assumes "\<not> js_truthy (ls_token st)"
  shows "mount_session st r = mount_settled st"
  using assms by (simp add: mount_session_def fetch_user_needs_reply_def provider_init_def)

lemma synced_mount_session: "synced (mount_session st r)"
proof (cases "js_truthy (ls_token st)")
  case True
  then show ?thesis
    by (simp add: mount_session_token synced_def session_defs)
next
  case False
  then show ?thesis
    by (simp add: mount_session_no_token synced_def mount_settled_simps)
qed

lemma synced_session_step: "synced s \<Longrightarrow> synced (session_step e s)"
  by (cases e) (auto simp: synced_def session_defs handleLogin_def
                     split: login_reply.split)

lemma session_reach_synced: "session_reach s \<Longrightarrow> synced s"
  by (induction rule: session_reach.induct)
     (auto intro: synced_mount_session synced_session_step)

lemma paired_login: "paired (storage (login u t s))"
  by (simp add: paired_def login_def)

lemma paired_logout: "paired (storage (logout s))"
  by (simp add: paired_def logout_def)

subsection \<open>Properties of the Session Store\<close>

text \<open>C2: \<open>login(u, t)\<close> puts the identity in memory and the identity and the token in
  durable storage, and touches nothing else of the storage; a reload then checks the token:
  the identity survives a network failure, and the server's answer replaces it.\<close>

theorem login_stores_identity_and_token:
  assumes "t \<noteq> []"
  shows "user (login u t s) = Some u \<and> ls_user (storage (login u t s)) = Some u
         \<and> ls_token (storage (login u t s)) = Some t
         \<and> ls_auth (storage (login u t s)) = ls_auth (storage s)
         \<and> user (mount_session (storage (login u t s)) Network_error) = Some u
         \<and> user (mount_session (storage (login u t s)) (Reply_ok u')) = Some u'"
proof -
  have tok: "js_truthy (ls_token (storage (login u t s)))" using assms by (simp add: login_def)
  have u: "ls_user (storage (login u t s)) = Some u" by (simp add: login_def)
  have "user (mount_session (storage (login u t s)) Network_error) = Some u
        \<and> user (mount_session (storage (login u t s)) (Reply_ok u')) = Some u'"
    by (simp add: mount_session_token [OF tok] fetch_user_reply_def sync_user_effect_def
                  mount_settled_simps u)
  then show ?thesis by (simp add: login_def)
qed

lemma login_stores_identity_and_token_witness:
  "ls_token (storage (login \<lparr>userId = Some 1, username = Some ''alice'', email = None, fname = None,
                              lname = None, role = Some ''USER'', mname = None\<rparr> ''tok''
     \<lparr>user = None, loading = False, storage = \<lparr>ls_user = None, ls_token = None, ls_auth = None\<rparr>\<rparr>))
   = Some ''tok''"
  using login_stores_identity_and_token
          [where t = "''tok''"
             and u = "\<lparr>userId = Some 1, username = Some ''alice'', email = None, fname = None,
                      lname = None, role = Some ''USER'', mname = None\<rparr>"
             and s = "\<lparr>user = None, loading = False,
                      storage = \<lparr>ls_user = None, ls_token = None, ls_auth = None\<rparr>\<rparr>"
             and u' = "\<lparr>userId = Some 1, username = Some ''alice'', email = None, fname = None,
                      lname = None, role = Some ''USER'', mname = None\<rparr>"]
  by simp

text \<open>C3: after the context's \<open>logout()\<close> neither memory nor durable storage holds an
  identity or a token, and a reload, with no token to check, stays anonymous whatever
  the server would answer.\<close>

theorem logout_clears_identity_and_token:
  "user (logout s) = None \<and> ls_user (storage (logout s)) = None
   \<and> ls_token (storage (logout s)) = None
   \<and> user (mount_session (storage (logout s)) r) = None
   \<and> \<not> loading (mount_session (storage (logout s)) r)"
proof -
  have "\<not> js_truthy (ls_token (storage (logout s)))" by (simp add: logout_def)
  then show ?thesis by (simp add: mount_session_no_token mount_settled_simps logout_def)
qed

lemma logout_clears_identity_and_token_witness:
  "ls_token (storage (logout \<lparr>user = None, loading = False,
      storage = \<lparr>ls_user = None, ls_token = Some ''tok'', ls_auth = Some ''true''\<rparr>\<rparr>)) = None"
  using logout_clears_identity_and_token
          [of "\<lparr>user = None, loading = False,
                storage = \<lparr>ls_user = None, ls_token = Some ''tok'', ls_auth = Some ''true''\<rparr>\<rparr>"]
  by blast

text \<open>C4: initialisation with a cached identity and a token whose check fails with a
  network error (not a rejection) keeps the cached identity, in memory and in storage,
  keeps the token, and ends the loading phase.\<close>

theorem mount_network_error_keeps_identity:
  assumes "ls_user st = Some u" and "js_truthy (ls_token st)"
  shows "user (mount_session st Network_error) = Some u
         \<and> ls_user (storage (mount_session st Network_error)) = Some u
         \<and> ls_token (storage (mount_session st Network_error)) = ls_token st
         \<and> \<not> loading (mount_session st Network_error)"
  using assms
  by (simp add: mount_session_token session_defs mount_settled_simps)

lemma mount_network_error_keeps_identity_witness:
  "user (mount_session
           \<lparr>ls_user = Some \<lparr>userId = Some 7, username = Some ''ann'', email = None,
                            fname = None, lname = None, role = Some ''USER'', mname = None\<rparr>,
            ls_token = Some ''tok'', ls_auth = None\<rparr> Network_error)
   = Some \<lparr>userId = Some 7, username = Some ''ann'', email = None,
           fname = None, lname = None, role = Some ''USER'', mname = None\<rparr>"
  using mount_network_error_keeps_identity
          [of "\<lparr>ls_user = Some \<lparr>userId = Some 7, username = Some ''ann'', email = None,
                                 fname = None, lname = None, role = Some ''USER'', mname = None\<rparr>,
                 ls_token = Some ''tok'', ls_auth = None\<rparr>"]
  by simp

text \<open>C5: initialisation whose token is rejected by the server clears identity and token
  together, in memory and in storage, and ends the loading phase.\<close>

theorem mount_rejected_clears_session:
  assumes "js_truthy (ls_token st)"
  shows "user (mount_session st Reply_not_ok) = None
         \<and> ls_user (storage (mount_session st Reply_not_ok)) = None
         \<and> ls_token (storage (mount_session st Reply_not_ok)) = None
         \<and> \<not> loading (mount_session st Reply_not_ok)"
  using assms by (simp add: mount_session_token session_defs)

lemma mount_rejected_clears_session_witness:
  "user (mount_session \<lparr>ls_user = None, ls_token = Some ''tok'', ls_auth = None\<rparr> Reply_not_ok)
     = None"
  using mount_rejected_clears_session [of "\<lparr>ls_user = None, ls_token = Some ''tok'', ls_auth = None\<rparr>"]
  by simp

text \<open>C6: in every state the session can reach (a provider mount on any storage, any
  sequence of context operations, page logins and landing-page visits, and reloads), the
  identity in memory is the identity in durable storage.\<close>

theorem session_memory_matches_storage:
  "session_reach s \<Longrightarrow> user s = ls_user (storage s)"
  using session_reach_synced by (simp add: synced_def)

lemma session_memory_matches_storage_witness:
  "session_reach (mount_session \<lparr>ls_user = None, ls_token = None, ls_auth = None\<rparr> Network_error)
   \<and> user (mount_session \<lparr>ls_user = None, ls_token = None, ls_auth = None\<rparr> Network_error)
     = ls_user (storage (mount_session \<lparr>ls_user = None, ls_token = None, ls_auth = None\<rparr>
                            Network_error))"
  using session_memory_matches_storage [OF session_reach.mount] session_reach.mount
  by blast

end
