(* ===== verification/AuthGate.thy ===== *)
theory AuthGate
  imports Session
begin

text \<open>
  The Authorization Gate: \<open>ProtectedRoute\<close> (\<open>src/frontend/src/components/ProtectedRoute.js\<close>),
  the admin test it shares with \<open>App.js\<close> and \<open>AdminDashboard.js\<close> (the role, lower-cased,
  equals \<open>admin\<close>), the second gate inside the admin dashboard, the case-sensitive role
  test of the user sidebar (\<open>Sidebar.js\<close>), and where roles come from: the role the sign-up
  form sends (\<open>Signup.js\<close>). The main result characterises the admin test: it accepts
  exactly the 32 spellings of \<open>admin\<close> in upper and lower case.
\<close>

subsection \<open>Definitions\<close>

datatype route_decision = Allow | Redirect_login | Redirect_home

text \<open>\<open>user?.role?.toLowerCase() === 'admin'\<close>.\<close>

definition role_is_admin :: "app_user \<Rightarrow> bool" where
  "role_is_admin u \<longleftrightarrow> (case role u of Some r \<Rightarrow> js_lower r = ''admin'' | None \<Rightarrow> False)"

definition ProtectedRoute :: "app_user option \<Rightarrow> bool \<Rightarrow> route_decision" where
  "ProtectedRoute u requireAdmin =
     (case u of
        None \<Rightarrow> Redirect_login
      | Some v \<Rightarrow> (if requireAdmin \<and> \<not> role_is_admin v then Redirect_home else Allow))"

text \<open>The dashboard's own check: its effect navigates to \<open>/home\<close> and its render shows the
  access-denied panel, for the same condition.\<close>

datatype dashboard_gate = Dashboard_show | Dashboard_denied path

definition admin_dashboard_gate :: "app_user option \<Rightarrow> dashboard_gate" where
  "admin_dashboard_gate u =
     (case u of
        Some v \<Rightarrow> (if role_is_admin v then Dashboard_show else Dashboard_denied ''/home'')
      | None \<Rightarrow> Dashboard_denied ''/home'')"

text \<open>\<open>Sidebar.js\<close>: the admin link is shown for \<open>user.role === 'admin'\<close>, the user tabs
  and the profile link otherwise.\<close>

definition sidebar_admin_link :: "app_user option \<Rightarrow> bool" where
  "sidebar_admin_link u \<longleftrightarrow> (case u of Some v \<Rightarrow> role v = Some ''admin'' | None \<Rightarrow> False)"

definition sidebar_user_tabs :: "app_user option \<Rightarrow> bool" where
  "sidebar_user_tabs u \<longleftrightarrow> \<not> sidebar_admin_link u"

subsection \<open>Where roles come from: the sign-up form\<close>

record signup_form =
  su_username :: string
  su_password :: string
  su_fName :: string
  su_mName :: string
  su_lName :: string
  su_email :: string
  su_contactNo :: string

definition signup_is_admin :: "signup_form \<Rightarrow> bool" where
  "signup_is_admin f \<longleftrightarrow>
     js_includes (su_username f) wildcats_domain \<or> js_includes (su_email f) wildcats_domain"

definition signup_role :: "signup_form \<Rightarrow> string" where
  "signup_role f = (if signup_is_admin f then ''ADMIN'' else ''USER'')"

datatype signup_reply = Signup_ok | Signup_failed string | Signup_network_error

datatype signup_outcome = Signup_success string path | Signup_error string

text \<open>\<open>handleSignup\<close>: the body it posts (the form and the role it chose) and what the user
  sees; on success the page navigates to \<open>/login\<close> after two seconds.\<close>

definition handleSignup ::
  "signup_form \<Rightarrow> signup_reply \<Rightarrow> (signup_form \<times> string) \<times> signup_outcome" where
  "handleSignup f r =
     ((f, signup_role f),
      (case r of
         Signup_ok \<Rightarrow>
           Signup_success (if signup_is_admin f then ''Admin account created successfully!''
                           else ''Account created successfully!'') ''/login''
       | Signup_failed txt \<Rightarrow> Signup_error (js_or (Some txt) ''Signup failed.'')
       | Signup_network_error \<Rightarrow> Signup_error ''Something went wrong. Please try again.''))"

text \<open>Every spelling of a lower-case word in upper and lower case letters: the reference
  set the admin test is compared with.\<close>

fun case_variants :: "string \<Rightarrow> string list" where
  "case_variants [] = [[]]"
| "case_variants (c # cs) = [d # t. d <- remdups [c, js_upper_char c], t <- case_variants cs]"

definition ascii_lower_word :: "string \<Rightarrow> bool" where
  "ascii_lower_word t \<longleftrightarrow> (\<forall>d \<in> set t. 97 \<le> (of_char d :: nat) \<and> (of_char d :: nat) \<le> 122)"

subsection \<open>Lemmas\<close>

lemma js_lower_char_eq_iff:
  assumes "97 \<le> (of_char d :: nat)" "(of_char d :: nat) \<le> 122"
  shows "js_lower_char c = d \<longleftrightarrow> c = d \<or> c = js_upper_char d"
proof -
  have inj: "\<And>x y. (of_char x :: nat) = of_char y \<Longrightarrow> x = y"
    by (metis char_of_char)
  show ?thesis
    using assms by (auto simp: js_lower_char_def js_upper_char_def Let_def dest!: inj)
qed

lemma js_lower_eq_iff_case_variants:
  "ascii_lower_word t \<Longrightarrow> js_lower r = t \<longleftrightarrow> r \<in> set (case_variants t)"
proof (induction t arbitrary: r)
  case Nil
  then show ?case by (simp add: js_lower_def)
next
  case (Cons c cs)
  then have c: "97 \<le> (of_char c :: nat)" "(of_char c :: nat) \<le> 122" and w: "ascii_lower_word cs"
    by (simp_all add: ascii_lower_word_def)
  show ?case
  proof (cases r)
    case Nil
    then show ?thesis by (auto simp: js_lower_def)
  next
    case (Cons d ds)
    have "js_lower (d # ds) = c # cs \<longleftrightarrow> js_lower_char d = c \<and> js_lower ds = cs"
      by (simp add: js_lower_def)
    also have "\<dots> \<longleftrightarrow> (d = c \<or> d = js_upper_char c) \<and> ds \<in> set (case_variants cs)"
      using js_lower_char_eq_iff [OF c] Cons.IH [OF w] by simp
    finally show ?thesis using Cons by auto
  qed
qed

lemma ascii_lower_word_admin: "ascii_lower_word ''admin''"
  by (simp add: ascii_lower_word_def)

lemma role_is_admin_iff_variant:
  "role_is_admin u \<longleftrightarrow> (\<exists>r. role u = Some r \<and> r \<in> set (case_variants ''admin''))"
  using js_lower_eq_iff_case_variants [OF ascii_lower_word_admin]
  by (simp add: role_is_admin_def del: case_variants.simps split: option.split)

lemma ProtectedRoute_None [simp]: "ProtectedRoute None b = Redirect_login"
  by (simp add: ProtectedRoute_def)

lemma ProtectedRoute_unrestricted [simp]: "ProtectedRoute (Some v) False = Allow"
  by (simp add: ProtectedRoute_def)

subsection \<open>Properties of the gate\<close>

text \<open>C1: on an admin-only destination, \<open>ProtectedRoute\<close> sends an absent identity to
  the login page, admits an identity exactly when its role is one of the upper/lower-case
  spellings of \<open>admin\<close>, and sends every other identity home.\<close>

theorem ProtectedRoute_admin_destination:
  "ProtectedRoute None True = Redirect_login
   \<and> ProtectedRoute (Some v) True =
       (if \<exists>r. role v = Some r \<and> r \<in> set (case_variants ''admin'') then Allow
        else Redirect_home)"
  using role_is_admin_iff_variant [of v]
  by (simp add: ProtectedRoute_def del: case_variants.simps)

lemma ProtectedRoute_admin_destination_witness:
  "ProtectedRoute None True = Redirect_login
   \<and> ProtectedRoute (Some \<lparr>userId = Some 1, username = Some ''root'', email = None, fname = None,
                           lname = None, role = Some ''Admin'', mname = None\<rparr>) True = Allow"
  using ProtectedRoute_admin_destination
          [of "\<lparr>userId = Some 1, username = Some ''root'', email = None, fname = None,
                lname = None, role = Some ''Admin'', mname = None\<rparr>"]
  by (simp add: js_prim_defs)

text \<open>C14: the admin dashboard's own check admits exactly the identities the route gate
  admits on the admin route, and otherwise sends the user home.\<close>

theorem admin_dashboard_gate_agrees:
  "(admin_dashboard_gate u = Dashboard_show \<longleftrightarrow> ProtectedRoute u True = Allow)
   \<and> (admin_dashboard_gate u \<noteq> Dashboard_show \<longleftrightarrow> admin_dashboard_gate u = Dashboard_denied ''/home'')"
  by (simp add: admin_dashboard_gate_def ProtectedRoute_def split: option.split)

lemma admin_dashboard_gate_agrees_witness:
  "admin_dashboard_gate None = Dashboard_denied ''/home''"
proof -
  have "ProtectedRoute None True \<noteq> Allow" by (simp add: ProtectedRoute_def)
  with admin_dashboard_gate_agrees [of None] show ?thesis by blast
qed

text \<open>C18: the sign-up page chooses the account's privilege itself: a form whose e-mail
  contains \<open>@wildcatsf.com\<close> is posted with role \<open>ADMIN\<close>, whatever the server answers.\<close>

theorem signup_email_domain_posts_admin:
  assumes "js_includes (su_email f) wildcats_domain"
  shows "snd (fst (handleSignup f r)) = ''ADMIN''"
  using assms by (simp add: handleSignup_def signup_role_def signup_is_admin_def)

lemma signup_email_domain_posts_admin_witness:
  "js_includes (su_email \<lparr>su_username = ''eve'', su_password = ''pw'', su_fName = ''Eve'',
                          su_mName = [], su_lName = ''E'', su_email = ''eve@wildcatsf.com'',
                          su_contactNo = ''1''\<rparr>) wildcats_domain
   \<and> snd (fst (handleSignup \<lparr>su_username = ''eve'', su_password = ''pw'', su_fName = ''Eve'',
                          su_mName = [], su_lName = ''E'', su_email = ''eve@wildcatsf.com'',
                          su_contactNo = ''1''\<rparr> Signup_ok)) = ''ADMIN''"
proof -
  have h: "js_includes (su_email \<lparr>su_username = ''eve'', su_password = ''pw'', su_fName = ''Eve'',
                          su_mName = [], su_lName = ''E'', su_email = ''eve@wildcatsf.com'',
                          su_contactNo = ''1''\<rparr>) wildcats_domain"
    by (simp add: wildcats_domain_def)
  show ?thesis using h signup_email_domain_posts_admin [OF h] by simp
qed

end
