(* ===== verification/Router.thy ===== *)
theory Router
  imports AuthGate
begin

text \<open>
  The View Router: \<open>AppContent\<close> in \<open>src/frontend/src/App.js\<close>. It reads the session
  (\<open>user\<close>, \<open>loading\<close>), shows a loading screen while the identity is being resolved,
  chooses a sidebar, and renders the element of the matching route, protected routes
  through \<open>ProtectedRoute\<close>. Route matching follows React Router v6, which the routes
  rely on: a pattern matches case-insensitively and ignores trailing slashes, and
  \<open>/report-item/*\<close> matches \<open>/report-item\<close> and everything below it.
\<close>

subsection \<open>Definitions\<close>

datatype page =
    Index_page | About_page | Contact_page | Login_page | Signup_page | Home_page
  | ReportItem_page | Search_page | Claim_page | Profile_page | AdminDashboard_page

datatype route_guard = Public | Protected bool

datatype sidebar = User_sidebar | Admin_sidebar

datatype content = Page page | Redirect path | Blank

datatype view = Loading_screen | Shell "sidebar option" content

definition route_key :: "path \<Rightarrow> string" where
  "route_key p = js_lower (rev (dropWhile (\<lambda>c. c = CHR ''/'') (rev p)))"

definition route_match :: "path \<Rightarrow> (page \<times> route_guard) option" where
  "route_match p =
     (let k = route_key p in
      if k = [] then Some (Index_page, Public)
      else if k = ''/about'' then Some (About_page, Public)
      else if k = ''/contact'' then Some (Contact_page, Public)
      else if k = ''/login'' then Some (Login_page, Public)
      else if k = ''/signup'' then Some (Signup_page, Public)
      else if k = ''/home'' then Some (Home_page, Protected False)
      else if k = ''/report-item'' \<or> starts_with k ''/report-item/''
        then Some (ReportItem_page, Protected False)
      else if k = ''/search'' then Some (Search_page, Protected False)
      else if k = ''/claim'' then Some (Claim_page, Protected False)
      else if k = ''/profile'' then Some (Profile_page, Protected False)
      else if k = ''/admin'' then Some (AdminDashboard_page, Protected True)
      else None)"

definition noSidebarPaths :: "path list" where
  "noSidebarPaths = [''/'', ''/about'', ''/contact'', ''/login'', ''/signup'']"

definition app_is_admin :: "app_user option \<Rightarrow> bool" where
  "app_is_admin u \<longleftrightarrow> (case u of Some v \<Rightarrow> role_is_admin v | None \<Rightarrow> False)"

definition show_sidebar :: "session \<Rightarrow> path \<Rightarrow> bool" where
  "show_sidebar s p \<longleftrightarrow> user s \<noteq> None \<and> p \<notin> set noSidebarPaths"

definition route_content :: "app_user option \<Rightarrow> path \<Rightarrow> content" where
  "route_content u p =
     (case route_match p of
        None \<Rightarrow> Blank
      | Some (pg, Public) \<Rightarrow> Page pg
      | Some (pg, Protected adm) \<Rightarrow>
          (case ProtectedRoute u adm of
             Allow \<Rightarrow> Page pg
           | Redirect_login \<Rightarrow> Redirect ''/login''
           | Redirect_home \<Rightarrow> Redirect ''/home''))"

definition AppContent :: "session \<Rightarrow> path \<Rightarrow> view" where
  "AppContent s p =
     (if loading s then Loading_screen
      else Shell (if show_sidebar s p
                  then Some (if app_is_admin (user s) then Admin_sidebar else User_sidebar)
                  else None)
                 (route_content (user s) p))"

subsection \<open>Lemmas\<close>

lemma AppContent_ready:
  "\<not> loading s \<Longrightarrow>
   AppContent s p =
     Shell (if show_sidebar s p
            then Some (if app_is_admin (user s) then Admin_sidebar else User_sidebar) else None)
           (route_content (user s) p)"
  by (simp add: AppContent_def)

lemma route_match_admin: "route_match ''/admin'' = Some (AdminDashboard_page, Protected True)"
  by (simp add: route_match_def route_key_def js_prim_defs)

lemma route_match_home: "route_match ''/home'' = Some (Home_page, Protected False)"
  by (simp add: route_match_def route_key_def js_prim_defs)

lemma route_match_login: "route_match ''/login'' = Some (Login_page, Public)"
  by (simp add: route_match_def route_key_def js_prim_defs)

lemma admin_not_public: "''/admin'' \<notin> set noSidebarPaths"
  by (simp add: noSidebarPaths_def)

lemma home_not_public: "''/home'' \<notin> set noSidebarPaths"
  by (simp add: noSidebarPaths_def)

lemma js_lower_admin [simp]: "js_lower ''admin'' = ''admin''"
  by (simp add: js_prim_defs)

subsection \<open>Properties of the router\<close>

text \<open>C7: while the session resolves a stored token the router renders the loading screen
  for every path, so no redirect can happen before the identity is known; once the reply is
  in, it never renders the loading screen again.\<close>

theorem AppContent_waits_for_identity:
  assumes "js_truthy (ls_token st)"
  shows "AppContent (mount_settled st) p = Loading_screen
         \<and> AppContent (mount_session st r) q \<noteq> Loading_screen"
proof -
  have "loading (mount_settled st)" using assms by (simp add: mount_settled_simps)
  moreover have "\<not> loading (mount_session st r)"
    using assms by (simp add: mount_session_token session_defs)
  ultimately show ?thesis by (simp add: AppContent_def)
qed

lemma AppContent_waits_for_identity_witness:
  "AppContent (mount_settled \<lparr>ls_user = None, ls_token = Some ''t'', ls_auth = None\<rparr>) ''/admin''
     = Loading_screen"
  using AppContent_waits_for_identity [of "\<lparr>ls_user = None, ls_token = Some ''t'', ls_auth = None\<rparr>"]
  by simp

text \<open>C8: once the session is resolved, a visitor with no identity who asks for any
  protected path is redirected to the login page, with no sidebar.\<close>

theorem AppContent_anonymous_to_login:
  assumes "\<not> loading s" and "user s = None" and "route_match p = Some (pg, Protected adm)"
  shows "AppContent s p = Shell None (Redirect ''/login'')"
  using assms by (simp add: AppContent_def show_sidebar_def route_content_def)

lemma AppContent_anonymous_to_login_witness:
  "AppContent \<lparr>user = None, loading = False,
               storage = \<lparr>ls_user = None, ls_token = None, ls_auth = None\<rparr>\<rparr> ''/admin''
     = Shell None (Redirect ''/login'')"
  using AppContent_anonymous_to_login [OF _ _ route_match_admin] by simp

text \<open>C17: the admin link of the user sidebar is dead code: the router only renders the user
  sidebar for identities whose role is not \<open>admin\<close> in any case, and the sidebar shows
  its link only for the role spelled exactly \<open>admin\<close>.\<close>

theorem user_sidebar_has_no_admin_link:
  assumes "AppContent s p = Shell (Some User_sidebar) c"
  shows "\<not> sidebar_admin_link (user s) \<and> sidebar_user_tabs (user s)"
  using assms
  by (auto simp: AppContent_def app_is_admin_def sidebar_admin_link_def sidebar_user_tabs_def
                 role_is_admin_def split: if_splits option.splits)

lemma user_sidebar_has_no_admin_link_witness:
  "AppContent \<lparr>user = Some \<lparr>userId = Some 1, username = None, email = None, fname = None,
                              lname = None, role = Some ''USER'', mname = None\<rparr>,
               loading = False, storage = \<lparr>ls_user = None, ls_token = None, ls_auth = None\<rparr>\<rparr>
     ''/home'' = Shell (Some User_sidebar) (Page Home_page)
   \<and> \<not> sidebar_admin_link (Some \<lparr>userId = Some 1, username = None, email = None, fname = None,
                              lname = None, role = Some ''USER'', mname = None\<rparr>)"
proof -
  let ?u = "\<lparr>userId = Some (1::nat), username = None, email = None, fname = None,
             lname = None, role = Some ''USER'', mname = None\<rparr>"
  let ?s = "\<lparr>user = Some ?u, loading = False,
             storage = \<lparr>ls_user = None, ls_token = None, ls_auth = None\<rparr>\<rparr>"
  have v: "AppContent ?s ''/home'' = Shell (Some User_sidebar) (Page Home_page)"
    by (simp add: AppContent_def show_sidebar_def home_not_public app_is_admin_def
                  role_is_admin_def route_content_def route_match_home js_prim_defs)
  then show ?thesis using user_sidebar_has_no_admin_link [OF v] by simp
qed

text \<open>C19: the Login page's wider admin test (the e-mail domain) cannot escalate privilege:
  an identity that is not an admin by role but has the admin domain is sent to
  \<open>/admin\<close>, and the router answers that navigation with a redirect to \<open>/home\<close>.\<close>

theorem login_admin_heuristic_blocked:
  assumes "\<not> loading s" and "login_is_admin u" and "\<not> role_is_admin u"
  shows "snd (handleLogin (Login_accepted u) s) = Login_navigate ''/admin''
         \<and> AppContent (fst (handleLogin (Login_accepted u) s)) ''/admin''
             = Shell (Some User_sidebar) (Redirect ''/home'')"
  using assms
  by (simp add: handleLogin_def AppContent_def show_sidebar_def admin_not_public
                app_is_admin_def route_content_def route_match_admin ProtectedRoute_def)

lemma login_admin_heuristic_blocked_witness:
  "snd (handleLogin (Login_accepted \<lparr>userId = Some 2, username = Some ''bob'',
                                     email = Some ''bob@wildcatsf.com'', fname = None,
                                     lname = None, role = Some ''USER'', mname = None\<rparr>)
        \<lparr>user = None, loading = False, storage = \<lparr>ls_user = None, ls_token = None, ls_auth = None\<rparr>\<rparr>)
     = Login_navigate ''/admin''"
proof -
  let ?u = "\<lparr>userId = Some (2::nat), username = Some ''bob'', email = Some ''bob@wildcatsf.com'',
             fname = None, lname = None, role = Some ''USER'', mname = None\<rparr>"
  have a: "login_is_admin ?u"
    by (simp add: login_is_admin_def wildcats_domain_def js_prim_defs)
  have b: "\<not> role_is_admin ?u"
    by (simp add: role_is_admin_def js_prim_defs)
  show ?thesis using login_admin_heuristic_blocked [OF _ a b] by simp
qed

end
