(* ===== verification/Items.thy ===== *)
theory Items
  imports Prelude
begin

text \<open>
  Items as the client sees them, and the parts of the client that read or change their
  status: the Home page's filter, search and counters and its mount sequence
  (\<open>src/frontend/src/pages/Home/Home.js\<close>), the admin dashboard's item filter and status
  buttons (\<open>AdminDashboard.js\<close>), and the status the owner's edit form sends back
  (\<open>ReportItem.js\<close>). The status arrives as a string; \<open>parse_status\<close> reads it into the
  enumeration, keeping unknown strings, and \<open>status_name\<close> writes it back. The status
  changes the admin's buttons make (\<open>admin_status_step\<close>) and all those the client can
  make, the owner's edit included (\<open>ui_status_step\<close>), are inductive relations.
\<close>

subsection \<open>Data\<close>

datatype item_status = LOST | FOUND | CLAIMED | RETURNED | REUNITED | Other_status string

record item =
  itemId :: item_id
  itemTitle :: "string option"
  itemDesc :: "string option"
  location :: "string option"
  categoryName :: "string option"
  status :: item_status
  item_userId :: user_id
  dateReport :: "string option"
  imageUrl :: "string option"

fun status_name :: "item_status \<Rightarrow> string" where
  "status_name LOST = ''LOST''"
| "status_name FOUND = ''FOUND''"
| "status_name CLAIMED = ''CLAIMED''"
| "status_name RETURNED = ''RETURNED''"
| "status_name REUNITED = ''REUNITED''"
| "status_name (Other_status s) = s"

definition known_status_names :: "string list" where
  "known_status_names = [''LOST'', ''FOUND'', ''CLAIMED'', ''RETURNED'', ''REUNITED'']"

definition parse_status :: "string \<Rightarrow> item_status" where
  "parse_status s =
     (if s = ''LOST'' then LOST else if s = ''FOUND'' then FOUND
      else if s = ''CLAIMED'' then CLAIMED else if s = ''RETURNED'' then RETURNED
      else if s = ''REUNITED'' then REUNITED else Other_status s)"

fun wf_status :: "item_status \<Rightarrow> bool" where
  "wf_status (Other_status s) = (s \<notin> set known_status_names)"
| "wf_status _ = True"

subsection \<open>Home: filter and search\<close>

datatype home_filter = Filter_all | Filter_lost | Filter_found | Filter_reunited

text \<open>One disjunct of the search: \<open>(field && field.toLowerCase().includes(query))\<close>.\<close>

definition field_matches :: "string option \<Rightarrow> string \<Rightarrow> bool" where
  "field_matches f q \<longleftrightarrow> js_truthy f \<and> js_includes (js_lower (the f)) q"

definition home_item_visible :: "home_filter \<Rightarrow> string \<Rightarrow> item \<Rightarrow> bool" where
  "home_item_visible flt searchQuery it =
     (if flt = Filter_lost \<and> status it \<noteq> LOST then False
      else if flt = Filter_found \<and> status it \<noteq> FOUND then False
      else if flt = Filter_reunited \<and> status it \<noteq> REUNITED then False
      else if searchQuery \<noteq> []
        then (let q = js_lower searchQuery in
              field_matches (itemTitle it) q \<or> field_matches (itemDesc it) q
              \<or> field_matches (location it) q \<or> field_matches (categoryName it) q)
      else True)"

definition filteredItems :: "home_filter \<Rightarrow> string \<Rightarrow> item list \<Rightarrow> item list" where
  "filteredItems flt searchQuery xs = filter (home_item_visible flt searchQuery) xs"

subsection \<open>Home: counters and the mount sequence\<close>

record home_stats =
  activeCount :: nat
  lostCount :: nat
  foundCount :: nat
  reunitedCount :: nat

definition count_status :: "item_status \<Rightarrow> item list \<Rightarrow> nat" where
  "count_status st xs = length (filter (\<lambda>it. status it = st) xs)"

definition stats_of_items :: "item list \<Rightarrow> home_stats" where
  "stats_of_items xs =
     \<lparr>activeCount = count_status LOST xs + count_status FOUND xs,
      lostCount = count_status LOST xs, foundCount = count_status FOUND xs,
      reunitedCount = count_status REUNITED xs\<rparr>"

record home_state =
  items :: "item list"
  home_loading :: bool
  counts :: home_stats

text \<open>The body of \<open>GET /api/items/stats\<close>: each counter may be missing (\<open>|| 0\<close>).\<close>

record stats_json =
  sj_active :: "nat option"
  sj_lost :: "nat option"
  sj_found :: "nat option"
  sj_reunited :: "nat option"

datatype stats_reply = Stats_ok "stats_json option" | Stats_not_ok | Stats_error

datatype items_reply = Items_array "item list" | Items_object item | Items_not_ok | Items_error

definition zero_stats :: home_stats where
  "zero_stats = \<lparr>activeCount = 0, lostCount = 0, foundCount = 0, reunitedCount = 0\<rparr>"

definition home_init :: home_state where
  "home_init = \<lparr>items = [], home_loading = True, counts = zero_stats\<rparr>"

definition stats_of_json :: "stats_json \<Rightarrow> home_stats" where
  "stats_of_json d =
     \<lparr>activeCount = case_option 0 id (sj_active d), lostCount = case_option 0 id (sj_lost d),
      foundCount = case_option 0 id (sj_found d), reunitedCount = case_option 0 id (sj_reunited d)\<rparr>"

text \<open>The effect on \<open>[items]\<close>: counters recomputed when the list is not empty.\<close>

definition items_stats_effect :: "'a home_state_scheme \<Rightarrow> 'a home_state_scheme" where
  "items_stats_effect h =
     (if items h \<noteq> [] then h\<lparr>counts := stats_of_items (items h)\<rparr> else h)"

definition fetchAllItems :: "items_reply \<Rightarrow> 'a home_state_scheme \<Rightarrow> 'a home_state_scheme" where
  "fetchAllItems r h =
     items_stats_effect
       (h\<lparr>items := (case r of Items_array xs \<Rightarrow> xs | Items_object x \<Rightarrow> [x] | _ \<Rightarrow> []),
          home_loading := False\<rparr>)"

text \<open>The mount effect calls \<open>fetchStats\<close> only; \<open>fetchAllItems\<close> runs only from the
  branches of \<open>fetchStats\<close> where the counters could not be read.\<close>

definition fetchStats :: "stats_reply \<Rightarrow> items_reply \<Rightarrow> 'a home_state_scheme \<Rightarrow> 'a home_state_scheme" where
  "fetchStats sr ir h =
     (case sr of
        Stats_ok (Some d) \<Rightarrow> h\<lparr>counts := stats_of_json d\<rparr>
      | _ \<Rightarrow> fetchAllItems ir h)"

definition home_mount :: "stats_reply \<Rightarrow> items_reply \<Rightarrow> home_state" where
  "home_mount sr ir = fetchStats sr ir (items_stats_effect home_init)"

subsection \<open>Admin dashboard: item filter and status buttons\<close>

definition admin_filtered_items :: "string \<Rightarrow> item list \<Rightarrow> item list" where
  "admin_filtered_items filterStatus xs =
     (if filterStatus = ''all'' then xs
      else filter (\<lambda>it. status_name (status it) = filterStatus) xs)"

text \<open>The Approve/Return buttons, on the card and in the details modal.\<close>

definition status_actions_offered :: "item_status \<Rightarrow> bool" where
  "status_actions_offered s \<longleftrightarrow> status_name s \<noteq> ''CLAIMED'' \<and> status_name s \<noteq> ''RETURNED''"

text \<open>The status the owner's edit form sends: \<open>handleEditClick\<close> copies the item's status
  (or \<open>""\<close>) into the form, the select may replace it with \<open>LOST\<close> or \<open>FOUND\<close>, and
  \<open>handleUpdateSubmit\<close> sends it upper-cased.\<close>

definition edit_form_status :: "item \<Rightarrow> string option \<Rightarrow> string" where
  "edit_form_status it selected =
     js_upper (case selected of None \<Rightarrow> status_name (status it) | Some v \<Rightarrow> v)"

definition edit_select_options :: "string list" where
  "edit_select_options = [''LOST'', ''FOUND'']"

subsection \<open>The status lifecycle the UI exposes\<close>

text \<open>A status change the admin dashboard can request (the server is trusted to store the
  status it is sent).\<close>

inductive admin_status_step :: "item_status \<Rightarrow> item_status \<Rightarrow> bool" where
  mark_claimed: "status_actions_offered s \<Longrightarrow> admin_status_step s CLAIMED"
| mark_returned: "status_actions_offered s \<Longrightarrow> admin_status_step s RETURNED"

text \<open>Every status change a client can request: the admin's, and the owner's edit of one
  of their items, which is offered whatever the item's status.\<close>

inductive ui_status_step :: "item_status \<Rightarrow> item_status \<Rightarrow> bool" where
  admin: "admin_status_step s t \<Longrightarrow> ui_status_step s t"
| owner_edit: "v \<in> set edit_select_options \<Longrightarrow>
     ui_status_step (status it)
       (parse_status (edit_form_status it (Some v)))"
| owner_edit_unchanged: "ui_status_step (status it) (parse_status (edit_form_status it None))"

subsection \<open>Lemmas\<close>

lemma status_name_parse_status [simp]: "status_name (parse_status x) = x"
  by (simp add: parse_status_def)

lemma wf_parse_status [simp]: "wf_status (parse_status x)"
  by (simp add: parse_status_def known_status_names_def)

lemma status_actions_offered_iff:
  "wf_status s \<Longrightarrow> status_actions_offered s \<longleftrightarrow> s \<noteq> CLAIMED \<and> s \<noteq> RETURNED"
  by (cases s) (auto simp: status_actions_offered_def known_status_names_def)

lemma not_offered_CLAIMED [simp]: "\<not> status_actions_offered CLAIMED"
  and not_offered_RETURNED [simp]: "\<not> status_actions_offered RETURNED"
  by (simp_all add: status_actions_offered_def)

lemma offered_LOST [simp]: "status_actions_offered LOST"
  and offered_FOUND [simp]: "status_actions_offered FOUND"
  by (simp_all add: status_actions_offered_def)

inductive_cases admin_status_stepE [elim!]: "admin_status_step s t"

lemma admin_status_step_target: "admin_status_step s t \<Longrightarrow> t = CLAIMED \<or> t = RETURNED"
  by auto

lemma admin_status_step_from_terminal:
  "admin_status_step s t \<Longrightarrow> s \<noteq> CLAIMED \<and> s \<noteq> RETURNED"
  by auto

lemma count_status_Cons:
  "count_status st (it # xs) = (if status it = st then Suc (count_status st xs) else count_status st xs)"
  by (simp add: count_status_def)

lemma home_item_visible_no_query:
  "home_item_visible flt [] =
     (\<lambda>it. case flt of Filter_all \<Rightarrow> True | Filter_lost \<Rightarrow> status it = LOST
      | Filter_found \<Rightarrow> status it = FOUND | Filter_reunited \<Rightarrow> status it = REUNITED)"
  by (rule ext) (cases flt; simp add: home_item_visible_def)

lemma field_matches_iff:
  "q \<noteq> [] \<Longrightarrow> field_matches f q \<longleftrightarrow> (\<exists>t. f = Some t \<and> (\<exists>a b. js_lower t = a @ q @ b))"
  by (cases f) (auto simp: field_matches_def js_includes_iff)

subsection \<open>Properties of the item views\<close>

text \<open>With an empty search box, each status filter of the Home page keeps exactly the
  items with that status, in their original order, and "All Items" keeps every item.\<close>

theorem filteredItems_by_status:
  "filteredItems Filter_lost [] xs = filter (\<lambda>it. status it = LOST) xs
   \<and> filteredItems Filter_found [] xs = filter (\<lambda>it. status it = FOUND) xs
   \<and> filteredItems Filter_reunited [] xs = filter (\<lambda>it. status it = REUNITED) xs
   \<and> filteredItems Filter_all [] xs = xs"
  by (simp add: filteredItems_def home_item_visible_no_query)

lemma filteredItems_by_status_witness:
  "filteredItems Filter_lost []
     [\<lparr>itemId = 1, itemTitle = None, itemDesc = None, location = None, categoryName = None,
       status = LOST, item_userId = 1, dateReport = None, imageUrl = None\<rparr>,
      \<lparr>itemId = 2, itemTitle = None, itemDesc = None, location = None, categoryName = None,
       status = FOUND, item_userId = 1, dateReport = None, imageUrl = None\<rparr>]
   = [\<lparr>itemId = 1, itemTitle = None, itemDesc = None, location = None, categoryName = None,
       status = LOST, item_userId = 1, dateReport = None, imageUrl = None\<rparr>]"
  using filteredItems_by_status
          [of "[\<lparr>itemId = 1, itemTitle = None, itemDesc = None, location = None, categoryName = None,
                 status = LOST, item_userId = 1, dateReport = None, imageUrl = None\<rparr>,
                \<lparr>itemId = 2, itemTitle = None, itemDesc = None, location = None, categoryName = None,
                 status = FOUND, item_userId = 1, dateReport = None, imageUrl = None\<rparr>]"]
  by simp

text \<open>C20: the search is a case-insensitive substring match on title, description, location
  or category: an item passes a non-empty query exactly when it passes the status filter and
  one of the four fields, lower-cased, contains the lower-cased query.\<close>

theorem filteredItems_search:
  assumes "q \<noteq> []"
  shows "filteredItems flt q xs =
    filter (\<lambda>it. home_item_visible flt [] it \<and>
      ((\<exists>t. itemTitle it = Some t \<and> (\<exists>a b. js_lower t = a @ js_lower q @ b))
       \<or> (\<exists>t. itemDesc it = Some t \<and> (\<exists>a b. js_lower t = a @ js_lower q @ b))
       \<or> (\<exists>t. location it = Some t \<and> (\<exists>a b. js_lower t = a @ js_lower q @ b))
       \<or> (\<exists>t. categoryName it = Some t \<and> (\<exists>a b. js_lower t = a @ js_lower q @ b)))) xs"
proof -
  have q: "js_lower q \<noteq> []" using assms by simp
  show ?thesis
    unfolding filteredItems_def
    by (rule filter_cong)
       (use assms in \<open>auto simp: home_item_visible_def field_matches_iff [OF q] Let_def\<close>)
qed

lemma filteredItems_search_witness:
  "filteredItems Filter_all ''BACK''
     [\<lparr>itemId = 1, itemTitle = Some ''Blue Backpack'', itemDesc = None, location = None,
       categoryName = None, status = FOUND, item_userId = 1, dateReport = None, imageUrl = None\<rparr>]
   = [\<lparr>itemId = 1, itemTitle = Some ''Blue Backpack'', itemDesc = None, location = None,
       categoryName = None, status = FOUND, item_userId = 1, dateReport = None, imageUrl = None\<rparr>]"
proof -
  have q: "''BACK'' \<noteq> []" by simp
  have m: "\<exists>a b. js_lower ''Blue Backpack'' = a @ js_lower ''BACK'' @ b"
    by (rule exI [of _ "''blue ''"], rule exI [of _ "''pack''"]) (simp add: js_prim_defs)
  show ?thesis
    using m by (simp only: filteredItems_search [OF q]) (simp add: home_item_visible_no_query)
qed

text \<open>C11: when the statistics endpoint answers with a body, the Home page never fetches
  the item list: it keeps an empty list and its loading flag stays on, whatever the items
  endpoint would have answered.\<close>

theorem home_mount_stats_ok_never_loads:
  "home_mount (Stats_ok (Some d)) ir = \<lparr>items = [], home_loading = True, counts = stats_of_json d\<rparr>"
  by (simp add: home_mount_def fetchStats_def items_stats_effect_def home_init_def)

lemma home_mount_stats_ok_never_loads_witness:
  "home_loading (home_mount (Stats_ok (Some \<lparr>sj_active = Some 3, sj_lost = Some 1, sj_found = Some 2,
                                            sj_reunited = None\<rparr>)) Items_error)
   \<and> items (home_mount (Stats_ok (Some \<lparr>sj_active = Some 3, sj_lost = Some 1, sj_found = Some 2,
                                        sj_reunited = None\<rparr>)) Items_error) = []"
  using home_mount_stats_ok_never_loads
          [of "\<lparr>sj_active = Some 3, sj_lost = Some 1, sj_found = Some 2, sj_reunited = None\<rparr>" Items_error]
  by simp

text \<open>When the statistics endpoint fails, the Home page falls back to the item list:
  it shows the items the server sent and counts them itself.\<close>

theorem home_mount_fallback_counts:
  assumes "\<forall>d. sr \<noteq> Stats_ok (Some d)"
  shows "home_mount sr (Items_array xs) =
           \<lparr>items = xs, home_loading = False,
            counts = (if xs = [] then zero_stats else stats_of_items xs)\<rparr>"
  using assms
  by (cases sr rule: stats_reply.exhaust)
     (auto simp: home_mount_def fetchStats_def fetchAllItems_def items_stats_effect_def
                 home_init_def split: option.split)

lemma home_mount_fallback_counts_witness:
  "home_mount Stats_not_ok (Items_array []) =
     \<lparr>items = [], home_loading = False, counts = zero_stats\<rparr>"
  using home_mount_fallback_counts [of Stats_not_ok "[]"] by simp

end
