(* ===== verification/Claims.thy ===== *)
theory Claims
  imports Items Session
begin

text \<open>
  The Claim Lifecycle Manager: filing a claim from the Home page (\<open>handleMineButtonClick\<close>
  in \<open>src/frontend/src/pages/Home/Home.js\<close>), the claim page's aggregation of the claims
  received on one's own items and of one's own claims (\<open>fetchClaimsData\<close> in
  \<open>pages/Claim/Claim.js\<close>), the owner's Approve/Reject buttons there, and the admin's
  Verify buttons (\<open>updateClaimStatus\<close> in \<open>AdminDashboard.js\<close>). What the server does
  with a created, approved, rejected or verified claim is not in this repository; it is
  modelled from the spec's interface section (\<open>server_create\<close>, \<open>server_approve\<close>,
  \<open>server_reject\<close>, \<open>server_verify\<close>). Two inductive sets describe what the client can
  bring about: \<open>claim_reach\<close>, the claims themselves, and \<open>claim_hist\<close>, histories
  (newest first) in which each decision is taken on a copy of the claim the deciding page
  last fetched, which may be any earlier version, as the Claim page and the dashboard
  decide on their last fetched list.
\<close>

subsection \<open>Data\<close>

datatype claim_status = PENDING | APPROVED | REJECTED

record claim =
  claimId :: claim_id
  claim_itemId :: item_id
  claim_userId :: user_id
  verificationAnswer :: "string option"
  claim_status :: claim_status
  verified :: bool

text \<open>The body \<open>handleMineButtonClick\<close> posts to \<open>/api/claims\<close>.\<close>

record claim_payload =
  cp_itemId :: item_id
  cp_userId :: user_id
  cp_verificationAnswer :: string
  cp_status :: string
  cp_verified :: bool

subsection \<open>Filing a claim from the Home page\<close>

text \<open>The reply of \<open>POST /api/claims\<close> as the handler reads it: a 2xx body that parses
  (the new claim id and status) or does not, a non-2xx body that parses (its \<open>message\<close>
  field and the body's own string form) or does not (its text and status code), or a thrown
  exception.\<close>

datatype claim_post_reply =
    Post_created claim_id string
  | Post_created_unparsable
  | Post_rejected_json "string option" string
  | Post_rejected_text string nat
  | Post_network_error

datatype mine_outcome =
    Mine_blocked string
  | Mine_submitted claim_id string
  | Mine_submitted_unparsable
  | Mine_error string

text \<open>The claimant is \<open>user\<close>, the prompt's answer is \<open>None\<close> when the prompt was
  cancelled. The result is the body posted, if any, and what the user is told.\<close>

definition handleMineButtonClick ::
  "app_user option \<Rightarrow> item \<Rightarrow> string option \<Rightarrow> claim_post_reply
   \<Rightarrow> claim_payload option \<times> mine_outcome" where
  "handleMineButtonClick u it answer r =
     (case u of
        None \<Rightarrow> (None, Mine_blocked ''Please log in to claim an item'')
      | Some v \<Rightarrow>
          (case userId v of
             None \<Rightarrow> (None, Mine_blocked ''Please log in to claim an item'')
           | Some uid \<Rightarrow>
               if uid = 0 then (None, Mine_blocked ''Please log in to claim an item'')
               else if item_userId it = uid
               then (None, Mine_blocked ''You cannot claim your own reported item'')
               else if \<not> js_truthy answer \<or> js_trim (the answer) = []
               then (None, Mine_blocked ''Verification details are required to claim an item'')
               else
                 (Some \<lparr>cp_itemId = itemId it, cp_userId = uid,
                        cp_verificationAnswer = js_trim (the answer),
                        cp_status = ''PENDING'', cp_verified = False\<rparr>,
                  case r of
                    Post_created cid st \<Rightarrow> Mine_submitted cid st
                  | Post_created_unparsable \<Rightarrow> Mine_submitted_unparsable
                  | Post_rejected_json msg repr \<Rightarrow> Mine_error (js_or msg repr)
                  | Post_rejected_text txt code \<Rightarrow>
                      Mine_error (js_or (Some txt) (''Server error: '' @ js_string_of_nat code))
                  | Post_network_error \<Rightarrow>
                      Mine_error ''Network error. Please check your connection and try again.'')))"

subsection \<open>The claim page: aggregation\<close>

text \<open>A JSON reply as \<open>res.json()\<close> leaves it: an array of claims, some other value, or a
  thrown exception.\<close>

datatype claims_reply = Claims_array "claim list" | Claims_other | Claims_error

record claim_page =
  claimsOnMyItems :: "(claim \<times> item) list"
  myClaims :: "claims_reply"
  claim_loading :: bool

text \<open>Claims on one item: a failed fetch is caught and becomes \<open>[]\<close>, a non-array has no
  positive \<open>length\<close>; both contribute nothing. (A JSON string reply is not modelled.)
  Each claim is paired with its item.\<close>

definition claims_for_item :: "(item_id \<Rightarrow> claims_reply) \<Rightarrow> item \<Rightarrow> (claim \<times> item) list" where
  "claims_for_item f it =
     (case f (itemId it) of Claims_array cs \<Rightarrow> map (\<lambda>c. (c, it)) cs | _ \<Rightarrow> [])"

definition received_claims :: "item list \<Rightarrow> (item_id \<Rightarrow> claims_reply) \<Rightarrow> (claim \<times> item) list" where
  "received_claims xs f = concat (map (claims_for_item f) xs)"

text \<open>\<open>fetchClaimsData\<close>: the user's items (a non-array makes \<open>userItems.map\<close> throw),
  the claims of each item, then the user's own claims (stored as they come; a failure there
  leaves the previous value).\<close>

definition fetchClaimsData ::
  "items_reply \<Rightarrow> (item_id \<Rightarrow> claims_reply) \<Rightarrow> claims_reply \<Rightarrow> 'a claim_page_scheme \<Rightarrow> 'a claim_page_scheme" where
  "fetchClaimsData ir f mr p =
     (case ir of
        Items_array xs \<Rightarrow>
          (let p1 = p\<lparr>claimsOnMyItems := received_claims xs f\<rparr> in
           case mr of
             Claims_error \<Rightarrow> p1\<lparr>claim_loading := False\<rparr>
           | _ \<Rightarrow> p1\<lparr>myClaims := mr, claim_loading := False\<rparr>)
      | _ \<Rightarrow> p\<lparr>claim_loading := False\<rparr>)"

subsection \<open>Decisions on a claim\<close>

text \<open>The owner's Approve/Reject buttons are rendered for claims whose status is
  \<open>PENDING\<close>; the admin's Approve/Reject Claim buttons for claims not yet verified, and
  both of the admin's buttons call the verify endpoint, with \<open>true\<close> and \<open>false\<close>.\<close>

definition owner_decision_offered :: "claim \<Rightarrow> bool" where
  "owner_decision_offered c \<longleftrightarrow> claim_status c = PENDING"

definition admin_verify_offered :: "claim \<Rightarrow> bool" where
  "admin_verify_offered c \<longleftrightarrow> \<not> verified c"

definition admin_claim_filter :: "string \<Rightarrow> claim list \<Rightarrow> claim list" where
  "admin_claim_filter filterStatus cs =
     (if filterStatus = ''all'' then cs
      else if filterStatus = ''pending'' then filter (\<lambda>c. \<not> verified c) cs
      else if filterStatus = ''verified'' then filter verified cs
      else cs)"

text \<open>The server's side, from the spec's interface section.\<close>

definition server_create :: "claim_id \<Rightarrow> claim_payload \<Rightarrow> claim" where
  "server_create cid p =
     \<lparr>claimId = cid, claim_itemId = cp_itemId p, claim_userId = cp_userId p,
      verificationAnswer = Some (cp_verificationAnswer p),
      claim_status = PENDING,
      verified = cp_verified p\<rparr>"

definition server_approve :: "claim \<Rightarrow> claim" where
  "server_approve c = c\<lparr>claim_status := APPROVED, verified := True\<rparr>"

definition server_reject :: "claim \<Rightarrow> claim" where
  "server_reject c = c\<lparr>claim_status := REJECTED\<rparr>"

definition server_verify :: "bool \<Rightarrow> claim \<Rightarrow> claim" where
  "server_verify b c = c\<lparr>verified := b\<rparr>"

text \<open>The claim's lifecycle: created from a posted body, then changed by the decisions the
  client offers.\<close>

inductive claim_reach :: "claim \<Rightarrow> bool" where
  created: "fst (handleMineButtonClick u it a r) = Some p \<Longrightarrow> claim_reach (server_create cid p)"
| owner_approve: "claim_reach c \<Longrightarrow> owner_decision_offered c \<Longrightarrow> claim_reach (server_approve c)"
| owner_reject: "claim_reach c \<Longrightarrow> owner_decision_offered c \<Longrightarrow> claim_reach (server_reject c)"
| admin_verify: "claim_reach c \<Longrightarrow> admin_verify_offered c \<Longrightarrow> claim_reach (server_verify b c)"

text \<open>The same lifecycle as the pages see it: each page decides which buttons to show
  from the copy of the claim it last fetched, which may be any earlier version, while the
  server applies the decision to the current one. A history lists the versions, newest
  first.\<close>

inductive claim_hist :: "claim list \<Rightarrow> bool" where
  created: "fst (handleMineButtonClick u it a r) = Some p \<Longrightarrow> claim_hist [server_create cid p]"
| owner_approve: "claim_hist (c # h) \<Longrightarrow> v \<in> set (c # h) \<Longrightarrow> owner_decision_offered v
                  \<Longrightarrow> claim_hist (server_approve c # c # h)"
| owner_reject: "claim_hist (c # h) \<Longrightarrow> v \<in> set (c # h) \<Longrightarrow> owner_decision_offered v
                 \<Longrightarrow> claim_hist (server_reject c # c # h)"
| admin_verify: "claim_hist (c # h) \<Longrightarrow> v \<in> set (c # h) \<Longrightarrow> admin_verify_offered v
                 \<Longrightarrow> claim_hist (server_verify b c # c # h)"

subsection \<open>The claim page: tabs, decisions and rendering\<close>

datatype claim_tab = Tab_myItems | Tab_myClaims

record claim_view = claim_page +
  claim_activeTab :: claim_tab

definition claim_view_init :: claim_view where
  "claim_view_init =
     \<lparr>claimsOnMyItems = [], myClaims = Claims_array [], claim_loading = True, claim_activeTab = Tab_myItems\<rparr>"

text \<open>The effect that loads the page: it runs \<open>fetchClaimsData\<close> only for a user with a
  (truthy) id.\<close>

definition claim_mount ::
  "app_user option \<Rightarrow> items_reply \<Rightarrow> (item_id \<Rightarrow> claims_reply) \<Rightarrow> claims_reply
   \<Rightarrow> 'a claim_page_scheme \<Rightarrow> 'a claim_page_scheme" where
  "claim_mount u ir f mr p =
     (case u of
        Some v \<Rightarrow> (case userId v of Some uid \<Rightarrow> if uid = 0 then p else fetchClaimsData ir f mr p | None \<Rightarrow> p)
      | None \<Rightarrow> p)"

definition claim_setActiveTab :: "claim_tab \<Rightarrow> 'a claim_view_scheme \<Rightarrow> 'a claim_view_scheme" where
  "claim_setActiveTab t p = p\<lparr>claim_activeTab := t\<rparr>"

text \<open>The reply of \<open>PUT /api/claims/{id}/approve\<close> or \<open>/reject\<close>.\<close>

datatype decision_reply = Decision_ok | Decision_not_ok | Decision_error

text \<open>\<open>handleApprove\<close> and \<open>handleReject\<close>: the text of the \<open>alert\<close> shown and the page
  after it; an accepted decision reloads the page with \<open>fetchClaimsData\<close>, whose replies
  are the last three arguments.\<close>

definition claim_decision ::
  "string \<Rightarrow> string \<Rightarrow> string \<Rightarrow> decision_reply \<Rightarrow> items_reply \<Rightarrow> (item_id \<Rightarrow> claims_reply)
   \<Rightarrow> claims_reply \<Rightarrow> 'a claim_page_scheme \<Rightarrow> string \<times> 'a claim_page_scheme" where
  "claim_decision ok_msg fail_msg err_msg r ir f mr p =
     (case r of
        Decision_ok \<Rightarrow> (ok_msg, fetchClaimsData ir f mr p)
      | Decision_not_ok \<Rightarrow> (fail_msg, p)
      | Decision_error \<Rightarrow> (err_msg, p))"

definition handleApprove ::
  "decision_reply \<Rightarrow> items_reply \<Rightarrow> (item_id \<Rightarrow> claims_reply) \<Rightarrow> claims_reply
   \<Rightarrow> 'a claim_page_scheme \<Rightarrow> string \<times> 'a claim_page_scheme" where
  "handleApprove = claim_decision ''Claim approved successfully!'' ''Failed to approve claim''
                     ''Error approving claim''"

definition handleReject ::
  "decision_reply \<Rightarrow> items_reply \<Rightarrow> (item_id \<Rightarrow> claims_reply) \<Rightarrow> claims_reply
   \<Rightarrow> 'a claim_page_scheme \<Rightarrow> string \<times> 'a claim_page_scheme" where
  "handleReject = claim_decision ''Claim rejected successfully!'' ''Failed to reject claim''
                    ''Error rejecting claim''"

text \<open>What the page shows: the loading line, the empty state, or one card per claim with
  whether its Approve/Reject buttons are shown. A \<open>myClaims\<close> value that is not an array
  has no \<open>length\<close> equal to 0, and its \<open>map\<close> throws during rendering.\<close>

datatype claim_screen =
    Claims_loading
  | Claims_empty
  | Claims_cards "(claim_id \<times> bool) list"
  | Claims_crash

definition claim_render :: "'a claim_view_scheme \<Rightarrow> claim_screen" where
  "claim_render p =
     (if claim_loading p then Claims_loading
      else if claim_activeTab p = Tab_myItems then
        (if claimsOnMyItems p = [] then Claims_empty
         else Claims_cards (map (\<lambda>(c, it). (claimId c, owner_decision_offered c)) (claimsOnMyItems p)))
      else
        (case myClaims p of
           Claims_array [] \<Rightarrow> Claims_empty
         | Claims_array cs \<Rightarrow> Claims_cards (map (\<lambda>c. (claimId c, False)) cs)
         | _ \<Rightarrow> Claims_crash))"

text \<open>The server's claim table, from the spec's interface section: the claims it holds,
  the ones it lists for an item, and an approval or rejection by id.\<close>

definition store_claims_for :: "claim list \<Rightarrow> item_id \<Rightarrow> claims_reply" where
  "store_claims_for cs i = Claims_array (filter (\<lambda>c. claim_itemId c = i) cs)"

definition store_decide :: "(claim \<Rightarrow> claim) \<Rightarrow> claim_id \<Rightarrow> claim list \<Rightarrow> claim list" where
  "store_decide g cid cs = map (\<lambda>c. if claimId c = cid then g c else c) cs"

subsection \<open>Lemmas\<close>

lemma handleMineButtonClick_posted:
  assumes "fst (handleMineButtonClick u it a r) = Some p"
  shows "\<exists>v uid. u = Some v \<and> userId v = Some uid \<and> uid \<noteq> 0 \<and> item_userId it \<noteq> uid
           \<and> js_truthy a \<and> js_trim (the a) \<noteq> []
           \<and> p = \<lparr>cp_itemId = itemId it, cp_userId = uid,
                   cp_verificationAnswer = js_trim (the a),
                   cp_status = ''PENDING'', cp_verified = False\<rparr>"
  using assms
  by (auto simp: handleMineButtonClick_def split: option.splits if_splits)

lemma posted_payload_unverified:
  "fst (handleMineButtonClick u it a r) = Some p \<Longrightarrow> \<not> cp_verified p"
  by (auto dest: handleMineButtonClick_posted)

lemma received_claims_append [simp]:
  "received_claims (xs @ ys) f = received_claims xs f @ received_claims ys f"
  by (simp add: received_claims_def)

lemma received_claims_Cons [simp]:
  "received_claims (it # xs) f = claims_for_item f it @ received_claims xs f"
  by (simp add: received_claims_def)

lemma received_claims_Nil [simp]: "received_claims [] f = []"
  by (simp add: received_claims_def)

lemma fetchClaimsData_items_array:
  "claimsOnMyItems (fetchClaimsData (Items_array xs) f mr p) = received_claims xs f
   \<and> \<not> claim_loading (fetchClaimsData (Items_array xs) f mr p)"
  by (simp add: fetchClaimsData_def Let_def split: claims_reply.split)

lemma server_approve_simps [simp]:
  "claim_status (server_approve c) = APPROVED" "verified (server_approve c)"
  by (simp_all add: server_approve_def)

lemma server_reject_simps [simp]:
  "claim_status (server_reject c) = REJECTED" "verified (server_reject c) = verified c"
  by (simp_all add: server_reject_def)

lemma server_verify_simps [simp]:
  "claim_status (server_verify b c) = claim_status c" "verified (server_verify b c) = b"
  by (simp_all add: server_verify_def)

lemma server_create_simps [simp]:
  "claim_status (server_create cid p) = PENDING" "verified (server_create cid p) = cp_verified p"
  by (simp_all add: server_create_def)

lemma set_claims_for_item:
  "(c, it) \<in> set (claims_for_item f x) \<longleftrightarrow>
     x = it \<and> (\<exists>cs. f (itemId it) = Claims_array cs \<and> c \<in> set cs)"
  by (cases "f (itemId x)") (auto simp: claims_for_item_def)

lemma set_received_claims:
  "(c, it) \<in> set (received_claims xs f) \<longleftrightarrow>
     it \<in> set xs \<and> (\<exists>cs. f (itemId it) = Claims_array cs \<and> c \<in> set cs)"
  by (auto simp: received_claims_def set_claims_for_item)

lemma store_decide_decided:
  "c \<in> set (store_decide g cid cs) \<Longrightarrow> claimId c = cid \<Longrightarrow> \<exists>c0. c = g c0"
  by (auto simp: store_decide_def split: if_splits)

lemma fetchClaimsData_activeTab [simp]: "claim_activeTab (fetchClaimsData ir f mr p) = claim_activeTab p"
  by (simp add: fetchClaimsData_def Let_def split: items_reply.split claims_reply.split)

lemma fetchClaimsData_myClaims:
  "mr \<noteq> Claims_error \<Longrightarrow> myClaims (fetchClaimsData (Items_array xs) f mr p) = mr"
  by (cases mr) (simp_all add: fetchClaimsData_def Let_def)

text \<open>After an accepted decision the page reloads from the server's table; when every claim
  with the decided id has left \<open>PENDING\<close> there, none of its cards offers the buttons again.\<close>

lemma decision_refresh_hides_buttons:
  assumes "\<And>c. claim_status (g c) \<noteq> PENDING" and "claim_activeTab p = Tab_myItems"
    and "claim_render (snd (claim_decision m1 m2 m3 Decision_ok (Items_array xs)
                              (store_claims_for (store_decide g cid cs)) mr p)) = Claims_cards cards"
  shows "(cid, True) \<notin> set cards"
proof
  assume "(cid, True) \<in> set cards"
  then obtain c it where "(c, it) \<in> set (received_claims xs (store_claims_for (store_decide g cid cs)))"
    and "claimId c = cid" and "claim_status c = PENDING"
    using assms(2,3) fetchClaimsData_items_array [of xs _ mr p]
    by (auto simp: claim_decision_def claim_render_def owner_decision_offered_def split: if_splits)
  then have "c \<in> set (store_decide g cid cs)" and "claimId c = cid" and "claim_status c = PENDING"
    by (auto simp: set_received_claims store_claims_for_def)
  then show False using assms(1) store_decide_decided by metis
qed

text \<open>Every claim \<open>claim_reach\<close> produces, with each page looking at the current version,
  is the current version of some history.\<close>

lemma claim_reach_hist: "claim_reach c \<Longrightarrow> \<exists>h. claim_hist (c # h)"
proof (induction rule: claim_reach.induct)
  case (created u it a r p cid)
  then show ?case using claim_hist.created by blast
next
  case (owner_approve c)
  then show ?case using claim_hist.owner_approve by (meson list.set_intros(1))
next
  case (owner_reject c)
  then show ?case using claim_hist.owner_reject by (meson list.set_intros(1))
next
  case (admin_verify c b)
  then show ?case using claim_hist.admin_verify by (meson list.set_intros(1))
qed

subsection \<open>Properties of the claim manager\<close>

text \<open>C10: a user who tries to claim an item they reported themselves is refused before any
  request is made: no body is posted, and the user is told why.\<close>

theorem claim_own_item_refused:
  assumes "userId v = Some uid" and "uid \<noteq> 0" and "item_userId it = uid"
  shows "handleMineButtonClick (Some v) it a r
           = (None, Mine_blocked ''You cannot claim your own reported item'')"
  using assms by (simp add: handleMineButtonClick_def)

lemma claim_own_item_refused_witness:
  "handleMineButtonClick
     (Some \<lparr>userId = Some 5, username = None, email = None, fname = None, lname = None,
            role = Some ''USER'', mname = None\<rparr>)
     \<lparr>itemId = 9, itemTitle = Some ''Blue Backpack'', itemDesc = None, location = None,
      categoryName = None, status = FOUND, item_userId = 5, dateReport = None, imageUrl = None\<rparr>
     (Some ''mine'') Post_network_error
   = (None, Mine_blocked ''You cannot claim your own reported item'')"
  by (rule claim_own_item_refused [where uid = 5]) simp_all

text \<open>A claim whose verification answer is missing or only white space is refused
  before any request is made.\<close>

theorem claim_blank_answer_refused:
  assumes "userId v = Some uid" and "uid \<noteq> 0" and "item_userId it \<noteq> uid"
    and "js_trim a = []"
  shows "handleMineButtonClick (Some v) it (Some a) r
           = (None, Mine_blocked ''Verification details are required to claim an item'')"
  using assms by (simp add: handleMineButtonClick_def)

lemma claim_blank_answer_refused_witness:
  "handleMineButtonClick
     (Some \<lparr>userId = Some 6, username = None, email = None, fname = None, lname = None,
            role = Some ''USER'', mname = None\<rparr>)
     \<lparr>itemId = 9, itemTitle = Some ''Blue Backpack'', itemDesc = None, location = None,
      categoryName = None, status = FOUND, item_userId = 5, dateReport = None, imageUrl = None\<rparr>
     (Some ''  '') Post_network_error
   = (None, Mine_blocked ''Verification details are required to claim an item'')"
proof -
  have t: "js_trim ''  '' = []" by (simp add: js_prim_defs)
  show ?thesis by (rule claim_blank_answer_refused [where uid = 6]) (simp_all add: t)
qed

text \<open>C22: a claim by another user with a non-blank answer is posted as a pending,
  unverified claim of that user on that item, carrying the trimmed answer.\<close>

theorem claim_posted_pending:
  assumes "userId v = Some uid" and "uid \<noteq> 0" and "item_userId it \<noteq> uid"
    and "js_trim a \<noteq> []"
  shows "fst (handleMineButtonClick (Some v) it (Some a) r) =
           Some \<lparr>cp_itemId = itemId it, cp_userId = uid, cp_verificationAnswer = js_trim a,
                 cp_status = ''PENDING'', cp_verified = False\<rparr>"
  using assms by (cases a) (simp_all add: handleMineButtonClick_def)

lemma claim_posted_pending_witness:
  "fst (handleMineButtonClick
     (Some \<lparr>userId = Some 6, username = None, email = None, fname = None, lname = None,
            role = Some ''USER'', mname = None\<rparr>)
     \<lparr>itemId = 9, itemTitle = Some ''Blue Backpack'', itemDesc = None, location = None,
      categoryName = None, status = FOUND, item_userId = 5, dateReport = None, imageUrl = None\<rparr>
     (Some '' cat keychain '') (Post_created 1 ''PENDING''))
   = Some \<lparr>cp_itemId = 9, cp_userId = 6, cp_verificationAnswer = ''cat keychain'',
           cp_status = ''PENDING'', cp_verified = False\<rparr>"
proof -
  have t: "js_trim '' cat keychain '' = ''cat keychain''" by (simp add: js_prim_defs)
  show ?thesis
    using claim_posted_pending [of "\<lparr>userId = Some 6, username = None, email = None, fname = None,
              lname = None, role = Some ''USER'', mname = None\<rparr>" 6
      "\<lparr>itemId = 9, itemTitle = Some ''Blue Backpack'', itemDesc = None, location = None,
        categoryName = None, status = FOUND, item_userId = 5, dateReport = None, imageUrl = None\<rparr>"
      "'' cat keychain ''" "Post_created 1 ''PENDING''"] t
    by simp
qed

text \<open>C9: the aggregation of received claims isolates failures: an item whose claims
  cannot be fetched (an exception, or a reply that is an object, not an array) contributes
  no claims,
  the other items' claims are kept in order, and the page leaves its loading state.\<close>

theorem received_claims_isolate_failure:
  assumes "f (itemId it) = Claims_error \<or> f (itemId it) = Claims_other"
  shows "claimsOnMyItems (fetchClaimsData (Items_array (xs @ it # ys)) f mr p)
           = received_claims xs f @ received_claims ys f
         \<and> \<not> claim_loading (fetchClaimsData (Items_array (xs @ it # ys)) f mr p)"
proof -
  have "claims_for_item f it = []"
    using assms by (auto simp: claims_for_item_def)
  then show ?thesis using fetchClaimsData_items_array [of "xs @ it # ys" f mr p] by simp
qed

lemma received_claims_isolate_failure_witness:
  "claimsOnMyItems
     (fetchClaimsData
        (Items_array [\<lparr>itemId = 1, itemTitle = None, itemDesc = None, location = None,
                        categoryName = None, status = FOUND, item_userId = 5, dateReport = None,
                        imageUrl = None\<rparr>,
                      \<lparr>itemId = 2, itemTitle = None, itemDesc = None, location = None,
                        categoryName = None, status = FOUND, item_userId = 5, dateReport = None,
                        imageUrl = None\<rparr>,
                      \<lparr>itemId = 3, itemTitle = None, itemDesc = None, location = None,
                        categoryName = None, status = LOST, item_userId = 5, dateReport = None,
                        imageUrl = None\<rparr>])
        (\<lambda>i. if i = 2 then Claims_error
             else Claims_array [\<lparr>claimId = i, claim_itemId = i, claim_userId = 6,
                                 verificationAnswer = None, claim_status = PENDING,
                                 verified = False\<rparr>])
        (Claims_array []) \<lparr>claimsOnMyItems = [], myClaims = Claims_array [], claim_loading = True\<rparr>)
   = [(\<lparr>claimId = 1, claim_itemId = 1, claim_userId = 6, verificationAnswer = None,
        claim_status = PENDING, verified = False\<rparr>,
       \<lparr>itemId = 1, itemTitle = None, itemDesc = None, location = None, categoryName = None,
        status = FOUND, item_userId = 5, dateReport = None, imageUrl = None\<rparr>),
      (\<lparr>claimId = 3, claim_itemId = 3, claim_userId = 6, verificationAnswer = None,
        claim_status = PENDING, verified = False\<rparr>,
       \<lparr>itemId = 3, itemTitle = None, itemDesc = None, location = None, categoryName = None,
        status = LOST, item_userId = 5, dateReport = None, imageUrl = None\<rparr>)]"
  using received_claims_isolate_failure
    [of "\<lambda>i. if i = 2 then Claims_error
             else Claims_array [\<lparr>claimId = i, claim_itemId = i, claim_userId = 6,
                                 verificationAnswer = None, claim_status = PENDING,
                                 verified = False\<rparr>]"
        "\<lparr>itemId = 2, itemTitle = None, itemDesc = None, location = None,
          categoryName = None, status = FOUND, item_userId = 5, dateReport = None, imageUrl = None\<rparr>"
        "[\<lparr>itemId = 1, itemTitle = None, itemDesc = None, location = None,
           categoryName = None, status = FOUND, item_userId = 5, dateReport = None, imageUrl = None\<rparr>]"
        "[\<lparr>itemId = 3, itemTitle = None, itemDesc = None, location = None,
           categoryName = None, status = LOST, item_userId = 5, dateReport = None, imageUrl = None\<rparr>]"
        "Claims_array []" "\<lparr>claimsOnMyItems = [], myClaims = Claims_array [], claim_loading = True\<rparr>"]
  by (simp add: claims_for_item_def)

text \<open>C16: the two fields that track a claim's outcome drift apart: the admin's Approve
  Claim button verifies a claim that stays \<open>PENDING\<close>, and verifies a claim the owner has
  already rejected.\<close>

theorem claim_verified_status_diverge:
  "(\<exists>c. claim_reach c \<and> verified c \<and> claim_status c = PENDING)
   \<and> (\<exists>c. claim_reach c \<and> verified c \<and> claim_status c = REJECTED)"
proof -
  let ?p = "\<lparr>cp_itemId = 9, cp_userId = 6, cp_verificationAnswer = ''cat'',
             cp_status = ''PENDING'', cp_verified = False\<rparr>"
  have h: "fst (handleMineButtonClick
     (Some \<lparr>userId = Some 6, username = None, email = None, fname = None, lname = None,
            role = Some ''USER'', mname = None\<rparr>)
     \<lparr>itemId = 9, itemTitle = None, itemDesc = None, location = None,
      categoryName = None, status = FOUND, item_userId = 5, dateReport = None, imageUrl = None\<rparr>
     (Some ''cat'') Post_network_error) = Some ?p"
    by (simp add: handleMineButtonClick_def js_prim_defs)
  have c: "claim_reach (server_create 1 ?p)" by (rule claim_reach.created [OF h])
  have v: "claim_reach (server_verify True (server_create 1 ?p))"
    by (rule claim_reach.admin_verify [OF c]) (simp add: admin_verify_offered_def)
  then have a: "\<exists>c. claim_reach c \<and> verified c \<and> claim_status c = PENDING" by fastforce
  have j: "claim_reach (server_reject (server_create 1 ?p))"
    by (rule claim_reach.owner_reject [OF c]) (simp add: owner_decision_offered_def)
  have w: "claim_reach (server_verify True (server_reject (server_create 1 ?p)))"
    by (rule claim_reach.admin_verify [OF j]) (simp add: admin_verify_offered_def)
  then have "\<exists>c. claim_reach c \<and> verified c \<and> claim_status c = REJECTED" by fastforce
  with a show ?thesis by blast
qed

lemma claim_verified_status_diverge_witness:
  "\<exists>c. claim_reach c \<and> verified c \<and> claim_status c \<noteq> APPROVED"
  using claim_verified_status_diverge by auto

text \<open>C23: the client breaks the rule that an approved claim is verified. The admin's
  dashboard shows Reject Claim on the copy of the claim it last fetched; when the owner has
  approved the claim since, that click sends \<open>verified = false\<close> for a claim the server
  holds as approved, which leaves it approved and unverified.\<close>

theorem claim_approved_unverified_reachable:
  "\<exists>c h. claim_hist (c # h) \<and> claim_status c = APPROVED \<and> \<not> verified c"
proof -
  let ?p = "\<lparr>cp_itemId = 9, cp_userId = 6, cp_verificationAnswer = ''cat'',
             cp_status = ''PENDING'', cp_verified = False\<rparr>"
  have h: "fst (handleMineButtonClick
     (Some \<lparr>userId = Some 6, username = None, email = None, fname = None, lname = None,
            role = Some ''USER'', mname = None\<rparr>)
     \<lparr>itemId = 9, itemTitle = None, itemDesc = None, location = None,
      categoryName = None, status = FOUND, item_userId = 5, dateReport = None, imageUrl = None\<rparr>
     (Some ''cat'') Post_network_error) = Some ?p"
    by (simp add: handleMineButtonClick_def js_prim_defs)
  let ?c0 = "server_create 1 ?p"
  have h0: "claim_hist [?c0]" by (rule claim_hist.created [OF h])
  have h1: "claim_hist [server_approve ?c0, ?c0]"
    using claim_hist.owner_approve [OF h0, of ?c0] by (simp add: owner_decision_offered_def)
  have h2: "claim_hist [server_verify False (server_approve ?c0), server_approve ?c0, ?c0]"
    using claim_hist.admin_verify [OF h1, of ?c0 False] by (simp add: admin_verify_offered_def)
  then show ?thesis by fastforce
qed

text \<open>C37: once the owner approves or rejects a claim and the server records it, the Claim
  page reloads and no longer offers Approve/Reject for that claim.\<close>

theorem approve_reject_final:
  assumes "claim_activeTab p = Tab_myItems"
  shows "(claim_render (snd (handleApprove Decision_ok (Items_array xs)
            (store_claims_for (store_decide server_approve cid cs)) mr p)) = Claims_cards cards
          \<longrightarrow> (cid, True) \<notin> set cards)
         \<and> (claim_render (snd (handleReject Decision_ok (Items_array xs)
            (store_claims_for (store_decide server_reject cid cs)) mr p)) = Claims_cards cards'
          \<longrightarrow> (cid, True) \<notin> set cards')"
  unfolding handleApprove_def handleReject_def
  by (intro conjI impI; rule decision_refresh_hides_buttons) (simp_all add: assms)

lemma approve_reject_final_witness:
  "claim_render (snd (handleApprove Decision_ok
      (Items_array [\<lparr>itemId = 9, itemTitle = None, itemDesc = None, location = None,
         categoryName = None, status = FOUND, item_userId = 5, dateReport = None, imageUrl = None\<rparr>])
      (store_claims_for (store_decide server_approve 1
         [\<lparr>claimId = 1, claim_itemId = 9, claim_userId = 6, verificationAnswer = Some ''cat'',
           claim_status = PENDING, verified = False\<rparr>]))
      (Claims_array []) claim_view_init)) = Claims_cards [(1, False)]
   \<and> (1, True) \<notin> set [(1::nat, False)]"
proof -
  let ?xs = "[\<lparr>itemId = 9, itemTitle = None, itemDesc = None, location = None,
         categoryName = None, status = FOUND, item_userId = 5, dateReport = None, imageUrl = None\<rparr>]"
  let ?cs = "[\<lparr>claimId = 1, claim_itemId = 9, claim_userId = 6, verificationAnswer = Some ''cat'',
           claim_status = PENDING, verified = False\<rparr>]"
  have r: "claim_render (snd (handleApprove Decision_ok (Items_array ?xs)
      (store_claims_for (store_decide server_approve 1 ?cs)) (Claims_array []) claim_view_init))
      = Claims_cards [(1, False)]"
    by (simp add: handleApprove_def claim_decision_def fetchClaimsData_def claim_render_def
                  claim_view_init_def store_claims_for_def store_decide_def claims_for_item_def
                  owner_decision_offered_def server_approve_def)
  have "claim_activeTab (claim_view_init :: claim_view) = Tab_myItems"
    by (simp add: claim_view_init_def)
  from approve_reject_final [OF this, where xs = ?xs and cid = 1 and cs = ?cs and mr = "Claims_array []"
                               and cards = "[(1, False)]"] r
  show ?thesis by simp
qed

text \<open>A reply to the user's own claims that is JSON but not an array (the error object of a
  failing endpoint) is stored as it is; opening the My Claims tab then throws while rendering.\<close>

lemma my_claims_non_array_crashes:
  "claim_render (claim_setActiveTab Tab_myClaims (fetchClaimsData (Items_array xs) f Claims_other p))
   = Claims_crash"
  by (simp add: claim_render_def claim_setActiveTab_def fetchClaimsData_def)

text \<open>With no user id the effect never runs and the page stays on its loading line.\<close>

lemma claim_mount_no_id:
  "userId v = None \<Longrightarrow> claim_render (claim_mount (Some v) ir f mr claim_view_init) = Claims_loading"
  by (simp add: claim_mount_def claim_render_def claim_view_init_def)

end
