(* ===== verification/Report.thy ===== *)
theory Report
  imports Items Session
begin

text \<open>
  The report page, \<open>src/frontend/src/pages/ReportItem/ReportItem.js\<close>: the report form and
  its submission (\<open>handleSubmit\<close>), the list of the user's own reports
  (\<open>fetchReportedItems\<close>, \<open>refreshUserItems\<close>), deletion (\<open>handleDelete\<close>) and
  editing (\<open>handleEditClick\<close>, \<open>handleEditChange\<close>, \<open>handleUpdateSubmit\<close>,
  \<open>handleCancelEdit\<close>), the inputs' \<open>handleChange\<close>, the load of categories and
  departments, the panel chosen by the address and the image preview. Form
  fields are strings, as the inputs hold them; the browser's constraint validation of the
  \<open>required\<close> inputs runs before \<open>onSubmit\<close> and is modelled by \<open>form_submittable\<close>.
  The page's feedback is the \<open>message\<close> state shown by the \<open>Message\<close> component.
\<close>

subsection \<open>Data\<close>

record category =
  cat_categoryId :: nat
  cat_categoryName :: string

record department =
  dep_depId :: nat
  dep_depName :: string

record report_form =
  f_itemTitle :: string
  f_itemDesc :: string
  f_categoryId :: string
  f_departmentId :: string
  f_location :: string
  f_dateReport :: string
  f_status :: string
  f_image :: "string option"

text \<open>The multipart body posted to \<open>/api/items/report\<close>.\<close>

record report_payload =
  rp_itemTitle :: string
  rp_itemDesc :: string
  rp_location :: string
  rp_status :: string
  rp_userId :: "nat option"
  rp_categoryId :: nat
  rp_departmentId :: nat
  rp_dateReport :: string
  rp_image :: "string option"

datatype message_type = Msg_info | Msg_error | Msg_maroon

record message =
  msg_text :: string
  msg_type :: message_type
  msg_title :: string

text \<open>An item as \<open>/api/items/user/{userId}\<close> returns it: the shared item fields
  and the ids of its category and department, which the edit form reads.\<close>

record report_item = item +
  item_categoryId :: "nat option"
  item_departmentId :: "nat option"

record edit_form =
  e_itemTitle :: string
  e_itemDesc :: string
  e_categoryId :: string
  e_departmentId :: string
  e_status :: string
  e_dateReport :: string
  e_image :: "string option"

text \<open>The JSON body of \<open>PUT /api/items/{id}\<close>; \<open>up_imageUrl\<close> is the file name
  of a newly chosen image.\<close>

record update_payload =
  up_itemTitle :: string
  up_itemDesc :: string
  up_location :: string
  up_status :: string
  up_userId :: "nat option"
  up_categoryId :: nat
  up_departmentId :: nat
  up_dateReport :: string
  up_imageUrl :: string

record report_page =
  reportedItems :: "report_item list"
  page_message :: message
  formData :: report_form
  editingItem :: "item_id option"
  editFormData :: edit_form

subsection \<open>Submitting a report\<close>

text \<open>The \<open>required\<close> attribute blocks submission of an empty text, select or date input.\<close>

definition form_submittable :: "report_form \<Rightarrow> bool" where
  "form_submittable f \<longleftrightarrow>
     f_itemTitle f \<noteq> [] \<and> f_itemDesc f \<noteq> [] \<and> f_categoryId f \<noteq> [] \<and> f_departmentId f \<noteq> []
     \<and> f_status f \<noteq> [] \<and> f_dateReport f \<noteq> []"

definition empty_form :: "string \<Rightarrow> report_form" where
  "empty_form today =
     \<lparr>f_itemTitle = [], f_itemDesc = [], f_categoryId = [], f_departmentId = [], f_location = [],
      f_dateReport = today, f_status = ''FOUND'', f_image = None\<rparr>"

definition find_category :: "category list \<Rightarrow> string \<Rightarrow> category option" where
  "find_category cats cid = find (\<lambda>c. js_string_of_nat (cat_categoryId c) = cid) cats"

definition find_department :: "department list \<Rightarrow> string \<Rightarrow> department option" where
  "find_department deps did = find (\<lambda>d. js_string_of_nat (dep_depId d) = did) deps"

definition report_payload_of ::
  "app_user \<Rightarrow> report_form \<Rightarrow> category \<Rightarrow> department \<Rightarrow> report_payload" where
  "report_payload_of u f c d =
     \<lparr>rp_itemTitle = f_itemTitle f, rp_itemDesc = f_itemDesc f, rp_location = dep_depName d,
      rp_status = js_upper (f_status f), rp_userId = userId u,
      rp_categoryId = cat_categoryId c, rp_departmentId = dep_depId d,
      rp_dateReport = f_dateReport f, rp_image = f_image f\<rparr>"

text \<open>Reply of a JSON list endpoint as \<open>refreshUserItems\<close> reads it.\<close>

datatype list_reply = List_ok_array "report_item list" | List_ok_other | List_not_ok | List_error

datatype report_reply =
    Report_created report_item
  | Report_created_unparsable
  | Report_not_ok nat string
  | Report_network_error "string option"

definition refreshUserItems :: "app_user option \<Rightarrow> list_reply \<Rightarrow> 'a report_page_scheme \<Rightarrow> 'a report_page_scheme" where
  "refreshUserItems u r p =
     (case u of
        None \<Rightarrow> p
      | Some _ \<Rightarrow>
          (case r of
             List_ok_array xs \<Rightarrow> p\<lparr>reportedItems := xs\<rparr>
           | List_ok_other \<Rightarrow> p\<lparr>reportedItems := []\<rparr>
           | _ \<Rightarrow> p))"

definition error_message :: "string \<Rightarrow> string \<Rightarrow> message" where
  "error_message title txt = \<lparr>msg_text = txt, msg_type = Msg_error, msg_title = title\<rparr>"

text \<open>\<open>handleSubmit\<close>: the body posted, if any, and the page afterwards. \<open>today\<close> is the
  date the reset form starts with; \<open>rr\<close> is the reply of the refresh that follows a
  successful report.\<close>

definition handleSubmit ::
  "app_user option \<Rightarrow> category list \<Rightarrow> department list \<Rightarrow> report_reply \<Rightarrow> list_reply
   \<Rightarrow> string \<Rightarrow> 'a report_page_scheme \<Rightarrow> report_payload option \<times> 'a report_page_scheme" where
  "handleSubmit u cats deps r rr today p =
     (let f = formData p in
      case u of
        None \<Rightarrow>
          (None, p\<lparr>page_message := error_message ''Login Required'' ''Please log in to report an item''\<rparr>)
      | Some v \<Rightarrow>
          if f_categoryId f = [] \<or> f_departmentId f = []
          then (None, p\<lparr>page_message := error_message ''Missing Information''
                                           ''Please select both a category and a campus''\<rparr>)
          else
            (case (find_category cats (f_categoryId f), find_department deps (f_departmentId f)) of
               (Some c, Some d) \<Rightarrow>
                 (Some (report_payload_of v f c d),
                  case r of
                    Report_created it \<Rightarrow>
                      (refreshUserItems u rr (p\<lparr>reportedItems := it # reportedItems p\<rparr>))
                        \<lparr>page_message :=
                           \<lparr>msg_text = ''\"'' @ f_itemTitle f @ ''\" has been reported as ''
                                       @ js_lower (f_status f) @ '' at '' @ dep_depName d @ ''.'',
                            msg_type = Msg_maroon, msg_title = ''Item Reported Successfully!''\<rparr>,
                         formData := empty_form today\<rparr>
                  | Report_created_unparsable \<Rightarrow>
                      p\<lparr>page_message := error_message ''Error'' ''Invalid response from server''\<rparr>
                  | Report_not_ok code txt \<Rightarrow>
                      p\<lparr>page_message := error_message ''Error''
                           (''Server error: '' @ js_string_of_nat code @ '' - '' @ txt)\<rparr>
                  | Report_network_error m \<Rightarrow>
                      p\<lparr>page_message := error_message ''Error''
                           (js_or m ''Failed to report item. Please try again.'')\<rparr>)
             | _ \<Rightarrow> (None, p\<lparr>page_message := error_message ''Selection Error''
                               ''Invalid category or campus selection. Please try again.''\<rparr>)))"

text \<open>A submit event: the handler runs only when the browser's validation passes.\<close>

definition submit_report ::
  "app_user option \<Rightarrow> category list \<Rightarrow> department list \<Rightarrow> report_reply \<Rightarrow> list_reply
   \<Rightarrow> string \<Rightarrow> 'a report_page_scheme \<Rightarrow> report_payload option \<times> 'a report_page_scheme" where
  "submit_report u cats deps r rr today p =
     (if form_submittable (formData p) then handleSubmit u cats deps r rr today p else (None, p))"

subsection \<open>Loading and deleting the user's reports\<close>

text \<open>\<open>fetchReportedItems\<close>, run when \<open>user\<close> changes.\<close>

definition fetchReportedItems :: "app_user option \<Rightarrow> list_reply \<Rightarrow> 'a report_page_scheme \<Rightarrow> 'a report_page_scheme" where
  "fetchReportedItems u r p =
     (case u of
        None \<Rightarrow> p
      | Some _ \<Rightarrow>
          (case r of
             List_ok_array xs \<Rightarrow> p\<lparr>reportedItems := xs\<rparr>
           | List_error \<Rightarrow>
               p\<lparr>reportedItems := [],
                 page_message := error_message ''Load Error'' ''Failed to load your reported items''\<rparr>
           | _ \<Rightarrow> p\<lparr>reportedItems := []\<rparr>))"

datatype delete_reply = Delete_ok | Delete_not_ok string | Delete_error "string option"

definition handleDelete :: "item_id \<Rightarrow> bool \<Rightarrow> delete_reply \<Rightarrow> 'a report_page_scheme \<Rightarrow> 'a report_page_scheme" where
  "handleDelete i confirmed r p =
     (if \<not> confirmed then p
      else case r of
        Delete_ok \<Rightarrow>
          p\<lparr>reportedItems := filter (\<lambda>it. itemId it \<noteq> i) (reportedItems p),
            page_message := \<lparr>msg_text = ''Item has been deleted successfully'', msg_type = Msg_maroon,
                             msg_title = ''Item Deleted''\<rparr>\<rparr>
      | Delete_not_ok txt \<Rightarrow>
          p\<lparr>page_message := error_message ''Delete Failed'' (js_or (Some txt) ''Failed to delete item'')\<rparr>
      | Delete_error m \<Rightarrow> p\<lparr>page_message := error_message ''Error'' (js_or m ''Error deleting item'')\<rparr>)"

subsection \<open>Editing a report\<close>

text \<open>\<open>cond ? String(id) : ""\<close> on an optional numeric id (0 is falsy).\<close>

definition id_field :: "nat option \<Rightarrow> string" where
  "id_field k = (case k of Some n \<Rightarrow> if n = 0 then [] else js_string_of_nat n | None \<Rightarrow> [])"

definition handleEditClick :: "string \<Rightarrow> report_item \<Rightarrow> 'a report_page_scheme \<Rightarrow> 'a report_page_scheme" where
  "handleEditClick today it p =
     p\<lparr>editingItem := Some (itemId it),
       editFormData :=
         \<lparr>e_itemTitle = js_or (itemTitle it) [], e_itemDesc = js_or (itemDesc it) [],
          e_categoryId = id_field (item_categoryId it),
          e_departmentId = id_field (item_departmentId it),
          e_status = status_name (status it),
          e_dateReport = (if js_truthy (dateReport it) then take 10 (the (dateReport it)) else today),
          e_image = None\<rparr>\<rparr>"

datatype update_reply =
    Update_ok report_item
  | Update_unparsable
  | Update_not_ok nat string
  | Update_network_error "string option"

definition update_payload_of ::
  "app_user \<Rightarrow> edit_form \<Rightarrow> category \<Rightarrow> department \<Rightarrow> update_payload" where
  "update_payload_of u f c d =
     \<lparr>up_itemTitle = e_itemTitle f, up_itemDesc = e_itemDesc f, up_location = dep_depName d,
      up_status = js_upper (e_status f), up_userId = userId u,
      up_categoryId = cat_categoryId c, up_departmentId = dep_depId d,
      up_dateReport = e_dateReport f,
      up_imageUrl = (case e_image f of Some n \<Rightarrow> n | None \<Rightarrow> [])\<rparr>"

text \<open>\<open>handleUpdateSubmit\<close>, run by the Save button's \<open>onClick\<close>. The edit fields sit
  in a \<open>div\<close>, not a \<open>form\<close>, so their \<open>required\<close> attributes never block it.
  The server's reply carries every field of the item, so \<open>{...item, ...result}\<close> is
  the reply.\<close>

definition handleUpdateSubmit ::
  "app_user option \<Rightarrow> category list \<Rightarrow> department list \<Rightarrow> item_id \<Rightarrow> update_reply
   \<Rightarrow> list_reply \<Rightarrow> 'a report_page_scheme \<Rightarrow> update_payload option \<times> 'a report_page_scheme" where
  "handleUpdateSubmit u cats deps i r rr p =
     (let f = editFormData p in
      case u of
        None \<Rightarrow>
          (None, p\<lparr>page_message := error_message ''Login Required''
                                       ''You must be logged in to update items!''\<rparr>)
      | Some v \<Rightarrow>
          if e_categoryId f = [] \<or> e_departmentId f = []
          then (None, p\<lparr>page_message := error_message ''Missing Information''
                                           ''Please select both a category and a campus''\<rparr>)
          else
            (case (find_category cats (e_categoryId f), find_department deps (e_departmentId f)) of
               (Some c, Some d) \<Rightarrow>
                 (Some (update_payload_of v f c d),
                  case r of
                    Update_ok res \<Rightarrow>
                      refreshUserItems u rr
                        (p\<lparr>reportedItems :=
                              map (\<lambda>it. if itemId it = i then res else it) (reportedItems p),
                            editingItem := None,
                            page_message :=
                              \<lparr>msg_text = ''\"'' @ e_itemTitle f @ ''\" has been updated successfully'',
                               msg_type = Msg_maroon, msg_title = ''Item Updated''\<rparr>\<rparr>)
                  | Update_unparsable \<Rightarrow>
                      p\<lparr>page_message := error_message ''Update Failed'' ''Invalid response from server''\<rparr>
                  | Update_not_ok code txt \<Rightarrow>
                      p\<lparr>page_message := error_message ''Update Failed''
                           (''Server error: '' @ js_string_of_nat code @ '' - '' @ txt)\<rparr>
                  | Update_network_error m \<Rightarrow>
                      p\<lparr>page_message := error_message ''Update Failed''
                           (js_or m ''Failed to update item'')\<rparr>)
             | _ \<Rightarrow> (None, p\<lparr>page_message := error_message ''Selection Error''
                               ''Invalid category or campus selection. Please try again.''\<rparr>)))"

subsection \<open>The server's side\<close>

text \<open>\<open>POST /api/items/report\<close>, from the spec's interface section: the created item
  holds the posted fields, its status read from the posted string and its category's name.\<close>

definition server_report :: "item_id \<Rightarrow> string \<Rightarrow> report_payload \<Rightarrow> item" where
  "server_report i catName p =
     \<lparr>itemId = i, itemTitle = Some (rp_itemTitle p), itemDesc = Some (rp_itemDesc p),
      location = Some (rp_location p), categoryName = Some catName,
      status = parse_status (rp_status p),
      item_userId = (case rp_userId p of Some u \<Rightarrow> u | None \<Rightarrow> 0),
      dateReport = Some (rp_dateReport p), imageUrl = rp_image p\<rparr>"

subsection \<open>The page around the handlers\<close>

text \<open>The state the handlers above do not touch: the panel chosen by the address, the
  category and department lists the selects offer, and the preview of the chosen image.\<close>

datatype report_panel = Panel_report | Panel_list | Panel_tips

record report_view = report_page +
  activePanel :: report_panel
  categories :: "category list"
  departments :: "department list"
  imagePreview :: "string option"

text \<open>The effect run when \<open>location\<close> changes.\<close>

definition panel_of_path :: "string \<Rightarrow> report_panel" where
  "panel_of_path path =
     (if js_includes path ''/report-item/list'' then Panel_list
      else if js_includes path ''/report-item/tips'' then Panel_tips
      else Panel_report)"

definition location_changed :: "string \<Rightarrow> 'a report_view_scheme \<Rightarrow> 'a report_view_scheme" where
  "location_changed path p = p\<lparr>activePanel := panel_of_path path\<rparr>"

text \<open>\<open>fetchData\<close>, run once on mount: the categories, then the departments. A reply
  whose body does not parse is \<open>None\<close>; it throws, and the lists fetched before it stay.\<close>

definition fetchData ::
  "category list option \<Rightarrow> department list option \<Rightarrow> 'a report_view_scheme \<Rightarrow> 'a report_view_scheme" where
  "fetchData cr dr p =
     (let failed = (\<lambda>q. q\<lparr>page_message := error_message ''Load Error''
                                            ''Failed to load categories and departments''\<rparr>)
      in case cr of
           None \<Rightarrow> failed p
         | Some cats \<Rightarrow>
             (case dr of
                None \<Rightarrow> failed (p\<lparr>categories := cats\<rparr>)
              | Some deps \<Rightarrow> p\<lparr>categories := cats, departments := deps\<rparr>))"

text \<open>\<open>setFormData(prev => ({...prev, [name]: value}))\<close>: the input named \<open>name\<close>
  gets the value; a name that is no field of the form adds a key nothing reads.\<close>

definition set_form_field :: "string \<Rightarrow> string \<Rightarrow> report_form \<Rightarrow> report_form" where
  "set_form_field name v f =
     (if name = ''itemTitle'' then f\<lparr>f_itemTitle := v\<rparr>
      else if name = ''itemDesc'' then f\<lparr>f_itemDesc := v\<rparr>
      else if name = ''categoryId'' then f\<lparr>f_categoryId := v\<rparr>
      else if name = ''departmentId'' then f\<lparr>f_departmentId := v\<rparr>
      else if name = ''location'' then f\<lparr>f_location := v\<rparr>
      else if name = ''dateReport'' then f\<lparr>f_dateReport := v\<rparr>
      else if name = ''status'' then f\<lparr>f_status := v\<rparr>
      else f)"

text \<open>\<open>handleChange\<close>: an input's \<open>name\<close>, \<open>value\<close> and first chosen file (\<open>None\<close>
  when the file input is cleared). The preview of a chosen file arrives later, from the
  \<open>FileReader\<close>'s \<open>onloadend\<close>, as its own event.\<close>

definition handleChange ::
  "string \<Rightarrow> string \<Rightarrow> string option \<Rightarrow> 'a report_view_scheme \<Rightarrow> 'a report_view_scheme" where
  "handleChange name v file p =
     (if name = ''image'' then
        p\<lparr>formData := (formData p)\<lparr>f_image := file\<rparr>,
          imagePreview := (if file = None then None else imagePreview p)\<rparr>
      else p\<lparr>formData := set_form_field name v (formData p)\<rparr>)"

definition preview_loaded :: "string \<Rightarrow> 'a report_view_scheme \<Rightarrow> 'a report_view_scheme" where
  "preview_loaded dataUrl p = p\<lparr>imagePreview := Some dataUrl\<rparr>"

definition set_edit_field :: "string \<Rightarrow> string \<Rightarrow> edit_form \<Rightarrow> edit_form" where
  "set_edit_field name v f =
     (if name = ''itemTitle'' then f\<lparr>e_itemTitle := v\<rparr>
      else if name = ''itemDesc'' then f\<lparr>e_itemDesc := v\<rparr>
      else if name = ''categoryId'' then f\<lparr>e_categoryId := v\<rparr>
      else if name = ''departmentId'' then f\<lparr>e_departmentId := v\<rparr>
      else if name = ''status'' then f\<lparr>e_status := v\<rparr>
      else if name = ''dateReport'' then f\<lparr>e_dateReport := v\<rparr>
      else f)"

definition handleEditChange ::
  "string \<Rightarrow> string \<Rightarrow> string option \<Rightarrow> 'a report_page_scheme \<Rightarrow> 'a report_page_scheme" where
  "handleEditChange name v file p =
     (if name = ''image'' then p\<lparr>editFormData := (editFormData p)\<lparr>e_image := file\<rparr>\<rparr>
      else p\<lparr>editFormData := set_edit_field name v (editFormData p)\<rparr>)"

definition empty_edit_form :: edit_form where
  "empty_edit_form =
     \<lparr>e_itemTitle = [], e_itemDesc = [], e_categoryId = [], e_departmentId = [], e_status = [],
      e_dateReport = [], e_image = None\<rparr>"

definition handleCancelEdit :: "'a report_page_scheme \<Rightarrow> 'a report_page_scheme" where
  "handleCancelEdit p = p\<lparr>editingItem := None, editFormData := empty_edit_form\<rparr>"

text \<open>The \<open>Message\<close> component's \<open>onClose\<close>.\<close>

definition message_closed :: "'a report_page_scheme \<Rightarrow> 'a report_page_scheme" where
  "message_closed p = p\<lparr>page_message := \<lparr>msg_text = [], msg_type = Msg_info, msg_title = []\<rparr>\<rparr>"

text \<open>A submit of the form with the lists the selects were built from.\<close>

definition submit_view ::
  "app_user option \<Rightarrow> report_reply \<Rightarrow> list_reply \<Rightarrow> string \<Rightarrow> 'a report_view_scheme
   \<Rightarrow> report_payload option \<times> 'a report_view_scheme" where
  "submit_view u r rr today p = submit_report u (categories p) (departments p) r rr today p"

text \<open>The inputs of the open edit form, changed one after another.\<close>

definition edit_inputs ::
  "(string \<times> string \<times> string option) list \<Rightarrow> 'a report_page_scheme \<Rightarrow> 'a report_page_scheme" where
  "edit_inputs evs p = fold (\<lambda>(n, v, fl). handleEditChange n v fl) evs p"

definition form_inputs ::
  "(string \<times> string \<times> string option) list \<Rightarrow> 'a report_view_scheme \<Rightarrow> 'a report_view_scheme" where
  "form_inputs evs p = fold (\<lambda>(n, v, fl). handleChange n v fl) evs p"

text \<open>The values of the report form's Status select.\<close>

definition report_status_options :: "string list" where
  "report_status_options = [''LOST'', ''FOUND'']"

subsection \<open>Lemmas\<close>

lemma find_category_Nil [simp]: "find_category cats [] = None"
  and find_department_Nil [simp]: "find_department deps [] = None"
  by (simp_all add: find_category_def find_department_def find_None_iff)

lemma find_category_key:
  assumes "c \<in> set cats"
  obtains c' where "find_category cats (js_string_of_nat (cat_categoryId c)) = Some c'"
    and "cat_categoryId c' = cat_categoryId c"
  using find_key_Some [OF assms, of "\<lambda>c. js_string_of_nat (cat_categoryId c)"] that
  by (auto simp: find_category_def)

lemma find_department_distinct:
  assumes "distinct (map dep_depId deps)" and "d \<in> set deps"
  shows "find_department deps (js_string_of_nat (dep_depId d)) = Some d"
  unfolding find_department_def js_string_of_nat_eq_iff using assms by (rule find_key_distinct)

lemma js_string_of_nat_small: "n < 10 \<Longrightarrow> js_string_of_nat n = [char_of (48 + n)]"
  by (simp add: js_string_of_nat.simps)

lemma submit_report_valid:
  assumes "form_submittable (formData p)"
    and "find_category cats (f_categoryId (formData p)) = Some c"
    and "find_department deps (f_departmentId (formData p)) = Some d"
  shows "fst (submit_report (Some v) cats deps r rr today p) = Some (report_payload_of v (formData p) c d)"
  using assms by (simp add: submit_report_def handleSubmit_def form_submittable_def Let_def)

text \<open>The report page's edit refines the abstract owner edit of \<open>Items\<close>: the status an
  update sends is the item's own status or the one picked in the select, as
  \<open>ui_status_step\<close> says.\<close>

lemma handleUpdateSubmit_status:
  "fst (handleUpdateSubmit u cats deps i r rr p) = Some pl \<Longrightarrow>
   up_status pl = js_upper (e_status (editFormData p))"
  by (auto simp: handleUpdateSubmit_def update_payload_of_def Let_def
           split: option.splits if_splits prod.splits)

lemma edit_unchanged_refines:
  assumes "fst (handleUpdateSubmit u cats deps (itemId it) r rr (handleEditClick today it p)) = Some pl"
  shows "ui_status_step (status it) (parse_status (up_status pl))"
proof -
  have "up_status pl = edit_form_status (item.truncate it) None"
    using handleUpdateSubmit_status [OF assms]
    by (simp add: handleEditClick_def edit_form_status_def item.truncate_def)
  moreover have "status (item.truncate it) = status it" by (simp add: item.truncate_def)
  ultimately show ?thesis using ui_status_step.owner_edit_unchanged [of "item.truncate it"] by simp
qed

lemma edit_selected_refines:
  assumes "v \<in> set edit_select_options"
    and "fst (handleUpdateSubmit u cats deps (itemId it) r rr
               (let q = handleEditClick today it p in q\<lparr>editFormData := (editFormData q)\<lparr>e_status := v\<rparr>\<rparr>))
         = Some pl"
  shows "ui_status_step (status it) (parse_status (up_status pl))"
proof -
  have "up_status pl = edit_form_status (item.truncate it) (Some v)"
    using handleUpdateSubmit_status [OF assms(2)]
    by (simp add: handleEditClick_def edit_form_status_def Let_def)
  moreover have "status (item.truncate it) = status it" by (simp add: item.truncate_def)
  ultimately show ?thesis using ui_status_step.owner_edit [OF assms(1), of "item.truncate it"] by simp
qed

lemma edit_inputs_Cons [simp]:
  "edit_inputs (e # evs) p = edit_inputs evs (handleEditChange (fst e) (fst (snd e)) (snd (snd e)) p)"
  by (cases e) (simp add: edit_inputs_def)

lemma edit_inputs_status:
  assumes "\<forall>(n, v, fl) \<in> set evs. n = ''status'' \<longrightarrow> v \<in> set edit_select_options"
  shows "e_status (editFormData (edit_inputs evs q)) = e_status (editFormData q)
         \<or> e_status (editFormData (edit_inputs evs q)) \<in> set edit_select_options"
  using assms
proof (induction evs arbitrary: q)
  case Nil
  then show ?case by (simp add: edit_inputs_def)
next
  case (Cons e evs)
  obtain n v fl where e: "e = (n, v, fl)" by (cases e)
  have "e_status (editFormData (handleEditChange n v fl q)) = e_status (editFormData q)
        \<or> e_status (editFormData (handleEditChange n v fl q)) \<in> set edit_select_options"
    using Cons.prems e by (auto simp: handleEditChange_def set_edit_field_def)
  moreover have "e_status (editFormData (edit_inputs evs (handleEditChange n v fl q)))
                    = e_status (editFormData (handleEditChange n v fl q))
                  \<or> e_status (editFormData (edit_inputs evs (handleEditChange n v fl q)))
                    \<in> set edit_select_options"
    using Cons.IH [of "handleEditChange n v fl q"] Cons.prems by simp
  ultimately show ?case using e by auto
qed

lemma form_inputs_formData:
  "formData (form_inputs [(''itemTitle'', t, fl1), (''itemDesc'', ds, fl2), (''categoryId'', cid, fl3),
                          (''departmentId'', did, fl4), (''status'', s, fl5), (''dateReport'', dt, fl6)] p)
   = (formData p)\<lparr>f_itemTitle := t, f_itemDesc := ds, f_categoryId := cid, f_departmentId := did,
                   f_status := s, f_dateReport := dt\<rparr>"
  by (simp add: form_inputs_def handleChange_def set_form_field_def)

text \<open>Filling in every input of the form and submitting it posts what was typed and
  picked: the page's own lists resolve the selects.\<close>

lemma typed_report_posted:
  assumes "c \<in> set (categories p)" and "d \<in> set (departments p)"
    and "distinct (map dep_depId (departments p))"
    and "t \<noteq> []" and "ds \<noteq> []" and "s \<noteq> []" and "dt \<noteq> []"
  shows "\<exists>pl. fst (submit_view (Some v) r rr today
                 (form_inputs [(''itemTitle'', t, None), (''itemDesc'', ds, None),
                               (''categoryId'', js_string_of_nat (cat_categoryId c), None),
                               (''departmentId'', js_string_of_nat (dep_depId d), None),
                               (''status'', s, None), (''dateReport'', dt, None)] p)) = Some pl
           \<and> rp_itemTitle pl = t \<and> rp_itemDesc pl = ds \<and> rp_location pl = dep_depName d
           \<and> rp_status pl = js_upper s \<and> rp_userId pl = userId v
           \<and> rp_categoryId pl = cat_categoryId c \<and> rp_departmentId pl = dep_depId d
           \<and> rp_dateReport pl = dt \<and> rp_image pl = f_image (formData p)"
proof -
  let ?q = "form_inputs [(''itemTitle'', t, None), (''itemDesc'', ds, None),
                         (''categoryId'', js_string_of_nat (cat_categoryId c), None),
                         (''departmentId'', js_string_of_nat (dep_depId d), None),
                         (''status'', s, None), (''dateReport'', dt, None)] p"
  have f: "formData ?q = (formData p)\<lparr>f_itemTitle := t, f_itemDesc := ds,
             f_categoryId := js_string_of_nat (cat_categoryId c),
             f_departmentId := js_string_of_nat (dep_depId d), f_status := s, f_dateReport := dt\<rparr>"
    by (rule form_inputs_formData)
  have lists: "categories ?q = categories p" "departments ?q = departments p"
    by (simp_all add: form_inputs_def handleChange_def)
  obtain c' where c': "find_category (categories p) (js_string_of_nat (cat_categoryId c)) = Some c'"
    and k: "cat_categoryId c' = cat_categoryId c"
    using find_category_key [OF assms(1)] by blast
  have d': "find_department (departments p) (js_string_of_nat (dep_depId d)) = Some d"
    using find_department_distinct [OF assms(3,2)] .
  have "form_submittable (formData ?q)" using f assms(4-7) by (simp add: form_submittable_def)
  then have "fst (submit_view (Some v) r rr today ?q)
             = Some (report_payload_of v (formData ?q) c' d)"
    unfolding submit_view_def lists
    by (rule submit_report_valid) (simp_all add: f c' d')
  then show ?thesis using f k by (simp add: report_payload_of_def)
qed

lemma form_inputs_Cons [simp]:
  "form_inputs (e # evs) p = form_inputs evs (handleChange (fst e) (fst (snd e)) (snd (snd e)) p)"
  by (cases e) (simp add: form_inputs_def)

lemma form_inputs_status:
  assumes "\<forall>(n, v, fl) \<in> set evs. n = ''status'' \<longrightarrow> v \<in> set report_status_options"
    and "f_status (formData q) \<in> set report_status_options"
  shows "f_status (formData (form_inputs evs q)) \<in> set report_status_options
         \<and> categories (form_inputs evs q) = categories q \<and> departments (form_inputs evs q) = departments q"
  using assms
proof (induction evs arbitrary: q)
  case Nil
  then show ?case by (simp add: form_inputs_def)
next
  case (Cons e evs)
  obtain n v fl where e: "e = (n, v, fl)" by (cases e)
  have "f_status (formData (handleChange n v fl q)) \<in> set report_status_options"
    and "categories (handleChange n v fl q) = categories q"
    and "departments (handleChange n v fl q) = departments q"
    using Cons.prems e by (auto simp: handleChange_def set_form_field_def)
  with Cons.IH [of "handleChange n v fl q"] Cons.prems e show ?case by simp
qed

lemma find_category_mem: "find_category cats k = Some c \<Longrightarrow> c \<in> set cats"
  and find_department_mem: "find_department deps k = Some d \<Longrightarrow> d \<in> set deps"
  by (auto simp: find_category_def find_department_def find_Some_iff)

lemma js_upper_status_options: "v \<in> set report_status_options \<Longrightarrow> js_upper v = v"
  by (auto simp: report_status_options_def js_prim_defs)

lemma submit_view_payload:
  assumes "fst (submit_view u r rr today q) = Some pl"
  shows "\<exists>v c d. u = Some v \<and> c \<in> set (categories q) \<and> d \<in> set (departments q)
                 \<and> pl = report_payload_of v (formData q) c d"
  using assms
  by (auto simp: submit_view_def submit_report_def handleSubmit_def Let_def
           dest: find_category_mem find_department_mem split: if_splits option.splits)

subsection \<open>Properties of the report page\<close>

text \<open>C24: a valid report posts the department's display name as the location, the chosen
  status in upper case, the reporter's id and the selected category and department ids.\<close>

theorem submit_report_posts_department_location:
  assumes "form_submittable (formData p)"
    and "find_category cats (f_categoryId (formData p)) = Some c"
    and "find_department deps (f_departmentId (formData p)) = Some d"
  shows "\<exists>pl. fst (submit_report (Some v) cats deps r rr today p) = Some pl
           \<and> rp_location pl = dep_depName d \<and> rp_status pl = js_upper (f_status (formData p))
           \<and> rp_userId pl = userId v \<and> rp_itemTitle pl = f_itemTitle (formData p)
           \<and> rp_categoryId pl = cat_categoryId c \<and> rp_departmentId pl = dep_depId d"
  using submit_report_valid [OF assms] by (simp add: report_payload_of_def)

lemma submit_report_posts_department_location_witness:
  "\<exists>pl. fst (submit_report
           (Some \<lparr>userId = Some 1, username = Some ''alice'', email = None, fname = None,
                  lname = None, role = Some ''USER'', mname = None\<rparr>)
           [\<lparr>cat_categoryId = 3, cat_categoryName = ''Bags''\<rparr>]
           [\<lparr>dep_depId = 1, dep_depName = ''Main Campus''\<rparr>] Report_created_unparsable List_error
           ''2025-01-11''
           \<lparr>reportedItems = [], page_message = error_message [] [],
            formData = \<lparr>f_itemTitle = ''Blue Backpack'', f_itemDesc = ''navy'', f_categoryId = ''3'',
                        f_departmentId = ''1'', f_location = [], f_dateReport = ''2025-01-10'',
                        f_status = ''FOUND'', f_image = None\<rparr>,
            editingItem = None,
            editFormData = \<lparr>e_itemTitle = [], e_itemDesc = [], e_categoryId = [],
                            e_departmentId = [], e_status = [], e_dateReport = [], e_image = None\<rparr>\<rparr>)
         = Some pl
       \<and> rp_location pl = ''Main Campus'' \<and> rp_status pl = ''FOUND''"
proof -
  let ?u = "\<lparr>userId = Some (1::nat), username = Some ''alice'', email = None, fname = None,
             lname = None, role = Some ''USER'', mname = None\<rparr>"
  let ?p = "\<lparr>reportedItems = [], page_message = error_message [] [],
            formData = \<lparr>f_itemTitle = ''Blue Backpack'', f_itemDesc = ''navy'', f_categoryId = ''3'',
                        f_departmentId = ''1'', f_location = [], f_dateReport = ''2025-01-10'',
                        f_status = ''FOUND'', f_image = None\<rparr>,
            editingItem = None,
            editFormData = \<lparr>e_itemTitle = [], e_itemDesc = [], e_categoryId = [],
                            e_departmentId = [], e_status = [], e_dateReport = [], e_image = None\<rparr>\<rparr>"
  have f: "form_submittable (formData ?p)"
    by (simp add: form_submittable_def)
  have c: "find_category [\<lparr>cat_categoryId = 3, cat_categoryName = ''Bags''\<rparr>] (f_categoryId (formData ?p))
             = Some \<lparr>cat_categoryId = 3, cat_categoryName = ''Bags''\<rparr>"
    by (simp add: find_category_def js_string_of_nat_small char_of_def bit_simps)
  have d: "find_department [\<lparr>dep_depId = 1, dep_depName = ''Main Campus''\<rparr>] (f_departmentId (formData ?p))
             = Some \<lparr>dep_depId = 1, dep_depName = ''Main Campus''\<rparr>"
    by (simp add: find_department_def js_string_of_nat_small char_of_def bit_simps)
  show ?thesis
    using submit_report_posts_department_location
            [where v = ?u and r = Report_created_unparsable and rr = List_error
               and today = "''2025-01-11''", OF f c d]
    by (simp add: js_prim_defs, blast)
qed


text \<open>C25: a report is refused, with no request sent and neither the list nor the form
  changed, when no one is logged in or the selected category or department is not one of
  the loaded ones (an unselected one included).\<close>

theorem submit_report_rejects_invalid:
  assumes "u = None \<or> find_category cats (f_categoryId (formData p)) = None
           \<or> find_department deps (f_departmentId (formData p)) = None"
  shows "fst (submit_report u cats deps r rr today p) = None
         \<and> reportedItems (snd (submit_report u cats deps r rr today p)) = reportedItems p
         \<and> formData (snd (submit_report u cats deps r rr today p)) = formData p"
  using assms
  by (auto simp: submit_report_def handleSubmit_def Let_def split: option.splits)

lemma submit_report_rejects_invalid_witness:
  "fst (submit_report None [] [] Report_created_unparsable List_error [] \<lparr>reportedItems = [],
          page_message = error_message [] [],
          formData = \<lparr>f_itemTitle = ''x'', f_itemDesc = ''y'', f_categoryId = ''3'',
                      f_departmentId = ''1'', f_location = [], f_dateReport = ''2025-01-10'',
                      f_status = ''LOST'', f_image = None\<rparr>,
          editingItem = None,
          editFormData = \<lparr>e_itemTitle = [], e_itemDesc = [], e_categoryId = [],
                          e_departmentId = [], e_status = [], e_dateReport = [], e_image = None\<rparr>\<rparr>)
     = None"
  using submit_report_rejects_invalid [where u = None] by blast

text \<open>C26: after the server accepts a report the list is the server's refreshed list when
  the refresh succeeds, and the created item in front of the old list when it fails; the
  form is reset to its empty state dated today.\<close>

theorem report_created_list:
  assumes "fst (submit_report (Some v) cats deps (Report_created it) rr today p) \<noteq> None"
  shows "reportedItems (snd (submit_report (Some v) cats deps (Report_created it) rr today p))
           = (case rr of List_ok_array xs \<Rightarrow> xs | List_ok_other \<Rightarrow> []
                | _ \<Rightarrow> it # reportedItems p)
         \<and> formData (snd (submit_report (Some v) cats deps (Report_created it) rr today p))
           = empty_form today"
  using assms
  by (auto simp: submit_report_def handleSubmit_def refreshUserItems_def Let_def
           split: if_splits option.splits list_reply.splits)

text \<open>C27: deleting asks for confirmation: an unconfirmed delete changes nothing, a delete
  the server refuses or that fails keeps the list, and an accepted one removes every entry
  with that id and keeps every other entry.\<close>

theorem handleDelete_removes_item:
  "(\<not> c \<longrightarrow> handleDelete i c r p = p)
   \<and> (r \<noteq> Delete_ok \<longrightarrow> reportedItems (handleDelete i c r p) = reportedItems p)
   \<and> (c \<and> r = Delete_ok \<longrightarrow>
        (\<forall>it \<in> set (reportedItems (handleDelete i c r p)). itemId it \<noteq> i)
        \<and> (\<forall>it \<in> set (reportedItems p). itemId it \<noteq> i \<longrightarrow> it \<in> set (reportedItems (handleDelete i c r p))))"
  by (cases r) (auto simp: handleDelete_def)

text \<open>C28: the edit form is not validated: with title, description, status and date all
  blank the Save button still sends the update, while the report form with a blank title
  sends nothing.\<close>

theorem edit_posts_blank_fields:
  assumes "editFormData p = \<lparr>e_itemTitle = [], e_itemDesc = [],
             e_categoryId = js_string_of_nat (cat_categoryId c),
             e_departmentId = js_string_of_nat (dep_depId d),
             e_status = [], e_dateReport = [], e_image = None\<rparr>"
    and "c \<in> set cats" and "d \<in> set deps" and "distinct (map dep_depId deps)"
    and "f_itemTitle (formData q) = []"
  shows "(\<exists>pl. fst (handleUpdateSubmit (Some v) cats deps i r rr p) = Some pl
            \<and> up_itemTitle pl = [] \<and> up_itemDesc pl = [] \<and> up_status pl = []
            \<and> up_dateReport pl = [])
         \<and> fst (submit_report w cats deps r' rr today q) = None"
proof -
  obtain c' where c': "find_category cats (js_string_of_nat (cat_categoryId c)) = Some c'"
    using find_category_key [OF assms(2)] by blast
  have d': "find_department deps (js_string_of_nat (dep_depId d)) = Some d"
    using find_department_distinct [OF assms(4,3)] .
  have "fst (handleUpdateSubmit (Some v) cats deps i r rr p) = Some (update_payload_of v (editFormData p) c' d)"
    using assms(1) c' d' by (simp add: handleUpdateSubmit_def Let_def)
  moreover have "fst (submit_report w cats deps r' rr today q) = None"
    using assms(5) by (simp add: submit_report_def form_submittable_def)
  ultimately show ?thesis using assms(1) by (simp add: update_payload_of_def js_prim_defs)
qed

text \<open>C29: opening the edit form on an item and saving it unchanged resends the item's
  title, description, status, category and department, but sends an empty image name,
  whatever image the item had.\<close>

theorem edit_save_resends_item:
  assumes "item_categoryId it = Some (cat_categoryId c)" and "0 < cat_categoryId c"
    and "c \<in> set cats"
    and "item_departmentId it = Some (dep_depId d)" and "0 < dep_depId d"
    and "d \<in> set deps" and "distinct (map dep_depId deps)"
  shows "\<exists>pl. fst (handleUpdateSubmit (Some v) cats deps (itemId it) r rr
                   (handleEditClick today it p)) = Some pl
           \<and> up_itemTitle pl = js_or (itemTitle it) [] \<and> up_itemDesc pl = js_or (itemDesc it) []
           \<and> up_status pl = js_upper (status_name (status it))
           \<and> up_location pl = dep_depName d
           \<and> up_categoryId pl = cat_categoryId c \<and> up_departmentId pl = dep_depId d
           \<and> up_imageUrl pl = []"
proof -
  obtain c' where c': "find_category cats (js_string_of_nat (cat_categoryId c)) = Some c'"
    and k: "cat_categoryId c' = cat_categoryId c"
    using find_category_key [OF assms(3)] by blast
  have d': "find_department deps (js_string_of_nat (dep_depId d)) = Some d"
    using find_department_distinct [OF assms(7,6)] .
  show ?thesis
    using assms(1,2,4,5) c' k d'
    by (simp add: handleUpdateSubmit_def handleEditClick_def id_field_def update_payload_of_def
                  Let_def)
qed

lemma report_created_list_witness:
  "reportedItems (snd (submit_report (Some \<lparr>userId = Some 1, username = Some ''alice'', email = None, fname = None,
       lname = None, role = Some ''USER'', mname = None\<rparr>) [\<lparr>cat_categoryId = 3, cat_categoryName = ''Bags''\<rparr>] [\<lparr>dep_depId = 1, dep_depName = ''Main Campus''\<rparr>] (Report_created \<lparr>itemId = 7, itemTitle = Some ''Blue Backpack'', itemDesc = Some ''navy'',
       location = Some ''Main Campus'', categoryName = Some ''Bags'', status = FOUND,
       item_userId = 1, dateReport = Some ''2025-01-10T00:00'', imageUrl = Some ''bag.jpg'',
       item_categoryId = Some 3, item_departmentId = Some 1\<rparr>) List_error
      ''2025-01-11''
      (\<lparr>reportedItems = [\<lparr>itemId = 7, itemTitle = Some ''Blue Backpack'', itemDesc = Some ''navy'',
       location = Some ''Main Campus'', categoryName = Some ''Bags'', status = FOUND,
       item_userId = 1, dateReport = Some ''2025-01-10T00:00'', imageUrl = Some ''bag.jpg'',
       item_categoryId = Some 3, item_departmentId = Some 1\<rparr>], page_message = error_message [] [],
       formData = empty_form ''2025-01-11'', editingItem = None, editFormData = \<lparr>e_itemTitle = [], e_itemDesc = [], e_categoryId = [], e_departmentId = [],
       e_status = [], e_dateReport = [], e_image = None\<rparr>\<rparr>\<lparr>reportedItems := [], formData := \<lparr>f_itemTitle = ''Blue Backpack'',
          f_itemDesc = ''navy'', f_categoryId = ''3'', f_departmentId = ''1'', f_location = [],
          f_dateReport = ''2025-01-10'', f_status = ''FOUND'', f_image = None\<rparr>\<rparr>)))
     = [\<lparr>itemId = 7, itemTitle = Some ''Blue Backpack'', itemDesc = Some ''navy'',
       location = Some ''Main Campus'', categoryName = Some ''Bags'', status = FOUND,
       item_userId = 1, dateReport = Some ''2025-01-10T00:00'', imageUrl = Some ''bag.jpg'',
       item_categoryId = Some 3, item_departmentId = Some 1\<rparr>]"
  by (rule trans [OF conjunct1 [OF report_created_list]])
     (simp_all add: submit_report_def handleSubmit_def form_submittable_def find_category_def
                    find_department_def js_string_of_nat_small char_of_def bit_simps Let_def)

lemma handleDelete_removes_item_witness:
  "handleDelete 7 False Delete_ok (\<lparr>reportedItems = [\<lparr>itemId = 7, itemTitle = Some ''Blue Backpack'', itemDesc = Some ''navy'',
       location = Some ''Main Campus'', categoryName = Some ''Bags'', status = FOUND,
       item_userId = 1, dateReport = Some ''2025-01-10T00:00'', imageUrl = Some ''bag.jpg'',
       item_categoryId = Some 3, item_departmentId = Some 1\<rparr>], page_message = error_message [] [],
       formData = empty_form ''2025-01-11'', editingItem = None, editFormData = \<lparr>e_itemTitle = [], e_itemDesc = [], e_categoryId = [], e_departmentId = [],
       e_status = [], e_dateReport = [], e_image = None\<rparr>\<rparr>) = \<lparr>reportedItems = [\<lparr>itemId = 7, itemTitle = Some ''Blue Backpack'', itemDesc = Some ''navy'',
       location = Some ''Main Campus'', categoryName = Some ''Bags'', status = FOUND,
       item_userId = 1, dateReport = Some ''2025-01-10T00:00'', imageUrl = Some ''bag.jpg'',
       item_categoryId = Some 3, item_departmentId = Some 1\<rparr>], page_message = error_message [] [],
       formData = empty_form ''2025-01-11'', editingItem = None, editFormData = \<lparr>e_itemTitle = [], e_itemDesc = [], e_categoryId = [], e_departmentId = [],
       e_status = [], e_dateReport = [], e_image = None\<rparr>\<rparr>
   \<and> reportedItems (handleDelete 7 True (Delete_not_ok ''busy'') (\<lparr>reportedItems = [\<lparr>itemId = 7, itemTitle = Some ''Blue Backpack'', itemDesc = Some ''navy'',
       location = Some ''Main Campus'', categoryName = Some ''Bags'', status = FOUND,
       item_userId = 1, dateReport = Some ''2025-01-10T00:00'', imageUrl = Some ''bag.jpg'',
       item_categoryId = Some 3, item_departmentId = Some 1\<rparr>], page_message = error_message [] [],
       formData = empty_form ''2025-01-11'', editingItem = None, editFormData = \<lparr>e_itemTitle = [], e_itemDesc = [], e_categoryId = [], e_departmentId = [],
       e_status = [], e_dateReport = [], e_image = None\<rparr>\<rparr>)) = reportedItems (\<lparr>reportedItems = [\<lparr>itemId = 7, itemTitle = Some ''Blue Backpack'', itemDesc = Some ''navy'',
       location = Some ''Main Campus'', categoryName = Some ''Bags'', status = FOUND,
       item_userId = 1, dateReport = Some ''2025-01-10T00:00'', imageUrl = Some ''bag.jpg'',
       item_categoryId = Some 3, item_departmentId = Some 1\<rparr>], page_message = error_message [] [],
       formData = empty_form ''2025-01-11'', editingItem = None, editFormData = \<lparr>e_itemTitle = [], e_itemDesc = [], e_categoryId = [], e_departmentId = [],
       e_status = [], e_dateReport = [], e_image = None\<rparr>\<rparr>)"
  using handleDelete_removes_item [where i = 7 and c = False and r = Delete_ok and p = "\<lparr>reportedItems = [\<lparr>itemId = 7, itemTitle = Some ''Blue Backpack'', itemDesc = Some ''navy'',
       location = Some ''Main Campus'', categoryName = Some ''Bags'', status = FOUND,
       item_userId = 1, dateReport = Some ''2025-01-10T00:00'', imageUrl = Some ''bag.jpg'',
       item_categoryId = Some 3, item_departmentId = Some 1\<rparr>], page_message = error_message [] [],
       formData = empty_form ''2025-01-11'', editingItem = None, editFormData = \<lparr>e_itemTitle = [], e_itemDesc = [], e_categoryId = [], e_departmentId = [],
       e_status = [], e_dateReport = [], e_image = None\<rparr>\<rparr>"]
        handleDelete_removes_item [where i = 7 and c = True and r = "Delete_not_ok ''busy''" and p = "\<lparr>reportedItems = [\<lparr>itemId = 7, itemTitle = Some ''Blue Backpack'', itemDesc = Some ''navy'',
       location = Some ''Main Campus'', categoryName = Some ''Bags'', status = FOUND,
       item_userId = 1, dateReport = Some ''2025-01-10T00:00'', imageUrl = Some ''bag.jpg'',
       item_categoryId = Some 3, item_departmentId = Some 1\<rparr>], page_message = error_message [] [],
       formData = empty_form ''2025-01-11'', editingItem = None, editFormData = \<lparr>e_itemTitle = [], e_itemDesc = [], e_categoryId = [], e_departmentId = [],
       e_status = [], e_dateReport = [], e_image = None\<rparr>\<rparr>"]
  by simp

lemma edit_posts_blank_fields_witness:
  "\<exists>pl. fst (handleUpdateSubmit (Some \<lparr>userId = Some 1, username = Some ''alice'', email = None, fname = None,
       lname = None, role = Some ''USER'', mname = None\<rparr>) [\<lparr>cat_categoryId = 3, cat_categoryName = ''Bags''\<rparr>] [\<lparr>dep_depId = 1, dep_depName = ''Main Campus''\<rparr>] 7 Update_unparsable List_error
              (\<lparr>reportedItems = [\<lparr>itemId = 7, itemTitle = Some ''Blue Backpack'', itemDesc = Some ''navy'',
       location = Some ''Main Campus'', categoryName = Some ''Bags'', status = FOUND,
       item_userId = 1, dateReport = Some ''2025-01-10T00:00'', imageUrl = Some ''bag.jpg'',
       item_categoryId = Some 3, item_departmentId = Some 1\<rparr>], page_message = error_message [] [],
       formData = empty_form ''2025-01-11'', editingItem = None, editFormData = \<lparr>e_itemTitle = [], e_itemDesc = [], e_categoryId = js_string_of_nat 3,
       e_departmentId = js_string_of_nat 1, e_status = [], e_dateReport = [], e_image = None\<rparr>\<rparr>)) = Some pl
       \<and> up_itemTitle pl = []"
  using edit_posts_blank_fields [where p = "\<lparr>reportedItems = [\<lparr>itemId = 7, itemTitle = Some ''Blue Backpack'', itemDesc = Some ''navy'',
       location = Some ''Main Campus'', categoryName = Some ''Bags'', status = FOUND,
       item_userId = 1, dateReport = Some ''2025-01-10T00:00'', imageUrl = Some ''bag.jpg'',
       item_categoryId = Some 3, item_departmentId = Some 1\<rparr>], page_message = error_message [] [],
       formData = empty_form ''2025-01-11'', editingItem = None, editFormData = \<lparr>e_itemTitle = [], e_itemDesc = [], e_categoryId = js_string_of_nat 3,
       e_departmentId = js_string_of_nat 1, e_status = [], e_dateReport = [], e_image = None\<rparr>\<rparr>" and c = "\<lparr>cat_categoryId = 3, cat_categoryName = ''Bags''\<rparr>" and d = "\<lparr>dep_depId = 1, dep_depName = ''Main Campus''\<rparr>"
          and cats = "[\<lparr>cat_categoryId = 3, cat_categoryName = ''Bags''\<rparr>]" and deps = "[\<lparr>dep_depId = 1, dep_depName = ''Main Campus''\<rparr>]" and q = "\<lparr>reportedItems = [\<lparr>itemId = 7, itemTitle = Some ''Blue Backpack'', itemDesc = Some ''navy'',
       location = Some ''Main Campus'', categoryName = Some ''Bags'', status = FOUND,
       item_userId = 1, dateReport = Some ''2025-01-10T00:00'', imageUrl = Some ''bag.jpg'',
       item_categoryId = Some 3, item_departmentId = Some 1\<rparr>], page_message = error_message [] [],
       formData = empty_form ''2025-01-11'', editingItem = None, editFormData = \<lparr>e_itemTitle = [], e_itemDesc = [], e_categoryId = js_string_of_nat 3,
       e_departmentId = js_string_of_nat 1, e_status = [], e_dateReport = [], e_image = None\<rparr>\<rparr>" and v = "\<lparr>userId = Some 1, username = Some ''alice'', email = None, fname = None,
       lname = None, role = Some ''USER'', mname = None\<rparr>" and i = 7
          and r = Update_unparsable and rr = List_error and w = None
          and r' = Report_created_unparsable and today = "[]"]
  by (auto simp: empty_form_def)

lemma edit_save_resends_item_witness:
  "\<exists>pl. fst (handleUpdateSubmit (Some \<lparr>userId = Some 1, username = Some ''alice'', email = None, fname = None,
       lname = None, role = Some ''USER'', mname = None\<rparr>) [\<lparr>cat_categoryId = 3, cat_categoryName = ''Bags''\<rparr>] [\<lparr>dep_depId = 1, dep_depName = ''Main Campus''\<rparr>] 7 Update_unparsable List_error
                 (handleEditClick ''2025-01-11'' \<lparr>itemId = 7, itemTitle = Some ''Blue Backpack'', itemDesc = Some ''navy'',
       location = Some ''Main Campus'', categoryName = Some ''Bags'', status = FOUND,
       item_userId = 1, dateReport = Some ''2025-01-10T00:00'', imageUrl = Some ''bag.jpg'',
       item_categoryId = Some 3, item_departmentId = Some 1\<rparr> (\<lparr>reportedItems = [\<lparr>itemId = 7, itemTitle = Some ''Blue Backpack'', itemDesc = Some ''navy'',
       location = Some ''Main Campus'', categoryName = Some ''Bags'', status = FOUND,
       item_userId = 1, dateReport = Some ''2025-01-10T00:00'', imageUrl = Some ''bag.jpg'',
       item_categoryId = Some 3, item_departmentId = Some 1\<rparr>], page_message = error_message [] [],
       formData = empty_form ''2025-01-11'', editingItem = None, editFormData = \<lparr>e_itemTitle = [], e_itemDesc = [], e_categoryId = [], e_departmentId = [],
       e_status = [], e_dateReport = [], e_image = None\<rparr>\<rparr>))) = Some pl
       \<and> up_itemTitle pl = ''Blue Backpack'' \<and> up_location pl = ''Main Campus''
       \<and> up_imageUrl pl = []"
  using edit_save_resends_item [where it = "\<lparr>itemId = 7, itemTitle = Some ''Blue Backpack'', itemDesc = Some ''navy'',
       location = Some ''Main Campus'', categoryName = Some ''Bags'', status = FOUND,
       item_userId = 1, dateReport = Some ''2025-01-10T00:00'', imageUrl = Some ''bag.jpg'',
       item_categoryId = Some 3, item_departmentId = Some 1\<rparr>" and c = "\<lparr>cat_categoryId = 3, cat_categoryName = ''Bags''\<rparr>" and d = "\<lparr>dep_depId = 1, dep_depName = ''Main Campus''\<rparr>"
          and cats = "[\<lparr>cat_categoryId = 3, cat_categoryName = ''Bags''\<rparr>]" and deps = "[\<lparr>dep_depId = 1, dep_depName = ''Main Campus''\<rparr>]" and v = "\<lparr>userId = Some 1, username = Some ''alice'', email = None, fname = None,
       lname = None, role = Some ''USER'', mname = None\<rparr>" and r = Update_unparsable
          and rr = List_error and today = "''2025-01-11''" and p = "\<lparr>reportedItems = [\<lparr>itemId = 7, itemTitle = Some ''Blue Backpack'', itemDesc = Some ''navy'',
       location = Some ''Main Campus'', categoryName = Some ''Bags'', status = FOUND,
       item_userId = 1, dateReport = Some ''2025-01-10T00:00'', imageUrl = Some ''bag.jpg'',
       item_categoryId = Some 3, item_departmentId = Some 1\<rparr>], page_message = error_message [] [],
       formData = empty_form ''2025-01-11'', editingItem = None, editFormData = \<lparr>e_itemTitle = [], e_itemDesc = [], e_categoryId = [], e_departmentId = [],
       e_status = [], e_dateReport = [], e_image = None\<rparr>\<rparr>"]
  by auto

text \<open>C34: the owner's edit refines the abstract step relation \<open>ui_status_step\<close> of the items'
  life cycle: whatever inputs of the open edit form change, as long as the status select
  picks one of its options, the status a Save posts is a step that relation allows from
  the item's status.\<close>

theorem owner_edit_refines:
  assumes "\<forall>(n, v, fl) \<in> set evs. n = ''status'' \<longrightarrow> v \<in> set edit_select_options"
    and "fst (handleUpdateSubmit u cats deps (itemId it) r rr
                (edit_inputs evs (handleEditClick today it p))) = Some pl"
  shows "ui_status_step (status it) (parse_status (up_status pl))"
proof -
  let ?q = "handleEditClick today it p"
  have up: "up_status pl = js_upper (e_status (editFormData (edit_inputs evs ?q)))"
    using handleUpdateSubmit_status [OF assms(2)] .
  have st: "status (item.truncate it) = status it" by (simp add: item.truncate_def)
  have q: "e_status (editFormData ?q) = status_name (status it)" by (simp add: handleEditClick_def)
  from edit_inputs_status [OF assms(1), of ?q] show ?thesis
  proof
    assume "e_status (editFormData (edit_inputs evs ?q)) = e_status (editFormData ?q)"
    then have "up_status pl = edit_form_status (item.truncate it) None"
      using up q st by (simp add: edit_form_status_def)
    then show ?thesis using ui_status_step.owner_edit_unchanged [of "item.truncate it"] st by simp
  next
    assume v: "e_status (editFormData (edit_inputs evs ?q)) \<in> set edit_select_options"
    then have "up_status pl = edit_form_status (item.truncate it)
                               (Some (e_status (editFormData (edit_inputs evs ?q))))"
      using up by (simp add: edit_form_status_def)
    then show ?thesis using ui_status_step.owner_edit [OF v, of "item.truncate it"] st by simp
  qed
qed

lemma owner_edit_refines_witness:
  "ui_status_step FOUND LOST"
proof -
  have "ui_status_step (status \<lparr>itemId = 7, itemTitle = Some ''Blue Backpack'', itemDesc = None,
       location = None, categoryName = None, status = FOUND, item_userId = 1, dateReport = None,
       imageUrl = None, item_categoryId = Some 3, item_departmentId = Some 1\<rparr>)
      (parse_status (up_status (the (fst (handleUpdateSubmit (Some \<lparr>userId = Some 1, username = Some ''alice'',
       email = None, fname = None, lname = None, role = Some ''USER'', mname = None\<rparr>)
       [\<lparr>cat_categoryId = 3, cat_categoryName = ''Bags''\<rparr>] [\<lparr>dep_depId = 1, dep_depName = ''Main Campus''\<rparr>]
       7 Update_unparsable List_error
       (edit_inputs [(''status'', ''LOST'', None), (''itemTitle'', ''Navy bag'', None)]
         (handleEditClick ''2025-01-11'' \<lparr>itemId = 7, itemTitle = Some ''Blue Backpack'', itemDesc = None,
           location = None, categoryName = None, status = FOUND, item_userId = 1, dateReport = None,
           imageUrl = None, item_categoryId = Some 3, item_departmentId = Some 1\<rparr>
           \<lparr>reportedItems = [], page_message = error_message [] [], formData = empty_form ''2025-01-11'',
            editingItem = None, editFormData = empty_edit_form\<rparr>)))))))"
    by (rule owner_edit_refines [where evs = "[(''status'', ''LOST'', None), (''itemTitle'', ''Navy bag'', None)]"
          and u = "Some \<lparr>userId = Some 1, username = Some ''alice'', email = None, fname = None,
            lname = None, role = Some ''USER'', mname = None\<rparr>"
          and cats = "[\<lparr>cat_categoryId = 3, cat_categoryName = ''Bags''\<rparr>]"
          and deps = "[\<lparr>dep_depId = 1, dep_depName = ''Main Campus''\<rparr>]"
          and r = Update_unparsable and rr = List_error
          and today = "''2025-01-11''" and p = "\<lparr>reportedItems = [], page_message = error_message [] [],
            formData = empty_form ''2025-01-11'', editingItem = None, editFormData = empty_edit_form\<rparr>"])
       (simp_all add: edit_select_options_def handleUpdateSubmit_def handleEditChange_def set_edit_field_def
                      handleEditClick_def id_field_def find_category_def find_department_def
                      js_string_of_nat_small edit_inputs_def Let_def)
  then show ?thesis
    by (simp add: handleUpdateSubmit_def handleEditChange_def set_edit_field_def handleEditClick_def
                  id_field_def find_category_def find_department_def js_string_of_nat_small
                  update_payload_of_def edit_inputs_def parse_status_def js_prim_defs Let_def)
qed

text \<open>C36: every report body the page posts is well typed: whatever the user types and picks
  in the form (the Status select offers \<open>LOST\<close> and \<open>FOUND\<close>), the posted status is
  \<open>LOST\<close> or \<open>FOUND\<close>, the category and the department are entries of the lists the page
  loaded, the location is that department's name and the user id is the logged-in user's.\<close>

theorem report_payload_well_typed:
  assumes "\<forall>(n, v, fl) \<in> set evs. n = ''status'' \<longrightarrow> v \<in> set report_status_options"
    and "f_status (formData p) \<in> set report_status_options"
    and "fst (submit_view u r rr today (form_inputs evs p)) = Some pl"
  shows "rp_status pl \<in> set report_status_options
         \<and> (\<exists>c \<in> set (categories p). rp_categoryId pl = cat_categoryId c)
         \<and> (\<exists>d \<in> set (departments p). rp_departmentId pl = dep_depId d \<and> rp_location pl = dep_depName d)
         \<and> (\<exists>v. u = Some v \<and> rp_userId pl = userId v)"
proof -
  have q: "f_status (formData (form_inputs evs p)) \<in> set report_status_options"
    and cs: "categories (form_inputs evs p) = categories p"
    and ds: "departments (form_inputs evs p) = departments p"
    using form_inputs_status [OF assms(1,2)] by auto
  obtain v c d where "u = Some v" and "c \<in> set (categories p)" and "d \<in> set (departments p)"
    and "pl = report_payload_of v (formData (form_inputs evs p)) c d"
    using submit_view_payload [OF assms(3)] cs ds by auto
  then show ?thesis using q js_upper_status_options [OF q] by (auto simp: report_payload_of_def)
qed

lemma report_payload_well_typed_witness:
  "rp_status (the (fst (submit_view (Some \<lparr>userId = Some 1, username = Some ''alice'', email = None,
       fname = None, lname = None, role = Some ''USER'', mname = None\<rparr>) Report_created_unparsable
       List_error ''2025-01-11''
       (form_inputs [(''itemTitle'', ''Blue Backpack'', None), (''itemDesc'', ''navy'', None),
                     (''categoryId'', js_string_of_nat 3, None), (''departmentId'', js_string_of_nat 1, None),
                     (''status'', ''LOST'', None)]
          \<lparr>reportedItems = [], page_message = error_message [] [], formData = empty_form ''2025-01-11'',
           editingItem = None, editFormData = empty_edit_form, activePanel = Panel_report,
           categories = [\<lparr>cat_categoryId = 3, cat_categoryName = ''Bags''\<rparr>],
           departments = [\<lparr>dep_depId = 1, dep_depName = ''Main Campus''\<rparr>], imagePreview = None\<rparr>))))
   = ''LOST''"
proof -
  let ?u = "Some \<lparr>userId = Some 1, username = Some ''alice'', email = None,
       fname = None, lname = None, role = Some ''USER'', mname = None\<rparr>"
  let ?evs = "[(''itemTitle'', ''Blue Backpack'', None), (''itemDesc'', ''navy'', None),
                     (''categoryId'', js_string_of_nat 3, None), (''departmentId'', js_string_of_nat 1, None),
                     (''status'', ''LOST'', None)]"
  let ?p = "\<lparr>reportedItems = [], page_message = error_message [] [], formData = empty_form ''2025-01-11'',
           editingItem = None, editFormData = empty_edit_form, activePanel = Panel_report,
           categories = [\<lparr>cat_categoryId = 3, cat_categoryName = ''Bags''\<rparr>],
           departments = [\<lparr>dep_depId = 1, dep_depName = ''Main Campus''\<rparr>], imagePreview = None\<rparr>"
  have s: "fst (submit_view ?u Report_created_unparsable List_error ''2025-01-11'' (form_inputs ?evs ?p))
           = Some (the (fst (submit_view ?u Report_created_unparsable List_error ''2025-01-11''
                                          (form_inputs ?evs ?p))))"
    by (simp add: submit_view_def submit_report_def form_submittable_def handleSubmit_def Let_def
                  form_inputs_def handleChange_def set_form_field_def empty_form_def find_category_def
                  find_department_def js_string_of_nat_small)
  have o: "\<forall>(n, v, fl) \<in> set ?evs. n = ''status'' \<longrightarrow> v \<in> set report_status_options"
    and f: "f_status (formData ?p) \<in> set report_status_options"
    by (simp_all add: report_status_options_def empty_form_def)
  from report_payload_well_typed [OF o f s] show ?thesis
    by (simp add: submit_view_def submit_report_def form_submittable_def handleSubmit_def Let_def
                  form_inputs_def handleChange_def set_form_field_def empty_form_def find_category_def
                  find_department_def js_string_of_nat_small report_payload_of_def js_prim_defs)
qed

text \<open>C15: the owner's edit form reopens a closed item: on an item the admin has marked
  \<open>CLAIMED\<close> or \<open>RETURNED\<close>, opening the edit form, picking \<open>LOST\<close> or \<open>FOUND\<close> in its
  Status select and saving sends that status back, a change from a status the admin
  dashboard treats as terminal.\<close>

theorem owner_edit_reopens_closed_item:
  assumes "status it = CLAIMED \<or> status it = RETURNED" and "v \<in> set edit_select_options"
    and "item_categoryId it = Some (cat_categoryId c)" and "0 < cat_categoryId c" and "c \<in> set cats"
    and "item_departmentId it = Some (dep_depId d)" and "0 < dep_depId d"
    and "d \<in> set deps" and "distinct (map dep_depId deps)"
  shows "\<exists>pl. fst (handleUpdateSubmit (Some w) cats deps (itemId it) r rr
                   (edit_inputs [(''status'', v, None)] (handleEditClick today it p))) = Some pl
           \<and> parse_status (up_status pl) = parse_status v
           \<and> parse_status v \<in> {LOST, FOUND}
           \<and> (\<forall>t. \<not> admin_status_step (status it) t)"
proof -
  obtain c' where c': "find_category cats (js_string_of_nat (cat_categoryId c)) = Some c'"
    using find_category_key [OF assms(5)] by blast
  have d': "find_department deps (js_string_of_nat (dep_depId d)) = Some d"
    using find_department_distinct [OF assms(9,8)] .
  have v: "v = ''LOST'' \<or> v = ''FOUND''" using assms(2) by (simp add: edit_select_options_def)
  have "\<exists>pl. fst (handleUpdateSubmit (Some w) cats deps (itemId it) r rr
                   (edit_inputs [(''status'', v, None)] (handleEditClick today it p))) = Some pl
           \<and> up_status pl = js_upper v"
    using assms(3,4,6,7) c' d'
    by (simp add: handleUpdateSubmit_def handleEditClick_def id_field_def update_payload_of_def
                  edit_inputs_def handleEditChange_def set_edit_field_def Let_def)
  moreover have "js_upper v = v" and "parse_status v \<in> {LOST, FOUND}"
    using v by (auto simp: js_prim_defs parse_status_def)
  moreover have "\<forall>t. \<not> admin_status_step (status it) t"
    using assms(1) by (auto dest: admin_status_step_from_terminal)
  ultimately show ?thesis by auto
qed

lemma owner_edit_reopens_closed_item_witness:
  "\<exists>pl. fst (handleUpdateSubmit (Some \<lparr>userId = Some 1, username = Some ''alice'', email = None,
        fname = None, lname = None, role = Some ''USER'', mname = None\<rparr>)
        [\<lparr>cat_categoryId = 3, cat_categoryName = ''Bags''\<rparr>] [\<lparr>dep_depId = 1, dep_depName = ''Main Campus''\<rparr>]
        7 Update_unparsable List_error
        (edit_inputs [(''status'', ''LOST'', None)]
          (handleEditClick ''2025-01-11'' \<lparr>itemId = 7, itemTitle = Some ''Blue Backpack'', itemDesc = None,
             location = None, categoryName = None, status = CLAIMED, item_userId = 1, dateReport = None,
             imageUrl = None, item_categoryId = Some 3, item_departmentId = Some 1\<rparr>
             \<lparr>reportedItems = [], page_message = error_message [] [], formData = empty_form ''2025-01-11'',
              editingItem = None, editFormData = empty_edit_form\<rparr>))) = Some pl
      \<and> parse_status (up_status pl) = LOST"
proof -
  have h:  "\<exists>pl. fst (handleUpdateSubmit (Some \<lparr>userId = Some 1, username = Some ''alice'', email = None,
        fname = None, lname = None, role = Some ''USER'', mname = None\<rparr>)
        [\<lparr>cat_categoryId = 3, cat_categoryName = ''Bags''\<rparr>] [\<lparr>dep_depId = 1, dep_depName = ''Main Campus''\<rparr>]
        7 Update_unparsable List_error
        (edit_inputs [(''status'', ''LOST'', None)]
          (handleEditClick ''2025-01-11'' \<lparr>itemId = 7, itemTitle = Some ''Blue Backpack'', itemDesc = None,
             location = None, categoryName = None, status = CLAIMED, item_userId = 1, dateReport = None,
             imageUrl = None, item_categoryId = Some 3, item_departmentId = Some 1\<rparr>
             \<lparr>reportedItems = [], page_message = error_message [] [], formData = empty_form ''2025-01-11'',
              editingItem = None, editFormData = empty_edit_form\<rparr>))) = Some pl
      \<and> parse_status (up_status pl) = parse_status ''LOST''"
    using owner_edit_reopens_closed_item
    [where it = "\<lparr>itemId = 7, itemTitle = Some ''Blue Backpack'', itemDesc = None,
             location = None, categoryName = None, status = CLAIMED, item_userId = 1, dateReport = None,
             imageUrl = None, item_categoryId = Some 3, item_departmentId = Some 1\<rparr>"
       and v = "''LOST''" and c = "\<lparr>cat_categoryId = 3, cat_categoryName = ''Bags''\<rparr>"
       and d = "\<lparr>dep_depId = 1, dep_depName = ''Main Campus''\<rparr>"
       and cats = "[\<lparr>cat_categoryId = 3, cat_categoryName = ''Bags''\<rparr>]"
       and deps = "[\<lparr>dep_depId = 1, dep_depName = ''Main Campus''\<rparr>]"
       and w = "\<lparr>userId = Some 1, username = Some ''alice'', email = None,
        fname = None, lname = None, role = Some ''USER'', mname = None\<rparr>"
       and r = Update_unparsable and rr = List_error and today = "''2025-01-11''"
       and p = "\<lparr>reportedItems = [], page_message = error_message [] [], formData = empty_form ''2025-01-11'',
              editingItem = None, editFormData = empty_edit_form\<rparr>"]
    by (simp add: edit_select_options_def, blast)
  have "parse_status ''LOST'' = LOST" by (simp add: parse_status_def)
  with h show ?thesis by simp
qed

end
