(* ===== verification/Admin.thy ===== *)
theory Admin
  imports Items Claims
begin

text \<open>
  The admin dashboard, \<open>src/frontend/src/pages/AdminDashboard/AdminDashboard.js\<close>, as an
  event-driven page. Its state is the component's \<open>useState\<close> values and, for the
  interleavings, the requests still in flight and the item status changes the server has
  applied. A request is started by a handler and finished by its reply, which may come in
  any order; each reply is a parameter of the step that consumes it. The page renders
  after every step, and a render may throw (a non-array list stored by \<open>setItems\<close> or
  \<open>setClaims\<close>), which leaves a blank page that no button can be clicked on. The access
  check of the page is in \<open>AuthGate\<close>; this theory is the page as an admin sees it.
  That the page always settles is proved with \<open>admin_drain\<close>: any server, given as a
  function from request to reply, answers the oldest request in flight until none is left.
  Success replies of the two PUT requests start a refetch, so the termination measure
  weights each request (two for a PUT, one for a fetch) and sums the weights in flight.
  Settling is proved for every server whose replies fit their request's shape.
\<close>

subsection \<open>State\<close>

text \<open>What \<open>res.json()\<close> yields on a list endpoint: an array, another JSON value (an error
  object of a non-2xx reply), or an exception.\<close>

datatype 'a json_list = Json_array "'a list" | Json_other | Json_throw

text \<open>What the list state holds: \<open>setItems(data)\<close> stores the value unchecked.\<close>

datatype 'a list_value = Arr "'a list" | Non_array

datatype admin_req =
    Req_items
  | Req_claims
  | Req_item_update item_id string
  | Req_claim_verify claim_id bool

record admin_state =
  ad_items :: "item list_value"
  ad_claims :: "claim list_value"
  ad_loading :: bool
  activeTab :: string
  selectedItem :: "item option"
  filterStatus :: string
  in_flight :: "admin_req list"
  srv_log :: "(item_id \<times> item_status) list"

subsection \<open>Handlers\<close>

text \<open>\<open>fetchItems\<close> and \<open>fetchClaims\<close> up to their \<open>await\<close>, and after the reply.\<close>

definition fetchItems_start :: "admin_state \<Rightarrow> admin_state" where
  "fetchItems_start s = s\<lparr>ad_loading := True, in_flight := in_flight s @ [Req_items]\<rparr>"

definition fetchClaims_start :: "admin_state \<Rightarrow> admin_state" where
  "fetchClaims_start s = s\<lparr>ad_loading := True, in_flight := in_flight s @ [Req_claims]\<rparr>"

definition fetchItems_done :: "item json_list \<Rightarrow> admin_state \<Rightarrow> admin_state" where
  "fetchItems_done r s =
     (case r of
        Json_array xs \<Rightarrow> s\<lparr>ad_items := Arr xs\<rparr>
      | Json_other \<Rightarrow> s\<lparr>ad_items := Non_array\<rparr>
      | Json_throw \<Rightarrow> s)\<lparr>ad_loading := False\<rparr>"

definition fetchClaims_done :: "claim json_list \<Rightarrow> admin_state \<Rightarrow> admin_state" where
  "fetchClaims_done r s =
     (case r of
        Json_array cs \<Rightarrow> s\<lparr>ad_claims := Arr cs\<rparr>
      | Json_other \<Rightarrow> s\<lparr>ad_claims := Non_array\<rparr>
      | Json_throw \<Rightarrow> s)\<lparr>ad_loading := False\<rparr>"

text \<open>The first render's state, after the mount effect has called \<open>fetchItems\<close>.\<close>

definition admin_init :: admin_state where
  "admin_init =
     fetchItems_start
       \<lparr>ad_items = Arr [], ad_claims = Arr [], ad_loading = True, activeTab = ''items'',
        selectedItem = None, filterStatus = ''all'', in_flight = [], srv_log = []\<rparr>"

datatype put_result = Put_ok | Put_not_ok | Put_throw

text \<open>\<open>updateItemStatus\<close>: the PUT is sent; when the server accepts it, it has applied
  the status, and the handler reloads the items and closes the details modal. A refused
  or failed PUT changes nothing here (the failure is an \<open>alert\<close>).\<close>

definition updateItemStatus :: "item_id \<Rightarrow> string \<Rightarrow> admin_state \<Rightarrow> admin_state" where
  "updateItemStatus i st s = s\<lparr>in_flight := in_flight s @ [Req_item_update i st]\<rparr>"

definition updateItemStatus_done ::
  "put_result \<Rightarrow> item_id \<Rightarrow> string \<Rightarrow> admin_state \<Rightarrow> admin_state" where
  "updateItemStatus_done r i st s =
     (case r of
        Put_ok \<Rightarrow> (fetchItems_start (s\<lparr>srv_log := srv_log s @ [(i, parse_status st)]\<rparr>))
                    \<lparr>selectedItem := None\<rparr>
      | _ \<Rightarrow> s)"

definition updateClaimStatus :: "claim_id \<Rightarrow> bool \<Rightarrow> admin_state \<Rightarrow> admin_state" where
  "updateClaimStatus c v s = s\<lparr>in_flight := in_flight s @ [Req_claim_verify c v]\<rparr>"

definition updateClaimStatus_done :: "put_result \<Rightarrow> admin_state \<Rightarrow> admin_state" where
  "updateClaimStatus_done r s = (case r of Put_ok \<Rightarrow> fetchClaims_start s | _ \<Rightarrow> s)"

definition handleTabChange :: "string \<Rightarrow> admin_state \<Rightarrow> admin_state" where
  "handleTabChange tab s =
     (let s1 = s\<lparr>activeTab := tab, filterStatus := ''all''\<rparr>
      in if tab = ''claims'' then fetchClaims_start s1 else fetchItems_start s1)"

text \<open>The filter buttons of each tab.\<close>

definition filter_options :: "string \<Rightarrow> string list" where
  "filter_options tab =
     (if tab = ''items'' then [''all'', ''LOST'', ''FOUND'', ''CLAIMED'', ''RETURNED'']
      else [''all'', ''pending'', ''verified''])"

subsection \<open>Rendering\<close>

text \<open>\<open>filteredItems\<close> and \<open>filteredClaims\<close>, computed on every render; \<open>None\<close> is a
  thrown \<open>TypeError\<close> (\<open>.filter\<close> of a non-array).\<close>

definition admin_items_value :: "admin_state \<Rightarrow> item list_value option" where
  "admin_items_value s =
     (if filterStatus s = ''all'' then Some (ad_items s)
      else case ad_items s of
             Arr xs \<Rightarrow> Some (Arr (admin_filtered_items (filterStatus s) xs))
           | Non_array \<Rightarrow> None)"

definition admin_claims_value :: "admin_state \<Rightarrow> claim list_value option" where
  "admin_claims_value s =
     (if filterStatus s = ''pending'' \<or> filterStatus s = ''verified''
      then case ad_claims s of
             Arr cs \<Rightarrow> Some (Arr (admin_claim_filter (filterStatus s) cs))
           | Non_array \<Rightarrow> None
      else Some (ad_claims s))"

datatype admin_view = View_loading | View_item_cards "item list" | View_claim_cards "claim list"
  | View_blank

text \<open>The main panel and the details modal; \<open>None\<close> when the render throws (the panel's
  \<open>.length\<close>/\<open>.map\<close> on a non-array included).\<close>

definition admin_render :: "admin_state \<Rightarrow> (admin_view \<times> item option) option" where
  "admin_render s =
     (case (admin_items_value s, admin_claims_value s) of
        (Some fi, Some fc) \<Rightarrow>
          (if ad_loading s then Some (View_loading, selectedItem s)
           else if activeTab s = ''items'' then
             (case fi of Arr xs \<Rightarrow> Some (View_item_cards xs, selectedItem s) | Non_array \<Rightarrow> None)
           else if activeTab s = ''claims'' then
             (case fc of Arr cs \<Rightarrow> Some (View_claim_cards cs, selectedItem s) | Non_array \<Rightarrow> None)
           else Some (View_blank, selectedItem s))
      | _ \<Rightarrow> None)"

definition item_card_shown :: "admin_state \<Rightarrow> item \<Rightarrow> bool" where
  "item_card_shown s it \<longleftrightarrow>
     (case admin_render s of Some (View_item_cards xs, _) \<Rightarrow> it \<in> set xs | _ \<Rightarrow> False)"

definition claim_card_shown :: "admin_state \<Rightarrow> claim \<Rightarrow> bool" where
  "claim_card_shown s c \<longleftrightarrow>
     (case admin_render s of Some (View_claim_cards cs, _) \<Rightarrow> c \<in> set cs | _ \<Rightarrow> False)"

subsection \<open>Events\<close>

datatype admin_reply = Reply_items "item json_list" | Reply_claims "claim json_list" | Reply_put put_result

datatype admin_event =
    Ev_tab string
  | Ev_filter string
  | Ev_view item
  | Ev_close
  | Ev_mark item string
  | Ev_verify claim bool
  | Ev_reply nat admin_reply

text \<open>A reply to the \<open>k\<close>-th request in flight.\<close>

definition admin_reply_step :: "nat \<Rightarrow> admin_reply \<Rightarrow> admin_state \<Rightarrow> admin_state option" where
  "admin_reply_step k r s =
     (if k < length (in_flight s) then
        (let s' = s\<lparr>in_flight := take k (in_flight s) @ drop (Suc k) (in_flight s)\<rparr> in
         case (in_flight s ! k, r) of
           (Req_items, Reply_items x) \<Rightarrow> Some (fetchItems_done x s')
         | (Req_claims, Reply_claims x) \<Rightarrow> Some (fetchClaims_done x s')
         | (Req_item_update i st, Reply_put p) \<Rightarrow> Some (updateItemStatus_done p i st s')
         | (Req_claim_verify c v, Reply_put p) \<Rightarrow> Some (updateClaimStatus_done p s')
         | _ \<Rightarrow> None)
      else None)"

text \<open>A click is possible only on what the last render shows: the tab and filter buttons, a
  card's View and status buttons (offered unless the item is \<open>CLAIMED\<close> or \<open>RETURNED\<close>),
  the modal's buttons for the item it was opened on, a claim's verify buttons.\<close>

fun admin_step :: "admin_event \<Rightarrow> admin_state \<Rightarrow> admin_state option" where
  "admin_step (Ev_reply k r) s = admin_reply_step k r s"
| "admin_step (Ev_tab t) s =
     (if admin_render s \<noteq> None \<and> (t = ''items'' \<or> t = ''claims'')
      then Some (handleTabChange t s) else None)"
| "admin_step (Ev_filter f) s =
     (if admin_render s \<noteq> None \<and> f \<in> set (filter_options (activeTab s))
      then Some (s\<lparr>filterStatus := f\<rparr>) else None)"
| "admin_step (Ev_view it) s =
     (if item_card_shown s it then Some (s\<lparr>selectedItem := Some it\<rparr>) else None)"
| "admin_step Ev_close s =
     (if admin_render s \<noteq> None \<and> selectedItem s \<noteq> None
      then Some (s\<lparr>selectedItem := None\<rparr>) else None)"
| "admin_step (Ev_mark it st) s =
     (if admin_render s \<noteq> None \<and> (st = ''CLAIMED'' \<or> st = ''RETURNED'')
         \<and> status_actions_offered (status it)
         \<and> (item_card_shown s it \<or> selectedItem s = Some it)
      then Some (updateItemStatus (itemId it) st s) else None)"
| "admin_step (Ev_verify c v) s =
     (if claim_card_shown s c \<and> admin_verify_offered c
      then Some (updateClaimStatus (claimId c) v s) else None)"

inductive admin_reach :: "admin_state \<Rightarrow> bool" where
  init: "admin_reach admin_init"
| step: "admin_reach s \<Longrightarrow> admin_step e s = Some s' \<Longrightarrow> admin_reach s'"

subsection \<open>The page's invariant and runs of events\<close>

definition req_ok :: "admin_req \<Rightarrow> bool" where
  "req_ok q \<longleftrightarrow> (case q of Req_item_update i st \<Rightarrow> st = ''CLAIMED'' \<or> st = ''RETURNED'' | _ \<Rightarrow> True)"

definition admin_inv :: "admin_state \<Rightarrow> bool" where
  "admin_inv s \<longleftrightarrow>
     (activeTab s = ''items'' \<or> activeTab s = ''claims'')
     \<and> filterStatus s \<in> set (filter_options (activeTab s))
     \<and> list_all req_ok (in_flight s)
     \<and> list_all (\<lambda>e. snd e = CLAIMED \<or> snd e = RETURNED) (srv_log s)"

text \<open>A sequence of events, run from a state; \<open>None\<close> when one of them is not possible.\<close>

fun admin_run :: "admin_event list \<Rightarrow> admin_state \<Rightarrow> admin_state option" where
  "admin_run [] s = Some s"
| "admin_run (e # es) s = (case admin_step e s of None \<Rightarrow> None | Some s' \<Rightarrow> admin_run es s')"

text \<open>Whether a reply has the shape of the request's endpoint: a list for a fetch, a
  PUT result for an update or a verification. Every reply the server can send fits.\<close>

fun reply_fits :: "admin_req \<Rightarrow> admin_reply \<Rightarrow> bool" where
  "reply_fits Req_items r = (case r of Reply_items _ \<Rightarrow> True | _ \<Rightarrow> False)"
| "reply_fits Req_claims r = (case r of Reply_claims _ \<Rightarrow> True | _ \<Rightarrow> False)"
| "reply_fits (Req_item_update _ _) r = (case r of Reply_put _ \<Rightarrow> True | _ \<Rightarrow> False)"
| "reply_fits (Req_claim_verify _ _) r = (case r of Reply_put _ \<Rightarrow> True | _ \<Rightarrow> False)"

text \<open>The weight of a request: a PUT whose success reloads a list weighs 2, a list fetch 1.\<close>

fun req_weight :: "admin_req \<Rightarrow> nat" where
  "req_weight Req_items = 1"
| "req_weight Req_claims = 1"
| "req_weight (Req_item_update _ _) = 2"
| "req_weight (Req_claim_verify _ _) = 2"

text \<open>The server answering the requests in flight, oldest first, each with the reply
  \<open>srv\<close> gives it, successful or not. A reply removes its request, and a successful PUT
  starts one list fetch in its place, so the total weight of the requests in flight falls at
  every reply: that is the termination measure.\<close>

function admin_drain :: "(admin_req \<Rightarrow> admin_reply) \<Rightarrow> admin_state \<Rightarrow> admin_state" where
  "admin_drain srv s =
     (case in_flight s of
        [] \<Rightarrow> s
      | q # _ \<Rightarrow> (case admin_reply_step 0 (srv q) s of None \<Rightarrow> s | Some s' \<Rightarrow> admin_drain srv s'))"
  by pat_completeness auto
termination
proof (relation "measure (\<lambda>(srv, s). sum_list (map req_weight (in_flight s)))")
  fix srv s q qs s'
  assume "in_flight s = q # qs" and "admin_reply_step 0 (srv q) s = Some s'"
  then show "((srv, s'), (srv, s)) \<in> measure (\<lambda>(srv, s). sum_list (map req_weight (in_flight s)))"
    by (cases q; cases "srv q")
       (auto simp: admin_reply_step_def fetchItems_done_def fetchClaims_done_def fetchItems_start_def
                   fetchClaims_start_def updateItemStatus_done_def updateClaimStatus_done_def
             split: put_result.splits json_list.splits)
qed simp

definition loading_inv :: "admin_state \<Rightarrow> bool" where
  "loading_inv s \<longleftrightarrow> ad_loading s \<longrightarrow> Req_items \<in> set (in_flight s) \<or> Req_claims \<in> set (in_flight s)"

subsection \<open>Lemmas\<close>

lemma set_remove_nth_subset: "set (take k xs @ drop (Suc k) xs) \<subseteq> set xs"
  using set_take_subset [of k xs] set_drop_subset [of "Suc k" xs] by auto

lemma list_all_remove_nth: "list_all P xs \<Longrightarrow> list_all P (take k xs @ drop (Suc k) xs)"
  using set_remove_nth_subset [of k xs] by (auto simp: list_all_iff)

lemma admin_inv_init: "admin_inv admin_init"
  by (simp add: admin_inv_def admin_init_def fetchItems_start_def filter_options_def req_ok_def)

lemma admin_inv_fields [simp]:
  "admin_inv (s\<lparr>ad_loading := b\<rparr>) = admin_inv s"
  "admin_inv (s\<lparr>ad_items := xs\<rparr>) = admin_inv s"
  "admin_inv (s\<lparr>ad_claims := cs\<rparr>) = admin_inv s"
  "admin_inv (s\<lparr>selectedItem := sel\<rparr>) = admin_inv s"
  by (simp_all add: admin_inv_def)

lemma admin_inv_fetch [simp]:
  "admin_inv (fetchItems_start s) = admin_inv s"
  "admin_inv (fetchClaims_start s) = admin_inv s"
  "admin_inv (fetchItems_done x s) = admin_inv s"
  "admin_inv (fetchClaims_done y s) = admin_inv s"
  by (simp_all add: admin_inv_def fetchItems_start_def fetchClaims_start_def req_ok_def
      fetchItems_done_def fetchClaims_done_def split: json_list.split)

lemma admin_inv_tab:
  assumes "admin_inv s" and "t = ''items'' \<or> t = ''claims''"
  shows "admin_inv (handleTabChange t s)"
proof -
  have "''all'' \<in> set (filter_options t)" by (simp add: filter_options_def)
  then have "admin_inv (s\<lparr>activeTab := t, filterStatus := ''all''\<rparr>)"
    using assms unfolding admin_inv_def by simp
  then show ?thesis by (auto simp: handleTabChange_def Let_def)
qed

lemma admin_inv_update:
  "admin_inv s \<Longrightarrow> st = ''CLAIMED'' \<or> st = ''RETURNED'' \<Longrightarrow> admin_inv (updateItemStatus i st s)"
  "admin_inv s \<Longrightarrow> admin_inv (updateClaimStatus c v s)"
  by (auto simp: updateItemStatus_def updateClaimStatus_def admin_inv_def req_ok_def)

lemma admin_inv_log:
  "admin_inv (s\<lparr>srv_log := srv_log s @ [(i, t)]\<rparr>) \<longleftrightarrow> admin_inv s \<and> (t = CLAIMED \<or> t = RETURNED)"
  by (auto simp: admin_inv_def)

lemma parse_status_mark: "st = ''CLAIMED'' \<or> st = ''RETURNED'' \<Longrightarrow> parse_status st = CLAIMED \<or> parse_status st = RETURNED"
  by (auto simp: parse_status_def)

lemma admin_inv_update_done:
  "admin_inv s \<Longrightarrow> st = ''CLAIMED'' \<or> st = ''RETURNED'' \<Longrightarrow> admin_inv (updateItemStatus_done p i st s)"
  "admin_inv s \<Longrightarrow> admin_inv (updateClaimStatus_done p s)"
  by (cases p; simp add: updateItemStatus_done_def updateClaimStatus_done_def admin_inv_log
                         parse_status_mark)+

lemma admin_inv_drop_req:
  "admin_inv s \<Longrightarrow> admin_inv (s\<lparr>in_flight := take k (in_flight s) @ drop (Suc k) (in_flight s)\<rparr>)"
  by (auto simp: admin_inv_def list_all_iff dest: in_set_takeD in_set_dropD)

lemma admin_inv_reply:
  assumes "admin_inv s" and "admin_reply_step k r s = Some s'"
  shows "admin_inv s'"
proof -
  let ?s = "s\<lparr>in_flight := take k (in_flight s) @ drop (Suc k) (in_flight s)\<rparr>"
  have k: "k < length (in_flight s)"
    using assms(2) by (simp add: admin_reply_step_def split: if_splits)
  have q: "req_ok (in_flight s ! k)"
    using assms(1) k by (simp add: admin_inv_def list_all_length)
  have i: "admin_inv ?s" using admin_inv_drop_req [OF assms(1)] .
  show ?thesis
  proof (cases "in_flight s ! k")
    case (Req_item_update i st)
    with q have "st = ''CLAIMED'' \<or> st = ''RETURNED''" by (simp add: req_ok_def)
    with assms(2) k i Req_item_update show ?thesis
      by (auto simp: admin_reply_step_def Let_def admin_inv_update_done split: admin_reply.splits)
  next
    case (Req_claim_verify c v)
    with assms(2) k i show ?thesis
      by (auto simp: admin_reply_step_def Let_def admin_inv_update_done split: admin_reply.splits)
  qed (use assms(2) k i in \<open>auto simp: admin_reply_step_def Let_def split: admin_reply.splits\<close>)
qed

lemma admin_inv_step:
  assumes "admin_inv s" and "admin_step e s = Some s'"
  shows "admin_inv s'"
  using assms
proof (cases e)
  case (Ev_reply k r)
  with assms show ?thesis using admin_inv_reply by simp
next
  case (Ev_filter f)
  with assms show ?thesis by (auto simp: admin_inv_def split: if_splits)
next
  case (Ev_tab t)
  with assms show ?thesis using admin_inv_tab by (auto split: if_splits)
next
  case (Ev_mark it st)
  with assms show ?thesis using admin_inv_update(1) by (auto split: if_splits)
next
  case (Ev_verify c v)
  with assms show ?thesis using admin_inv_update(2) by (auto split: if_splits)
qed (auto split: if_splits)

lemma admin_reach_inv: "admin_reach s \<Longrightarrow> admin_inv s"
  by (induction rule: admin_reach.induct) (auto intro: admin_inv_init admin_inv_step)

lemma admin_reach_run: "admin_reach s \<Longrightarrow> admin_run es s = Some s' \<Longrightarrow> admin_reach s'"
  by (induction es arbitrary: s) (auto intro: admin_reach.step split: option.splits)

lemma admin_mark_requests:
  assumes "admin_step (Ev_mark it st) s = Some s'"
  shows "admin_status_step (status it) (parse_status st)
         \<and> in_flight s' = in_flight s @ [Req_item_update (itemId it) st]"
proof -
  have o: "status_actions_offered (status it)" and st: "st = ''CLAIMED'' \<or> st = ''RETURNED''"
    using assms by (auto split: if_splits)
  have "admin_status_step (status it) (parse_status st)"
    using st o by (auto simp: parse_status_def intro: admin_status_step.intros)
  with assms show ?thesis by (auto simp: updateItemStatus_def split: if_splits)
qed

subsection \<open>The loading flag and settling\<close>

lemma mem_remove_nth:
  assumes "x \<in> set xs" and "k < length xs" and "xs ! k \<noteq> x"
  shows "x \<in> set (take k xs @ drop (Suc k) xs)"
proof -
  have "xs = take k xs @ xs ! k # drop (Suc k) xs" using assms(2) by (simp add: id_take_nth_drop)
  with assms(1,3) show ?thesis by (metis Un_iff list.set_intros(2) set_ConsD set_append)
qed

lemma loading_inv_init: "loading_inv admin_init"
  by (simp add: loading_inv_def admin_init_def fetchItems_start_def)

lemma loading_inv_reply:
  assumes "loading_inv s" and "admin_reply_step k r s = Some s'"
  shows "loading_inv s'"
proof -
  have k: "k < length (in_flight s)"
    using assms(2) by (simp add: admin_reply_step_def split: if_splits)
  let ?rest = "take k (in_flight s) @ drop (Suc k) (in_flight s)"
  have keep: "ad_loading s \<Longrightarrow> in_flight s ! k \<noteq> Req_items \<Longrightarrow> in_flight s ! k \<noteq> Req_claims \<Longrightarrow>
              Req_items \<in> set ?rest \<or> Req_claims \<in> set ?rest"
    using assms(1) k mem_remove_nth by (metis loading_inv_def)
  show ?thesis
  proof (cases "in_flight s ! k")
    case (Req_item_update i st)
    with assms(2) k keep show ?thesis
      by (auto simp: admin_reply_step_def Let_def loading_inv_def updateItemStatus_done_def
                     fetchItems_start_def split: admin_reply.splits put_result.splits)
  next
    case (Req_claim_verify c v)
    with assms(2) k keep show ?thesis
      by (auto simp: admin_reply_step_def Let_def loading_inv_def updateClaimStatus_done_def
                     fetchClaims_start_def split: admin_reply.splits put_result.splits)
  qed (use assms(2) k in \<open>auto simp: admin_reply_step_def Let_def loading_inv_def fetchItems_done_def
                               fetchClaims_done_def split: admin_reply.splits\<close>)
qed

lemma loading_inv_step:
  assumes "loading_inv s" and "admin_step e s = Some s'"
  shows "loading_inv s'"
proof (cases e)
  case (Ev_reply k r)
  with assms show ?thesis using loading_inv_reply by simp
next
  case (Ev_tab t)
  with assms show ?thesis
    by (auto simp: loading_inv_def handleTabChange_def fetchItems_start_def fetchClaims_start_def
                   Let_def split: if_splits)
qed (use assms in \<open>auto simp: loading_inv_def updateItemStatus_def updateClaimStatus_def
                             split: if_splits\<close>)

lemma admin_reach_loading_inv: "admin_reach s \<Longrightarrow> loading_inv s"
  by (induction rule: admin_reach.induct) (auto intro: loading_inv_init loading_inv_step)

lemma fitting_reply_step:
  assumes "in_flight s = q # qs" and "reply_fits q r"
  shows "\<exists>s'. admin_reply_step 0 r s = Some s' \<and> admin_step (Ev_reply 0 r) s = Some s'"
  using assms by (cases q; cases r) (auto simp: admin_reply_step_def)

lemmas admin_eval_defs =
  admin_init_def admin_reply_step_def admin_render_def admin_items_value_def admin_claims_value_def
  item_card_shown_def claim_card_shown_def admin_filtered_items_def admin_claim_filter_def
  fetchItems_start_def fetchClaims_start_def fetchItems_done_def fetchClaims_done_def
  updateItemStatus_def updateItemStatus_done_def handleTabChange_def filter_options_def Let_def

subsection \<open>Properties of the dashboard\<close>

text \<open>C30: in every state of the page the filter is one of the current tab's filter buttons:
  switching tabs resets it to \<open>all\<close>.\<close>

theorem admin_filter_matches_tab:
  assumes "admin_reach s"
  shows "(activeTab s = ''items'' \<or> activeTab s = ''claims'')
         \<and> filterStatus s \<in> set (filter_options (activeTab s))"
  using admin_reach_inv [OF assms] by (simp add: admin_inv_def)

lemma admin_filter_matches_tab_witness:
  "filterStatus (handleTabChange ''claims'' admin_init) \<in> set (filter_options ''claims'')"
proof -
  have "admin_step (Ev_tab ''claims'') admin_init = Some (handleTabChange ''claims'' admin_init)"
    by (simp add: admin_eval_defs)
  then have "admin_reach (handleTabChange ''claims'' admin_init)"
    by (rule admin_reach.step [OF admin_reach.init])
  from admin_filter_matches_tab [OF this] show ?thesis by (simp add: handleTabChange_def Let_def
      fetchClaims_start_def)
qed

text \<open>C31: the status buttons check the status of the item as last rendered, and the details
  modal keeps the item it was opened on until a change succeeds. Two clicks in the modal
  before the first reply make the server apply both changes: an item goes from \<open>CLAIMED\<close>
  to \<open>RETURNED\<close>, which no single admin status change allows.\<close>

theorem admin_double_status_change:
  "\<exists>s. admin_reach s \<and> srv_log s = [(1, CLAIMED), (1, RETURNED)]
       \<and> \<not> admin_status_step CLAIMED RETURNED"
proof -
  let ?it = "\<lparr>itemId = 1, itemTitle = Some ''Umbrella'', itemDesc = None, location = None,
              categoryName = None, status = LOST, item_userId = 2, dateReport = None,
              imageUrl = None\<rparr>"
  let ?es = "[Ev_reply 0 (Reply_items (Json_array [?it])), Ev_view ?it,
              Ev_mark ?it ''CLAIMED'', Ev_mark ?it ''RETURNED'',
              Ev_reply 0 (Reply_put Put_ok), Ev_reply 0 (Reply_put Put_ok)]"
  have "\<exists>s. admin_run ?es admin_init = Some s \<and> srv_log s = [(1, CLAIMED), (1, RETURNED)]"
    by (simp add: admin_eval_defs updateClaimStatus_def parse_status_def status_actions_offered_def)
  then obtain s where r: "admin_run ?es admin_init = Some s"
    and l: "srv_log s = [(1, CLAIMED), (1, RETURNED)]" by blast
  have "admin_reach s" using admin_reach_run [OF admin_reach.init r] .
  moreover have "\<not> admin_status_step CLAIMED RETURNED"
    using admin_status_step_from_terminal by auto
  ultimately show ?thesis using l by blast
qed

lemma admin_double_status_change_witness:
  "\<exists>s. admin_reach s \<and> length (srv_log s) = 2"
  using admin_double_status_change by auto

text \<open>C32: an items reply that is JSON but not an array (the error object of a failed
  request) is stored as it is, and the next render of the items tab throws: the page is
  blank and no button can be clicked; only replies still arrive.\<close>

theorem admin_items_error_blanks_page:
  assumes "activeTab s = ''items''"
  shows "admin_render (fetchItems_done Json_other s) = None
         \<and> (\<forall>e. (\<forall>k r. e \<noteq> Ev_reply k r) \<longrightarrow> admin_step e (fetchItems_done Json_other s) = None)"
proof -
  have r: "admin_render (fetchItems_done Json_other s) = None"
    using assms by (simp add: admin_render_def admin_items_value_def admin_claims_value_def
                              fetchItems_done_def split: list_value.splits)
  have "admin_step e (fetchItems_done Json_other s) = None" if "\<forall>k r. e \<noteq> Ev_reply k r" for e
    using that r by (cases e) (simp_all add: item_card_shown_def claim_card_shown_def)
  with r show ?thesis by blast
qed

lemma admin_items_error_blanks_page_witness:
  "admin_render (fetchItems_done Json_other admin_init) = None
   \<and> admin_step (Ev_tab ''claims'') (fetchItems_done Json_other admin_init) = None"
  using admin_items_error_blanks_page [of admin_init] by (simp add: admin_init_def fetchItems_start_def)

text \<open>C33: the dashboard always settles: from every reachable state, the server answering
  each request in flight with any reply of the right shape (a list, an error object, an
  exception, a refused or accepted PUT) reaches, after finitely many replies, a reachable
  state with nothing in flight and the loading indicator off; the reloads that accepted
  PUTs start are answered too.\<close>

theorem admin_requests_settle:
  assumes "\<forall>q. reply_fits q (srv q)" and "admin_reach s"
  shows "admin_reach (admin_drain srv s) \<and> in_flight (admin_drain srv s) = []
         \<and> \<not> ad_loading (admin_drain srv s)"
  using assms
proof (induction srv s rule: admin_drain.induct)
  case (1 srv s)
  show ?case
  proof (cases "in_flight s")
    case Nil
    with admin_reach_loading_inv [OF "1.prems"(2)] show ?thesis
      by (simp add: loading_inv_def "1.prems"(2))
  next
    case (Cons q qs)
    have "reply_fits q (srv q)" using "1.prems"(1) by blast
    then obtain s' where r: "admin_reply_step 0 (srv q) s = Some s'"
      and e: "admin_step (Ev_reply 0 (srv q)) s = Some s'"
      using fitting_reply_step [OF Cons] by blast
    have "admin_reach s'" using admin_reach.step [OF "1.prems"(2) e] .
    with "1.IH" [OF Cons r "1.prems"(1)] Cons r show ?thesis by simp
  qed
qed

lemma admin_requests_settle_witness:
  "\<exists>s. admin_run [Ev_reply 0 (Reply_items (Json_array [\<lparr>itemId = 1, itemTitle = Some ''Umbrella'',
          itemDesc = None, location = None, categoryName = None, status = LOST, item_userId = 2,
          dateReport = None, imageUrl = None\<rparr>])),
        Ev_mark \<lparr>itemId = 1, itemTitle = Some ''Umbrella'', itemDesc = None, location = None,
          categoryName = None, status = LOST, item_userId = 2, dateReport = None, imageUrl = None\<rparr>
          ''CLAIMED''] admin_init = Some s
     \<and> in_flight s = [Req_item_update 1 ''CLAIMED'']
     \<and> in_flight (admin_drain (\<lambda>q. case q of Req_items \<Rightarrow> Reply_items (Json_array [])
                                       | Req_claims \<Rightarrow> Reply_claims (Json_array [])
                                       | _ \<Rightarrow> Reply_put Put_ok) s) = []
     \<and> \<not> ad_loading (admin_drain (\<lambda>q. case q of Req_items \<Rightarrow> Reply_items (Json_array [])
                                       | Req_claims \<Rightarrow> Reply_claims (Json_array [])
                                       | _ \<Rightarrow> Reply_put Put_ok) s)"
proof -
  let ?it = "\<lparr>itemId = 1, itemTitle = Some ''Umbrella'', itemDesc = None, location = None,
              categoryName = None, status = LOST, item_userId = 2, dateReport = None,
              imageUrl = None\<rparr>"
  let ?srv = "\<lambda>q. case q of Req_items \<Rightarrow> Reply_items (Json_array [])
                          | Req_claims \<Rightarrow> Reply_claims (Json_array [])
                          | _ \<Rightarrow> Reply_put Put_ok"
  have "\<exists>s. admin_run [Ev_reply 0 (Reply_items (Json_array [?it])), Ev_mark ?it ''CLAIMED''] admin_init
             = Some s \<and> in_flight s = [Req_item_update 1 ''CLAIMED'']"
    by (simp add: admin_eval_defs status_actions_offered_def)
  then obtain s where r: "admin_run [Ev_reply 0 (Reply_items (Json_array [?it])), Ev_mark ?it ''CLAIMED'']
                            admin_init = Some s"
    and f: "in_flight s = [Req_item_update 1 ''CLAIMED'']" by blast
  have fits: "\<forall>q. reply_fits q (?srv q)" by (simp split: admin_req.split)
  have "admin_reach s" using admin_reach_run [OF admin_reach.init r] .
  with admin_requests_settle [OF fits] r f show ?thesis by blast
qed

text \<open>The dashboard shares one loading flag between its two fetches: switching to the claims
  tab while the items are still loading shows an empty claims list once the items arrive,
  while the claims request is still in flight.\<close>

lemma admin_loading_cleared_early:
  "\<exists>s. admin_reach s \<and> activeTab s = ''claims'' \<and> \<not> ad_loading s \<and> Req_claims \<in> set (in_flight s)
       \<and> admin_render s = Some (View_claim_cards [], None)"
proof -
  let ?es = "[Ev_tab ''claims'', Ev_reply 0 (Reply_items (Json_array []))]"
  have "\<exists>s. admin_run ?es admin_init = Some s \<and> activeTab s = ''claims'' \<and> \<not> ad_loading s
          \<and> Req_claims \<in> set (in_flight s) \<and> admin_render s = Some (View_claim_cards [], None)"
    by (simp add: admin_eval_defs)
  then show ?thesis using admin_reach_run [OF admin_reach.init] by blast
qed

end
