(* ===== verification/Profile.thy ===== *)
theory Profile
  imports Items Claims AuthGate
begin

text \<open>
  How the client shows the logged-in user, and the Profile page's report summary:
  \<open>getFullName\<close>, \<open>getUserInitials\<close> and the e-mail/role lines of
  \<open>src/frontend/src/pages/Profile/Profile.js\<close>,
  \<open>src/frontend/src/components/sidebar/Sidebar.js\<close> and
  \<open>src/frontend/src/components/sidebar/AdminSidebar.js\<close>, and the Profile page's
  \<open>fetchReports\<close>, its two tabs and what they render.
  The three components carry their own copies of the name helpers; they differ in their
  fallbacks, and Profile's initials differ in how they read the user name.
\<close>

subsection \<open>Names\<close>

text \<open>\<open>s.charAt(0)\<close>.\<close>

definition char_at0 :: "string \<Rightarrow> string" where
  "char_at0 s = take 1 s"

text \<open>The body shared by the three \<open>getFullName\<close>s: first name, the middle initial with a
  dot, the last name, trimmed; else the user name; else the component's fallback.\<close>

definition full_name_of :: "string \<Rightarrow> app_user \<Rightarrow> string" where
  "full_name_of fallback u =
     (let firstName = js_or (fname u) [];
          middleName = js_or (mname u) [];
          lastName = js_or (lname u) [];
          full1 = firstName @ (if middleName \<noteq> [] \<and> js_trim middleName \<noteq> []
                               then '' '' @ char_at0 middleName @ ''.'' else []);
          full2 = full1 @ (if lastName \<noteq> [] then '' '' @ lastName else [])
      in js_or (Some (js_trim full2)) (js_or (username u) fallback))"

definition sidebar_getFullName :: "app_user option \<Rightarrow> string" where
  "sidebar_getFullName u = (case u of None \<Rightarrow> ''Guest'' | Some v \<Rightarrow> full_name_of ''User'' v)"

definition admin_sidebar_getFullName :: "app_user option \<Rightarrow> string" where
  "admin_sidebar_getFullName u =
     (case u of None \<Rightarrow> ''Admin'' | Some v \<Rightarrow> full_name_of ''Admin User'' v)"

definition profile_getFullName :: "app_user \<Rightarrow> string" where
  "profile_getFullName u = full_name_of ''User'' u"

subsection \<open>Initials\<close>

text \<open>The first letters of first and last name, upper-cased, each when present.\<close>

definition name_initials :: "app_user \<Rightarrow> string" where
  "name_initials u =
     (if js_truthy (fname u) then js_upper (char_at0 (the (fname u))) else [])
     @ (if js_truthy (lname u) then js_upper (char_at0 (the (lname u))) else [])"

text \<open>The sidebars: the names' initials, else the user name's first letter
  (\<open>user.username?.charAt(0).toUpperCase()\<close>), else a fixed letter; another fixed
  letter with no user.\<close>

definition sidebar_initials_of :: "string \<Rightarrow> string \<Rightarrow> app_user option \<Rightarrow> string" where
  "sidebar_initials_of none_letter fallback u =
     (case u of
        None \<Rightarrow> none_letter
      | Some v \<Rightarrow>
          js_or (Some (name_initials v))
            (js_or (map_option (\<lambda>n. js_upper (char_at0 n)) (username v)) fallback))"

definition sidebar_getUserInitials :: "app_user option \<Rightarrow> string" where
  "sidebar_getUserInitials u = sidebar_initials_of ''G'' ''U'' u"

definition admin_sidebar_getUserInitials :: "app_user option \<Rightarrow> string" where
  "admin_sidebar_getUserInitials u = sidebar_initials_of ''A'' ''A'' u"

text \<open>Profile: with no name initials, the part of the user name before \<open>@\<close>; when it
  contains a dot, the first letters of its first two dot-separated parts.\<close>

definition profile_getUserInitials :: "app_user \<Rightarrow> string" where
  "profile_getUserInitials u =
     (let initials =
        (if name_initials u = [] \<and> js_truthy (username u) then
           (let emailPart = takeWhile (\<lambda>c. c \<noteq> CHR ''@'') (the (username u)) in
            if js_includes emailPart ''.'' then
              (let part0 = takeWhile (\<lambda>c. c \<noteq> CHR ''.'') emailPart;
                   part1 = takeWhile (\<lambda>c. c \<noteq> CHR ''.'')
                             (drop 1 (dropWhile (\<lambda>c. c \<noteq> CHR ''.'') emailPart))
               in js_upper (char_at0 part0 @ char_at0 part1))
            else js_upper (char_at0 emailPart))
         else name_initials u)
      in js_or (Some initials) ''U'')"

subsection \<open>E-mail and role lines\<close>

definition sidebar_getDisplayUsername :: "app_user option \<Rightarrow> string" where
  "sidebar_getDisplayUsername u =
     (case u of
        None \<Rightarrow> ''guest@example.com''
      | Some v \<Rightarrow> js_or (username v) (js_or (email v) ''user@example.com''))"

definition profile_getDisplayEmail :: "app_user \<Rightarrow> string" where
  "profile_getDisplayEmail u = js_or (email u) (js_or (username u) ''No email'')"

definition profile_getDisplayRole :: "app_user \<Rightarrow> string" where
  "profile_getDisplayRole u =
     (if \<not> js_truthy (role u) then ''User''
      else js_upper (char_at0 (the (role u))) @ js_lower (drop 1 (the (role u))))"

subsection \<open>The report summary\<close>

record profile_reports =
  activeReports :: "item list"
  claimedReports :: "claims_reply"
  loadingReports :: bool

definition profile_reports_init :: profile_reports where
  "profile_reports_init = \<lparr>activeReports = [], claimedReports = Claims_array [], loadingReports = True\<rparr>"

text \<open>\<open>fetchReports\<close>, run when \<open>user\<close> changes: the user's items (a non-array makes
  \<open>items.filter\<close> throw, which is caught), then the claims the user made, stored as they
  come. With no user id the effect returns at once and the flag is never cleared.\<close>

definition fetchReports ::
  "app_user option \<Rightarrow> items_reply \<Rightarrow> claims_reply \<Rightarrow> 'a profile_reports_scheme
   \<Rightarrow> 'a profile_reports_scheme" where
  "fetchReports u ir cr p =
     (case u of
        None \<Rightarrow> p
      | Some v \<Rightarrow>
          (case userId v of
             None \<Rightarrow> p
           | Some uid \<Rightarrow>
               if uid = 0 then p
               else
                 (case ir of
                    Items_array xs \<Rightarrow>
                      (case cr of
                         Claims_error \<Rightarrow> p\<lparr>loadingReports := False\<rparr>
                       | _ \<Rightarrow> p\<lparr>activeReports := filter (\<lambda>it. status it = LOST \<or> status it = FOUND) xs,
                                claimedReports := cr, loadingReports := False\<rparr>)
                  | _ \<Rightarrow> p\<lparr>loadingReports := False\<rparr>)))"

text \<open>The page's two tabs and what it renders: the two counters (a non-array's
  \<open>length\<close> is \<open>undefined\<close> and renders as nothing), then the loading line, the active
  items as (id, status) cards, or the user's claims as cards titled by their id.\<close>

datatype profile_tab = Tab_active | Tab_claimed

record profile_view = profile_reports +
  profile_activeTab :: profile_tab

definition profile_setActiveTab :: "profile_tab \<Rightarrow> 'a profile_view_scheme \<Rightarrow> 'a profile_view_scheme" where
  "profile_setActiveTab t p = p\<lparr>profile_activeTab := t\<rparr>"

definition claims_length :: "claims_reply \<Rightarrow> nat option" where
  "claims_length r = (case r of Claims_array cs \<Rightarrow> Some (length cs) | _ \<Rightarrow> None)"

definition profile_stats :: "'a profile_reports_scheme \<Rightarrow> nat option \<times> nat option" where
  "profile_stats p = (Some (length (activeReports p)), claims_length (claimedReports p))"

datatype profile_screen =
    Profile_loading
  | Profile_none string
  | Profile_item_cards "(item_id \<times> string) list"
  | Profile_claim_cards "(claim_id \<times> string) list"

definition profile_render :: "'a profile_view_scheme \<Rightarrow> profile_screen" where
  "profile_render p =
     (if loadingReports p then Profile_loading
      else if profile_activeTab p = Tab_active then
        (if activeReports p \<noteq> [] then
           Profile_item_cards (map (\<lambda>it. (itemId it, status_name (status it))) (activeReports p))
         else Profile_none ''No active reports'')
      else
        (case claimedReports p of
           Claims_array cs \<Rightarrow>
             if cs \<noteq> [] then
               Profile_claim_cards (map (\<lambda>c. (claimId c, ''Claim #'' @ js_string_of_nat (claimId c))) cs)
             else Profile_none ''No claimed reports''
         | _ \<Rightarrow> Profile_none ''No claimed reports''))"

subsection \<open>Lemmas\<close>

lemma length_char_at0 [simp]: "length (char_at0 s) = min 1 (length s)"
  by (simp add: char_at0_def)

lemma length_js_upper [simp]: "length (js_upper s) = length s"
  by (simp add: js_upper_def)

lemma js_upper_Nil_iff [simp]: "js_upper s = [] \<longleftrightarrow> s = []"
  by (simp add: js_upper_def)

lemma char_at0_Nil_iff [simp]: "char_at0 s = [] \<longleftrightarrow> s = []"
  by (simp add: char_at0_def)

lemma length_js_or_bounds:
  assumes "x \<noteq> [] \<Longrightarrow> length x \<le> n" and "1 \<le> length d" and "length d \<le> n"
  shows "1 \<le> length (js_or (Some x) d) \<and> length (js_or (Some x) d) \<le> n"
  using assms by (cases x) auto

lemma length_name_initials: "length (name_initials u) \<le> 2"
  by (simp add: name_initials_def min_def)

lemma sidebar_initials_of_length:
  assumes "length a = 1" and "length f = 1"
  shows "1 \<le> length (sidebar_initials_of a f u) \<and> length (sidebar_initials_of a f u) \<le> 2"
proof (cases u)
  case None
  with assms show ?thesis by (simp add: sidebar_initials_of_def)
next
  case (Some v)
  let ?t = "js_or (map_option (\<lambda>n. js_upper (char_at0 n)) (username v)) f"
  have t: "1 \<le> length ?t \<and> length ?t \<le> 2"
    using assms(2) by (cases "username v") (auto simp: Suc_le_eq)
  have eq: "sidebar_initials_of a f u = js_or (Some (name_initials v)) ?t"
    using Some by (simp add: sidebar_initials_of_def)
  show ?thesis unfolding eq
    by (rule length_js_or_bounds) (use t length_name_initials in auto)
qed

text \<open>Every avatar shows one or two letters.\<close>

lemma sidebar_initials_length:
  "1 \<le> length (sidebar_getUserInitials u) \<and> length (sidebar_getUserInitials u) \<le> 2"
  "1 \<le> length (admin_sidebar_getUserInitials u) \<and> length (admin_sidebar_getUserInitials u) \<le> 2"
  unfolding sidebar_getUserInitials_def admin_sidebar_getUserInitials_def
  by (rule sidebar_initials_of_length; simp)+

lemma profile_initials_length:
  "1 \<le> length (profile_getUserInitials u) \<and> length (profile_getUserInitials u) \<le> 2"
  unfolding profile_getUserInitials_def Let_def
  by (rule length_js_or_bounds) (use length_name_initials in auto)

text \<open>The Profile page and the sidebar show different initials for the same user when the
  user has no first or last name and a dotted user name.\<close>

lemma profile_sidebar_initials_differ:
  "profile_getUserInitials \<lparr>userId = Some 1, username = Some ''john.doe@cit.edu'', email = None,
      fname = None, lname = None, role = Some ''USER'', mname = None\<rparr> = ''JD''
   \<and> sidebar_getUserInitials (Some \<lparr>userId = Some 1, username = Some ''john.doe@cit.edu'',
      email = None, fname = None, lname = None, role = Some ''USER'', mname = None\<rparr>) = ''J''"
  by (simp add: profile_getUserInitials_def sidebar_getUserInitials_def sidebar_initials_of_def
                name_initials_def char_at0_def js_prim_defs)

text \<open>The role line reads \<open>Admin\<close> for every spelling the admin test accepts.\<close>

lemma profile_role_admin_variants:
  "\<forall>r \<in> set (case_variants ''admin''). profile_getDisplayRole (u\<lparr>role := Some r\<rparr>) = ''Admin''"
  by (simp add: profile_getDisplayRole_def char_at0_def js_prim_defs)

lemma fetchReports_active:
  assumes "userId u = Some uid" and "uid \<noteq> 0" and "cr \<noteq> Claims_error"
  shows "activeReports (fetchReports (Some u) (Items_array xs) cr p)
           = filter (\<lambda>it. status it = LOST \<or> status it = FOUND) xs
         \<and> \<not> loadingReports (fetchReports (Some u) (Items_array xs) cr p)"
  using assms by (cases cr) (simp_all add: fetchReports_def)

text \<open>With no user id the summary never leaves its loading state.\<close>

lemma fetchReports_no_id:
  "userId u = None \<Longrightarrow> loadingReports (fetchReports (Some u) ir cr profile_reports_init)"
  by (simp add: fetchReports_def profile_reports_init_def)

text \<open>The "Claimed" counter and tab list every claim the user has filed, whatever its
  status: a pending or rejected claim counts as claimed.\<close>

lemma profile_claimed_counts_filed_claims:
  assumes "userId u = Some uid" and "uid \<noteq> 0"
  shows "snd (profile_stats (fetchReports (Some u) (Items_array xs) (Claims_array cs) p)) = Some (length cs)"
    and "cs \<noteq> [] \<Longrightarrow> profile_activeTab p = Tab_claimed \<Longrightarrow>
         profile_render (fetchReports (Some u) (Items_array xs) (Claims_array cs) p)
           = Profile_claim_cards (map (\<lambda>c. (claimId c, ''Claim #'' @ js_string_of_nat (claimId c))) cs)"
  using assms by (simp_all add: fetchReports_def profile_stats_def claims_length_def profile_render_def)

end
