(* ===== verification/Assistant.thy ===== *)
theory Assistant
  imports Complex_Main Items Session
begin

text \<open>
  The Home page's match assistant, \<open>startAISearch\<close> and its chat panel in
  \<open>src/frontend/src/pages/Home/Home.js\<close>. After a two-second pause it pairs each of the
  user's \<open>LOST\<close> items with the \<open>FOUND\<close> items of other users that share a category,
  whose location contains the lost item's location, or whose title contains the lost item's
  title, all ignoring case; each pair gets a confidence drawn from \<open>Math.random()\<close>. The
  draws are a parameter (the \<open>k\<close>-th call's value), so the search is a function.
\<close>

subsection \<open>State and matching\<close>

record ai_match =
  lostItem :: item
  foundItem :: item
  confidence :: nat

record ai_state =
  showAIChat :: bool
  showChatBubble :: bool
  aiLoading :: bool
  aiResults :: "ai_match list"
  aiMessage :: string

definition ai_init :: ai_state where
  "ai_init = \<lparr>showAIChat = False, showChatBubble = True, aiLoading = False, aiResults = [],
              aiMessage = []\<rparr>"

text \<open>\<open>a && b && a.toLowerCase() === b.toLowerCase()\<close> and the \<open>includes\<close> variant.\<close>

definition same_lower :: "string option \<Rightarrow> string option \<Rightarrow> bool" where
  "same_lower a b \<longleftrightarrow> js_truthy a \<and> js_truthy b \<and> js_lower (the a) = js_lower (the b)"

definition includes_lower :: "string option \<Rightarrow> string option \<Rightarrow> bool" where
  "includes_lower a b \<longleftrightarrow> js_truthy a \<and> js_truthy b \<and> js_includes (js_lower (the a)) (js_lower (the b))"

definition ai_is_match :: "user_id option \<Rightarrow> item \<Rightarrow> item \<Rightarrow> bool" where
  "ai_is_match uid lost it \<longleftrightarrow>
     status it = FOUND \<and> Some (item_userId it) \<noteq> uid
     \<and> (same_lower (categoryName it) (categoryName lost)
        \<or> includes_lower (location it) (location lost)
        \<or> includes_lower (itemTitle it) (itemTitle lost))"

text \<open>\<open>Math.floor(Math.random() * 30) + 70\<close>.\<close>

definition ai_confidence :: "real \<Rightarrow> nat" where
  "ai_confidence x = nat \<lfloor>x * 30\<rfloor> + 70"

definition ai_pairs :: "user_id option \<Rightarrow> item list \<Rightarrow> item list \<Rightarrow> (item \<times> item) list" where
  "ai_pairs uid lostItems xs = concat (map (\<lambda>l. map (\<lambda>f. (l, f)) (filter (ai_is_match uid l) xs)) lostItems)"

text \<open>The \<open>k\<close>-th pair pushed gets the \<open>k\<close>-th draw.\<close>

definition ai_matches :: "(nat \<Rightarrow> real) \<Rightarrow> (item \<times> item) list \<Rightarrow> ai_match list" where
  "ai_matches draw ps =
     map (\<lambda>k. \<lparr>lostItem = fst (ps ! k), foundItem = snd (ps ! k), confidence = ai_confidence (draw k)\<rparr>)
       [0..<length ps]"

subsection \<open>Handlers\<close>

text \<open>\<open>startAISearch\<close> up to its pause, and \<open>handleAIAssistantClick\<close>, which opens the chat
  and starts it.\<close>

definition startAISearch_start :: "ai_state \<Rightarrow> ai_state" where
  "startAISearch_start s =
     s\<lparr>aiLoading := True, aiMessage := ''Finding your items, based on your report details...'',
       aiResults := []\<rparr>"

definition handleAIAssistantClick :: "ai_state \<Rightarrow> ai_state" where
  "handleAIAssistantClick s = startAISearch_start (s\<lparr>showAIChat := True, showChatBubble := False\<rparr>)"

text \<open>The rest of \<open>startAISearch\<close>, with the \<open>items\<close> of the render the click came from.\<close>

definition startAISearch_finish ::
  "app_user option \<Rightarrow> item list \<Rightarrow> (nat \<Rightarrow> real) \<Rightarrow> ai_state \<Rightarrow> ai_state" where
  "startAISearch_finish u xs draw s =
     (let uid = (case u of Some v \<Rightarrow> userId v | None \<Rightarrow> None);
          userItems = filter (\<lambda>it. u \<noteq> None \<and> Some (item_userId it) = uid) xs
      in if userItems = [] then
           s\<lparr>aiMessage := ''You haven't reported any items yet. Report some items first for AI to help you!'',
             aiLoading := False\<rparr>
         else
           (let lostItems = filter (\<lambda>it. status it = LOST) userItems in
            if lostItems = [] then
              s\<lparr>aiMessage := ''You don't have any lost items reported. Report a lost item for AI to help find it!'',
                aiLoading := False\<rparr>
            else
              (let ms = ai_matches draw (ai_pairs uid lostItems xs) in
               if ms \<noteq> [] then
                 s\<lparr>aiMessage := ''Found '' @ js_string_of_nat (length ms) @ '' potential match''
                                  @ (if 1 < length ms then ''es'' else []) @ '' for your lost items!'',
                   aiResults := ms, aiLoading := False\<rparr>
               else
                 s\<lparr>aiMessage := ''No matches found yet. Don't worry, we'll keep looking!'',
                   aiLoading := False\<rparr>)))"

text \<open>\<open>closeAIChat\<close>, and its timer half a second later.\<close>

definition closeAIChat :: "ai_state \<Rightarrow> ai_state" where
  "closeAIChat s = s\<lparr>showAIChat := False\<rparr>"

definition closeAIChat_timer :: "ai_state \<Rightarrow> ai_state" where
  "closeAIChat_timer s = s\<lparr>showChatBubble := True\<rparr>"

subsection \<open>Lemmas\<close>

lemma set_ai_pairs:
  "set (ai_pairs uid ls xs) = {(l, f). l \<in> set ls \<and> f \<in> set xs \<and> ai_is_match uid l f}"
  by (auto simp: ai_pairs_def)

lemma set_ai_matches:
  "m \<in> set (ai_matches draw ps) \<longleftrightarrow>
     (\<exists>k < length ps. m = \<lparr>lostItem = fst (ps ! k), foundItem = snd (ps ! k),
                            confidence = ai_confidence (draw k)\<rparr>)"
  by (auto simp: ai_matches_def)

lemma ai_confidence_bounds:
  assumes "0 \<le> x" and "x < 1"
  shows "70 \<le> ai_confidence x \<and> ai_confidence x \<le> 99"
proof -
  have "0 \<le> x * 30" and "x * 30 < 30" using assms by auto
  then have "0 \<le> \<lfloor>x * 30\<rfloor>" and "\<lfloor>x * 30\<rfloor> \<le> 29" by linarith+
  then show ?thesis by (simp add: ai_confidence_def nat_le_iff)
qed

lemma startAISearch_finish_results:
  "aiResults (startAISearch_finish u xs draw s) = aiResults s
   \<or> aiResults (startAISearch_finish u xs draw s)
       = ai_matches draw (ai_pairs (case u of Some v \<Rightarrow> userId v | None \<Rightarrow> None)
                          (filter (\<lambda>it. status it = LOST)
                             (filter (\<lambda>it. u \<noteq> None \<and> Some (item_userId it)
                                            = (case u of Some v \<Rightarrow> userId v | None \<Rightarrow> None)) xs)) xs)"
  by (simp add: startAISearch_finish_def Let_def)

text \<open>Every suggestion pairs one of the user's lost items with another user's found item
  that shares its category, location or title.\<close>

lemma ai_results_sound:
  assumes "m \<in> set (aiResults (startAISearch_finish (Some u) xs draw (handleAIAssistantClick s)))"
  shows "lostItem m \<in> set xs \<and> status (lostItem m) = LOST \<and> Some (item_userId (lostItem m)) = userId u
         \<and> foundItem m \<in> set xs \<and> ai_is_match (userId u) (lostItem m) (foundItem m)"
proof -
  have "aiResults (handleAIAssistantClick s) = []" by (simp add: handleAIAssistantClick_def startAISearch_start_def)
  then obtain k ps where ps: "ps = ai_pairs (userId u) (filter (\<lambda>it. status it = LOST)
                              (filter (\<lambda>it. Some (item_userId it) = userId u) xs)) xs"
    and k: "k < length ps" and m: "m = \<lparr>lostItem = fst (ps ! k), foundItem = snd (ps ! k),
                                        confidence = ai_confidence (draw k)\<rparr>"
    using assms startAISearch_finish_results [of "Some u" xs draw "handleAIAssistantClick s"]
    by (auto simp: set_ai_matches)
  have "ps ! k \<in> set ps" using k by simp
  then show ?thesis using ps m by (auto simp: set_ai_pairs)
qed

text \<open>C35: with draws from \<open>Math.random()\<close>, in [0, 1), every confidence the assistant
  shows is between 70 and 99 percent: the comment's \<open>70-100%\<close> is never reached at 100.\<close>

theorem ai_results_confidence:
  assumes "\<forall>k. 0 \<le> draw k \<and> draw k < 1"
    and "m \<in> set (aiResults (startAISearch_finish u xs draw (handleAIAssistantClick s)))"
  shows "70 \<le> confidence m \<and> confidence m \<le> 99"
proof -
  have "aiResults (handleAIAssistantClick s) = []" by (simp add: handleAIAssistantClick_def startAISearch_start_def)
  then obtain k ps where "m = \<lparr>lostItem = fst (ps ! k), foundItem = snd (ps ! k),
                                confidence = ai_confidence (draw k)\<rparr>"
    using assms(2) startAISearch_finish_results [of u xs draw "handleAIAssistantClick s"]
    by (auto simp: set_ai_matches)
  then show ?thesis using ai_confidence_bounds assms(1) by simp
qed

lemma ai_no_user_items:
  "\<forall>it \<in> set xs. Some (item_userId it) \<noteq> userId u \<Longrightarrow>
   aiResults (startAISearch_finish (Some u) xs draw (handleAIAssistantClick s)) = []
   \<and> \<not> aiLoading (startAISearch_finish (Some u) xs draw (handleAIAssistantClick s))"
  by (simp add: startAISearch_finish_def handleAIAssistantClick_def startAISearch_start_def Let_def filter_empty_conv)

lemma ai_results_confidence_witness:
  "confidence (hd (aiResults (startAISearch_finish
      (Some \<lparr>userId = Some 1, username = Some ''alice'', email = None, fname = None, lname = None,
             role = Some ''USER'', mname = None\<rparr>)
      [\<lparr>itemId = 1, itemTitle = Some ''Blue Backpack'', itemDesc = None, location = Some ''Library'',
        categoryName = Some ''Bags'', status = LOST, item_userId = 1, dateReport = None, imageUrl = None\<rparr>,
       \<lparr>itemId = 2, itemTitle = Some ''Backpack'', itemDesc = None, location = Some ''Gym'',
        categoryName = Some ''bags'', status = FOUND, item_userId = 2, dateReport = None, imageUrl = None\<rparr>]
      (\<lambda>_. 1 / 2) (handleAIAssistantClick ai_init)))) = 85"
proof -
  let ?r = "aiResults (startAISearch_finish
      (Some \<lparr>userId = Some 1, username = Some ''alice'', email = None, fname = None, lname = None,
             role = Some ''USER'', mname = None\<rparr>)
      [\<lparr>itemId = 1, itemTitle = Some ''Blue Backpack'', itemDesc = None, location = Some ''Library'',
        categoryName = Some ''Bags'', status = LOST, item_userId = 1, dateReport = None, imageUrl = None\<rparr>,
       \<lparr>itemId = 2, itemTitle = Some ''Backpack'', itemDesc = None, location = Some ''Gym'',
        categoryName = Some ''bags'', status = FOUND, item_userId = 2, dateReport = None, imageUrl = None\<rparr>]
      (\<lambda>_. 1 / 2) (handleAIAssistantClick ai_init))"
  have r: "?r = [\<lparr>lostItem = \<lparr>itemId = 1, itemTitle = Some ''Blue Backpack'', itemDesc = None,
        location = Some ''Library'', categoryName = Some ''Bags'', status = LOST, item_userId = 1,
        dateReport = None, imageUrl = None\<rparr>,
      foundItem = \<lparr>itemId = 2, itemTitle = Some ''Backpack'', itemDesc = None, location = Some ''Gym'',
        categoryName = Some ''bags'', status = FOUND, item_userId = 2, dateReport = None, imageUrl = None\<rparr>,
      confidence = ai_confidence (1 / 2)\<rparr>]"
    by (simp add: startAISearch_finish_def handleAIAssistantClick_def startAISearch_start_def ai_init_def Let_def ai_pairs_def
                  ai_is_match_def same_lower_def includes_lower_def ai_matches_def js_prim_defs)
  have m: "hd ?r \<in> set ?r" unfolding r by simp
  have "70 \<le> confidence (hd ?r) \<and> confidence (hd ?r) \<le> 99"
    using ai_results_confidence [OF _ m] by simp
  moreover have "ai_confidence (1 / 2) = 85" by (simp add: ai_confidence_def)
  ultimately show ?thesis unfolding r by simp
qed

end
