(* ===== verification/Home.thy ===== *)
theory Home
  imports Claims Assistant
begin

text \<open>
  The Home page as the user sees it, \<open>src/frontend/src/pages/Home/Home.js\<close>: its state
  beyond the item list (the filter button, the search box and the assistant), the handlers of
  the filter buttons, the search form and the click-outside listener, the greeting, the
  counters and the item cards it renders. The list itself, the counters' source and the
  assistant's search are the \<open>Items\<close> and \<open>Assistant\<close> theories'; the "This is Mine!"
  button calls the \<open>Claims\<close> theory's \<open>handleMineButtonClick\<close>.
\<close>

subsection \<open>State and handlers\<close>

record home_view = home_state +
  filterState :: home_filter
  searchQuery :: string
  aiView :: ai_state

definition home_view_init :: home_view where
  "home_view_init =
     \<lparr>items = [], home_loading = True, counts = zero_stats, filterState = Filter_all,
      searchQuery = [], aiView = ai_init\<rparr>"

text \<open>The mount sequence of \<open>Items\<close> on the whole page state.\<close>

definition home_view_mount :: "stats_reply \<Rightarrow> items_reply \<Rightarrow> home_view" where
  "home_view_mount sr ir = fetchStats sr ir (items_stats_effect home_view_init)"

definition setFilter :: "home_filter \<Rightarrow> 'a home_view_scheme \<Rightarrow> 'a home_view_scheme" where
  "setFilter f p = p\<lparr>filterState := f\<rparr>"

definition handleSearchChange :: "string \<Rightarrow> 'a home_view_scheme \<Rightarrow> 'a home_view_scheme" where
  "handleSearchChange v p = p\<lparr>searchQuery := v\<rparr>"

text \<open>\<open>handleSearchSubmit\<close> only prevents the page reload: the list filters as one types.\<close>

definition handleSearchSubmit :: "'a home_view_scheme \<Rightarrow> 'a home_view_scheme" where
  "handleSearchSubmit p = p"

text \<open>The \<open>mousedown\<close> listener: registered while the bubble or the chat is shown, it
  hides the bubble on a press outside both the bubble and the assistant's icon. The bubble's
  ref is set only while the bubble is rendered.\<close>

definition handleClickOutside :: "bool \<Rightarrow> bool \<Rightarrow> ai_state \<Rightarrow> ai_state" where
  "handleClickOutside inBubble inIcon s =
     (if showChatBubble s \<and> \<not> inBubble \<and> \<not> inIcon then s\<lparr>showChatBubble := False\<rparr> else s)"

definition home_mousedown :: "bool \<Rightarrow> bool \<Rightarrow> ai_state \<Rightarrow> ai_state" where
  "home_mousedown inBubble inIcon s =
     (if showChatBubble s \<or> showAIChat s then handleClickOutside inBubble inIcon s else s)"

text \<open>The match card's "Claim This Match" button.\<close>

definition claim_this_match ::
  "app_user option \<Rightarrow> ai_match \<Rightarrow> string option \<Rightarrow> claim_post_reply
   \<Rightarrow> claim_payload option \<times> mine_outcome" where
  "claim_this_match u m answer r = handleMineButtonClick u (foundItem m) answer r"

subsection \<open>What the page shows\<close>

definition getFirstName :: "app_user option \<Rightarrow> string" where
  "getFirstName u = (case u of None \<Rightarrow> [] | Some v \<Rightarrow> js_or (fname v) (js_or (username v) []))"

definition home_greeting :: "bool \<Rightarrow> app_user option \<Rightarrow> string" where
  "home_greeting userLoading u =
     (if userLoading then ''Looking for something?''
      else case u of
        None \<Rightarrow> ''Looking for something?''
      | Some _ \<Rightarrow> ''Welcome back '' @ getFirstName u @ ''! Have you lost something again?'')"

text \<open>\<open>getStatusInfo\<close>: a switch on the status string, giving the badge's class and text.\<close>

definition getStatusInfo :: "item_status \<Rightarrow> string \<times> string" where
  "getStatusInfo s =
     (let st = status_name s in
      if st = ''LOST'' then (''lost'', ''Lost'')
      else if st = ''FOUND'' then (''found'', ''Found'')
      else if st = ''REUNITED'' then (''reunited'', ''Reunited'')
      else (''unknown'', st))"

definition isCurrentUserItem :: "app_user option \<Rightarrow> item \<Rightarrow> bool" where
  "isCurrentUserItem u it \<longleftrightarrow> (case u of None \<Rightarrow> False | Some v \<Rightarrow> userId v = Some (item_userId it))"

text \<open>The stat cards: four counters, and "My Reports" when a user is logged in.\<close>

definition home_counters :: "app_user option \<Rightarrow> 'a home_state_scheme \<Rightarrow> (nat \<times> string) list" where
  "home_counters u p =
     [(activeCount (counts p), ''Active''), (lostCount (counts p), ''Lost''),
      (foundCount (counts p), ''Found''), (reunitedCount (counts p), ''Claim'')]
     @ (case u of
          None \<Rightarrow> []
        | Some _ \<Rightarrow> [(length (filter (isCurrentUserItem u) (items p)), ''My Reports'')])"

record home_card =
  card_title :: string
  card_status :: "string \<times> string"
  card_desc :: string
  card_location :: string
  card_category :: string
  card_reportedBy :: string
  card_mine_button :: bool
  card_my_badge :: bool

definition home_card_of :: "app_user option \<Rightarrow> item \<Rightarrow> home_card" where
  "home_card_of u it =
     \<lparr>card_title = js_or (itemTitle it) ''Untitled Item'', card_status = getStatusInfo (status it),
      card_desc = js_or (itemDesc it) ''No description provided.'',
      card_location = js_or (location it) ''Not specified'',
      card_category = js_or (categoryName it) ''Uncategorized'',
      card_reportedBy = (if isCurrentUserItem u it then ''You''
                         else ''User #'' @ js_string_of_nat (item_userId it)),
      card_mine_button = (\<not> isCurrentUserItem u it), card_my_badge = isCurrentUserItem u it\<rparr>"

text \<open>The list area: the loading line; the empty message, with the search hint when a query
  is typed and the "be the first" link when there are no items at all; or the cards.\<close>

datatype home_screen = Home_loading | Home_empty bool bool | Home_cards "home_card list"

definition home_render :: "app_user option \<Rightarrow> 'a home_view_scheme \<Rightarrow> home_screen" where
  "home_render u p =
     (if home_loading p then Home_loading
      else
        (let fs = filteredItems (filterState p) (searchQuery p) (items p) in
         if fs = [] then Home_empty (searchQuery p \<noteq> []) (items p = [])
         else Home_cards (map (home_card_of u) fs)))"

text \<open>The assistant's modal: closed, its loading line, or its message and one card per
  match, numbered from 1, with the confidence shown.\<close>

datatype ai_screen = Ai_closed | Ai_loading string | Ai_shown string "(nat \<times> nat) list"

definition ai_render :: "ai_state \<Rightarrow> ai_screen" where
  "ai_render s =
     (if \<not> showAIChat s then Ai_closed
      else if aiLoading s then Ai_loading (aiMessage s)
      else Ai_shown (aiMessage s)
             (map (\<lambda>k. (k + 1, confidence (aiResults s ! k))) [0..<length (aiResults s)]))"

subsection \<open>Lemmas\<close>

lemma handleMineButtonClick_own:
  assumes "snd (handleMineButtonClick u it a r) = Mine_blocked ''You cannot claim your own reported item''"
  shows "\<exists>v uid. u = Some v \<and> userId v = Some uid \<and> item_userId it = uid"
  using assms by (auto simp: handleMineButtonClick_def split: option.splits if_splits claim_post_reply.splits)

lemma filteredItems_all_no_query [simp]: "filteredItems Filter_all [] xs = xs"
  by (simp add: filteredItems_def home_item_visible_no_query)

subsection \<open>Properties of the page\<close>

text \<open>C38: the claim handler's refusal of one's own item is never reached from the page: the
  "This is Mine!" button is rendered only on other users' items, and the assistant only
  proposes other users' found items for "Claim This Match".\<close>

theorem own_item_refusal_unreachable:
  "(card_mine_button (home_card_of u it) \<longrightarrow>
      snd (handleMineButtonClick u it a r) \<noteq> Mine_blocked ''You cannot claim your own reported item'')
   \<and> (m \<in> set (aiResults (startAISearch_finish (Some v) xs draw (handleAIAssistantClick s))) \<longrightarrow>
      snd (claim_this_match (Some v) m a r) \<noteq> Mine_blocked ''You cannot claim your own reported item'')"
proof (intro conjI impI)
  show "card_mine_button (home_card_of u it) \<Longrightarrow>
        snd (handleMineButtonClick u it a r) \<noteq> Mine_blocked ''You cannot claim your own reported item''"
    by (auto simp: home_card_of_def isCurrentUserItem_def dest!: handleMineButtonClick_own)
  assume "m \<in> set (aiResults (startAISearch_finish (Some v) xs draw (handleAIAssistantClick s)))"
  then have "ai_is_match (userId v) (lostItem m) (foundItem m)" by (simp add: ai_results_sound)
  then have "Some (item_userId (foundItem m)) \<noteq> userId v" by (simp add: ai_is_match_def)
  then show "snd (claim_this_match (Some v) m a r) \<noteq> Mine_blocked ''You cannot claim your own reported item''"
    by (auto simp: claim_this_match_def dest!: handleMineButtonClick_own)
qed

lemma own_item_refusal_unreachable_witness:
  "card_mine_button (home_card_of (Some \<lparr>userId = Some 1, username = Some ''alice'', email = None,
      fname = None, lname = None, role = Some ''USER'', mname = None\<rparr>)
      \<lparr>itemId = 2, itemTitle = Some ''Backpack'', itemDesc = None, location = Some ''Gym'',
       categoryName = Some ''bags'', status = FOUND, item_userId = 2, dateReport = None, imageUrl = None\<rparr>)
   \<and> snd (handleMineButtonClick (Some \<lparr>userId = Some 1, username = Some ''alice'', email = None,
      fname = None, lname = None, role = Some ''USER'', mname = None\<rparr>)
      \<lparr>itemId = 2, itemTitle = Some ''Backpack'', itemDesc = None, location = Some ''Gym'',
       categoryName = Some ''bags'', status = FOUND, item_userId = 2, dateReport = None, imageUrl = None\<rparr>
      (Some ''blue zip'') Post_network_error)
      \<noteq> Mine_blocked ''You cannot claim your own reported item''
   \<and> hd (aiResults (startAISearch_finish
      (Some \<lparr>userId = Some 1, username = Some ''alice'', email = None, fname = None, lname = None,
             role = Some ''USER'', mname = None\<rparr>)
      [\<lparr>itemId = 1, itemTitle = Some ''Blue Backpack'', itemDesc = None, location = Some ''Library'',
        categoryName = Some ''Bags'', status = LOST, item_userId = 1, dateReport = None, imageUrl = None\<rparr>,
       \<lparr>itemId = 2, itemTitle = Some ''Backpack'', itemDesc = None, location = Some ''Gym'',
        categoryName = Some ''bags'', status = FOUND, item_userId = 2, dateReport = None, imageUrl = None\<rparr>]
      (\<lambda>_. 1 / 2) (handleAIAssistantClick ai_init)))
     \<in> set (aiResults (startAISearch_finish
      (Some \<lparr>userId = Some 1, username = Some ''alice'', email = None, fname = None, lname = None,
             role = Some ''USER'', mname = None\<rparr>)
      [\<lparr>itemId = 1, itemTitle = Some ''Blue Backpack'', itemDesc = None, location = Some ''Library'',
        categoryName = Some ''Bags'', status = LOST, item_userId = 1, dateReport = None, imageUrl = None\<rparr>,
       \<lparr>itemId = 2, itemTitle = Some ''Backpack'', itemDesc = None, location = Some ''Gym'',
        categoryName = Some ''bags'', status = FOUND, item_userId = 2, dateReport = None, imageUrl = None\<rparr>]
      (\<lambda>_. 1 / 2) (handleAIAssistantClick ai_init)))"
proof -
  let ?u = "\<lparr>userId = Some 1, username = Some ''alice'', email = None, fname = None, lname = None,
             role = Some ''USER'', mname = None\<rparr>"
  let ?f = "\<lparr>itemId = 2, itemTitle = Some ''Backpack'', itemDesc = None, location = Some ''Gym'',
        categoryName = Some ''bags'', status = FOUND, item_userId = 2, dateReport = None, imageUrl = None\<rparr>"
  let ?xs = "[\<lparr>itemId = 1, itemTitle = Some ''Blue Backpack'', itemDesc = None, location = Some ''Library'',
        categoryName = Some ''Bags'', status = LOST, item_userId = 1, dateReport = None, imageUrl = None\<rparr>, ?f]"
  let ?r = "aiResults (startAISearch_finish (Some ?u) ?xs (\<lambda>_. 1 / 2) (handleAIAssistantClick ai_init))"
  have b: "card_mine_button (home_card_of (Some ?u) ?f)"
    by (simp add: home_card_of_def isCurrentUserItem_def)
  have "?r \<noteq> []"
    by (simp add: startAISearch_finish_def handleAIAssistantClick_def startAISearch_start_def ai_init_def
                  Let_def ai_pairs_def ai_is_match_def same_lower_def includes_lower_def ai_matches_def
                  js_prim_defs)
  then have m: "hd ?r \<in> set ?r" by simp
  from own_item_refusal_unreachable [where u = "Some ?u" and it = ?f and a = "Some ''blue zip''"
          and r = Post_network_error] b m show ?thesis by blast
qed

text \<open>With the "All Items" filter and no query, the "My Reports" counter equals the number of
  cards carrying the "My Item" badge.\<close>

lemma my_reports_counts_badges:
  assumes "u = Some v" and "filterState p = Filter_all" and "searchQuery p = []"
    and "home_render u p = Home_cards cs"
  shows "(length (filter card_my_badge cs), ''My Reports'') \<in> set (home_counters u p)"
proof -
  have "cs = map (home_card_of u) (items p)"
    using assms(2-4) by (auto simp: home_render_def Let_def split: if_splits)
  then have "length (filter card_my_badge cs) = length (filter (isCurrentUserItem u) (items p))"
    by (simp add: home_card_of_def comp_def)
  then show ?thesis using assms(1) by (simp add: home_counters_def)
qed

text \<open>Items the admin has marked are still listed under "All Items", with an unknown badge
  showing the raw status.\<close>

lemma home_badge_admin_statuses:
  "getStatusInfo CLAIMED = (''unknown'', ''CLAIMED'') \<and> getStatusInfo RETURNED = (''unknown'', ''RETURNED'')
   \<and> getStatusInfo REUNITED = (''reunited'', ''Reunited'')"
  by (simp add: getStatusInfo_def)

text \<open>A press outside the bubble and the icon hides the bubble and nothing else; the listener's
  registration guard adds nothing, since the bubble's ref is empty while it is hidden.\<close>

lemma home_mousedown_hides_bubble:
  "home_mousedown inBubble inIcon s = handleClickOutside inBubble inIcon s"
  "showChatBubble s \<Longrightarrow> \<not> inBubble \<Longrightarrow> \<not> inIcon \<Longrightarrow>
   home_mousedown inBubble inIcon s = s\<lparr>showChatBubble := False\<rparr>"
  by (simp_all add: home_mousedown_def handleClickOutside_def)

text \<open>Opening the assistant shows its loading line until the search finishes; once shown,
  the match cards are numbered 1 to the number of matches.\<close>

lemma ai_render_search:
  "ai_render (handleAIAssistantClick s) = Ai_loading ''Finding your items, based on your report details...''"
  "ai_render s = Ai_shown msg cs \<Longrightarrow> map fst cs = [1..<Suc (length (aiResults s))]"
  by (auto simp: ai_render_def handleAIAssistantClick_def startAISearch_start_def comp_def
                 map_Suc_upt Suc_le_eq split: if_splits)

text \<open>C21: an item whose status the admin dashboard has just set (\<open>CLAIMED\<close> or
  \<open>RETURNED\<close>) disappears from every Home filter but "All Items" and leaves the four status
  counters computed from the list (Active, Lost, Found, Claim) as they were without it; only
  the "My Reports" counter still counts it, when it is the user's own.\<close>

theorem admin_marked_item_leaves_home_views:
  assumes "admin_status_step s (status it)" and "flt \<noteq> Filter_all"
  shows "\<not> home_item_visible flt q it
         \<and> take 4 (home_counters u (p\<lparr>items := it # xs, counts := stats_of_items (it # xs)\<rparr>))
           = take 4 (home_counters u (p\<lparr>items := xs, counts := stats_of_items xs\<rparr>))
         \<and> (isCurrentUserItem u it \<longrightarrow>
            drop 4 (home_counters u (p\<lparr>items := it # xs, counts := stats_of_items (it # xs)\<rparr>))
            = [(Suc (length (filter (isCurrentUserItem u) xs)), ''My Reports'')])"
proof -
  from assms(1) have t: "status it = CLAIMED \<or> status it = RETURNED"
    by (rule admin_status_step_target)
  then have a: "\<not> home_item_visible flt q it"
    using assms(2) by (cases flt) (auto simp: home_item_visible_def)
  have "stats_of_items (it # xs) = stats_of_items xs"
    using t by (auto simp: stats_of_items_def count_status_Cons)
  then have b: "take 4 (home_counters u (p\<lparr>items := it # xs, counts := stats_of_items (it # xs)\<rparr>))
         = take 4 (home_counters u (p\<lparr>items := xs, counts := stats_of_items xs\<rparr>))"
    by (simp add: home_counters_def)
  have c: "isCurrentUserItem u it \<longrightarrow>
        drop 4 (home_counters u (p\<lparr>items := it # xs, counts := stats_of_items (it # xs)\<rparr>))
        = [(Suc (length (filter (isCurrentUserItem u) xs)), ''My Reports'')]"
    by (cases u) (simp_all add: home_counters_def isCurrentUserItem_def)
  from a b c show ?thesis by blast
qed

lemma admin_marked_item_leaves_home_views_witness:
  "\<not> home_item_visible Filter_reunited []
       \<lparr>itemId = 3, itemTitle = None, itemDesc = None, location = None, categoryName = None,
        status = CLAIMED, item_userId = 1, dateReport = None, imageUrl = None\<rparr>
   \<and> drop 4 (home_counters (Some \<lparr>userId = Some 1, username = None, email = None, fname = None,
        lname = None, role = Some ''USER'', mname = None\<rparr>)
       (home_init\<lparr>items := [\<lparr>itemId = 3, itemTitle = None, itemDesc = None, location = None,
          categoryName = None, status = CLAIMED, item_userId = 1, dateReport = None, imageUrl = None\<rparr>],
        counts := stats_of_items [\<lparr>itemId = 3, itemTitle = None, itemDesc = None, location = None,
          categoryName = None, status = CLAIMED, item_userId = 1, dateReport = None, imageUrl = None\<rparr>]\<rparr>))
     = [(1, ''My Reports'')]"
proof -
  let ?it = "\<lparr>itemId = 3, itemTitle = None, itemDesc = None, location = None, categoryName = None,
              status = CLAIMED, item_userId = 1, dateReport = None, imageUrl = None\<rparr>"
  let ?u = "Some \<lparr>userId = Some 1, username = None, email = None, fname = None,
        lname = None, role = Some ''USER'', mname = None\<rparr>"
  have a: "admin_status_step LOST (status ?it)" by (simp add: admin_status_step.mark_claimed)
  have f: "Filter_reunited \<noteq> Filter_all" by simp
  have c: "isCurrentUserItem ?u ?it" by (simp add: isCurrentUserItem_def)
  show ?thesis
    using admin_marked_item_leaves_home_views [OF a f, where q = "[]" and u = ?u and p = home_init
                                                and xs = "[]"] c
    by simp
qed

end
