(* ===== verification/Sidebars.thy ===== *)
theory Sidebars
  imports Router Profile
begin

text \<open>
  The two sidebars, \<open>src/frontend/src/components/sidebar/Sidebar.js\<close> and
  \<open>AdminSidebar.js\<close>: their collapse and submenu state, the handlers that change it, the
  \<open>sidebar-collapsed\<close> class both write on the document's body, and the links they render.
  The user's name, initials and e-mail line are the \<open>Profile\<close> theory's helpers; which
  sidebar is shown is the \<open>Router\<close>'s choice. \<open>NavLink\<close>'s active test follows React
  Router v6.
\<close>

subsection \<open>State and handlers\<close>

record user_sidebar =
  reportSubmenuOpen :: bool
  sidebarCollapsed :: bool

definition user_sidebar_init :: user_sidebar where
  "user_sidebar_init = \<lparr>reportSubmenuOpen = False, sidebarCollapsed = False\<rparr>"

text \<open>The document's body is shared by both sidebars: its \<open>sidebar-collapsed\<close> class is
  the second component of the pairs below.\<close>

definition toggleReportSubmenu :: "user_sidebar \<Rightarrow> user_sidebar" where
  "toggleReportSubmenu s =
     (if \<not> sidebarCollapsed s then s\<lparr>reportSubmenuOpen := \<not> reportSubmenuOpen s\<rparr> else s)"

text \<open>\<open>toggleSidebar\<close> reads the state of the render it was called from: the submenu is
  closed when that state was collapsed, that is, when the sidebar expands.\<close>

definition toggleSidebar :: "user_sidebar \<times> bool \<Rightarrow> user_sidebar \<times> bool" where
  "toggleSidebar sb =
     (let s = fst sb in
      (s\<lparr>sidebarCollapsed := \<not> sidebarCollapsed s,
         reportSubmenuOpen := (if sidebarCollapsed s then False else reportSubmenuOpen s)\<rparr>,
       \<not> sidebarCollapsed s))"

definition admin_toggleSidebar :: "bool \<times> bool \<Rightarrow> bool \<times> bool" where
  "admin_toggleSidebar sb = (\<not> fst sb, \<not> fst sb)"

definition admin_sidebar_getDisplayUsername :: "app_user option \<Rightarrow> string" where
  "admin_sidebar_getDisplayUsername u =
     (case u of
        None \<Rightarrow> ''admin@example.com''
      | Some v \<Rightarrow> js_or (username v) (js_or (email v) ''admin@example.com''))"

subsection \<open>Links\<close>

text \<open>\<open>NavLink\<close>'s \<open>isActive\<close>: the current path is the link's, or, without \<open>end\<close>,
  lies below it; both compared as the router compares paths.\<close>

definition navlink_active :: "path \<Rightarrow> bool \<Rightarrow> path \<Rightarrow> bool" where
  "navlink_active to_path end_flag cur \<longleftrightarrow>
     route_key cur = route_key to_path
     \<or> (\<not> end_flag \<and> starts_with (route_key cur) (route_key to_path @ ''/''))"

text \<open>The user sidebar's links, in order, as (target, \<open>end\<close>, label): the user tabs unless
  the role is exactly \<open>admin\<close>, the Report Item submenu while expanded and open, the admin
  link for that role, and the Profile link.\<close>

definition sidebar_links :: "app_user option \<Rightarrow> user_sidebar \<Rightarrow> (path \<times> bool \<times> string) list" where
  "sidebar_links u s =
     (if sidebar_user_tabs u then
        [(''/home'', False, ''Home'')]
        @ (if \<not> sidebarCollapsed s \<and> reportSubmenuOpen s then
             [(''/report-item'', True, ''Report Page''), (''/report-item/list'', False, ''Item List''),
              (''/report-item/tips'', False, ''Tips'')]
           else [])
        @ [(''/search'', False, ''Search''), (''/claim'', False, ''Claim'')]
      else [])
     @ (if sidebar_admin_link u then [(''/admin'', False, ''Admin'')] else [])
     @ (if sidebar_user_tabs u then [(''/profile'', False, ''Profile'')] else [])"


text \<open>The user block at the bottom: avatar initials, name and e-mail line (and the admin's
  role line), shown expanded or, collapsed, as a tooltip.\<close>

definition sidebar_footer :: "app_user option \<Rightarrow> string \<times> string \<times> string" where
  "sidebar_footer u = (sidebar_getUserInitials u, sidebar_getFullName u, sidebar_getDisplayUsername u)"

definition admin_sidebar_footer :: "app_user option \<Rightarrow> string \<times> string \<times> string \<times> string" where
  "admin_sidebar_footer u =
     (admin_sidebar_getUserInitials u, admin_sidebar_getFullName u, admin_sidebar_getDisplayUsername u,
      ''Administrator'')"

subsection \<open>Properties of the sidebars\<close>

text \<open>Collapsing and expanding again, in either order, restores the width and closes the
  Report Item submenu; after every toggle the body class agrees with the sidebar that was
  toggled last.\<close>

lemma toggleSidebar_twice:
  "toggleSidebar (toggleSidebar (s, b)) = (s\<lparr>reportSubmenuOpen := False\<rparr>, sidebarCollapsed s)"
  by (simp add: toggleSidebar_def Let_def)

lemma toggles_sync_body_class:
  "snd (toggleSidebar sb) = sidebarCollapsed (fst (toggleSidebar sb))"
  "snd (admin_toggleSidebar ab) = fst (admin_toggleSidebar ab)"
  by (simp_all add: toggleSidebar_def admin_toggleSidebar_def Let_def)

text \<open>The submenu cannot be opened while the sidebar is collapsed, and its links are not
  rendered then.\<close>

lemma collapsed_no_submenu:
  assumes "sidebarCollapsed s"
  shows "toggleReportSubmenu s = s"
    and "\<forall>(p, e, l) \<in> set (sidebar_links u s). \<not> starts_with p ''/report-item''"
  using assms by (auto simp: toggleReportSubmenu_def sidebar_links_def)


text \<open>On the item list only the "Item List" entry of the submenu is highlighted, since
  "Report Page" carries \<open>end\<close>; the admin sidebar's "Report Page" has no \<open>end\<close> and is
  highlighted on every report panel.\<close>

lemma report_links_active:
  "\<not> navlink_active ''/report-item'' True ''/report-item/list''
   \<and> navlink_active ''/report-item/list'' False ''/report-item/list''
   \<and> navlink_active ''/report-item'' False ''/report-item/tips''"
  by (simp add: navlink_active_def route_key_def js_prim_defs)

end
