(* ===== verification/Pages.thy ===== *)
theory Pages
  imports Router
begin

text \<open>
  The components and pages outside the signed-in area: the \<open>Message\<close> toast
  (\<open>src/frontend/src/components/message/message.js\<close>) with its timers, the landing
  \<open>Navbar\<close>, the Login and Signup pages' forms (their submit handlers are the \<open>Session\<close>
  and \<open>AuthGate\<close> theories' \<open>handleLogin\<close> and \<open>handleSignup\<close>) and the Contact page's
  form. The browser's part, the constraint validation of \<open>required\<close> and
  \<open>type="email"\<close> inputs and the default submission of a form without a handler, is
  modelled from the HTML standard.
\<close>

subsection \<open>The Message toast\<close>

text \<open>The toast's state: the \<open>text\<close> its parent passes, its own \<open>visible\<close> flag, the
  pending timers with their due times, and the clock. A hide timer belongs to one run of the
  effect and is cleared by its cleanup; the close timer, started when the toast hides, calls
  \<open>onClose\<close> five seconds later and is never cleared.\<close>

datatype msg_timer = Hide_timer | Close_timer

record msg_box =
  mb_text :: string
  mb_visible :: bool
  mb_timers :: "(nat \<times> msg_timer) list"
  mb_now :: nat

definition msg_duration :: nat where
  "msg_duration = 5000"


text \<open>A render of the parent with message \<open>t\<close>. The effect depends on
  \<open>[text, duration, onClose]\<close>, and every parent passes an inline arrow as \<open>onClose\<close>,
  a new function at each render: the effect's cleanup and body run at every render.\<close>

definition msg_effect :: "string \<Rightarrow> msg_box \<Rightarrow> msg_box" where
  "msg_effect t b =
     (let b1 = b\<lparr>mb_text := t, mb_timers := filter (\<lambda>(d, k). k \<noteq> Hide_timer) (mb_timers b)\<rparr> in
      if t = [] then b1
      else b1\<lparr>mb_visible := True, mb_timers := mb_timers b1 @ [(mb_now b + msg_duration, Hide_timer)]\<rparr>)"

text \<open>The close button's \<open>handleClose\<close>.\<close>

definition msg_handleClose :: "msg_box \<Rightarrow> msg_box" where
  "msg_handleClose b = b\<lparr>mb_visible := False, mb_timers := mb_timers b @ [(mb_now b + 5000, Close_timer)]\<rparr>"

text \<open>Firing the pending timer \<open>k\<close>, which must be due first. The hide timer hides the
  toast and starts the close timer; the close timer's \<open>onClose\<close> clears the parent's
  message, and the parent's next render runs the effect with the empty text.\<close>

definition msg_fire :: "nat \<Rightarrow> msg_box \<Rightarrow> msg_box option" where
  "msg_fire k b =
     (if k < length (mb_timers b) \<and> list_all (\<lambda>(d, _). fst (mb_timers b ! k) \<le> d) (mb_timers b) then
        (let (d, kind) = mb_timers b ! k;
             b1 = b\<lparr>mb_now := d, mb_timers := take k (mb_timers b) @ drop (Suc k) (mb_timers b)\<rparr>
         in Some (case kind of
                    Hide_timer \<Rightarrow> b1\<lparr>mb_visible := False, mb_timers := mb_timers b1 @ [(d + 5000, Close_timer)]\<rparr>
                  | Close_timer \<Rightarrow> msg_effect [] b1))
      else None)"

text \<open>Time passing with no timer falling due before its end.\<close>

definition msg_wait :: "nat \<Rightarrow> msg_box \<Rightarrow> msg_box option" where
  "msg_wait n b =
     (if list_all (\<lambda>(d, _). mb_now b + n \<le> d) (mb_timers b) then Some (b\<lparr>mb_now := mb_now b + n\<rparr>)
      else None)"

datatype msg_event = Msg_render string | Msg_close_click | Msg_fire nat | Msg_wait nat

text \<open>The close button is rendered only with a text.\<close>

fun msg_step :: "msg_event \<Rightarrow> msg_box \<Rightarrow> msg_box option" where
  "msg_step (Msg_render t) b = Some (msg_effect t b)"
| "msg_step Msg_close_click b = (if mb_text b \<noteq> [] then Some (msg_handleClose b) else None)"
| "msg_step (Msg_fire k) b = msg_fire k b"
| "msg_step (Msg_wait n) b = msg_wait n b"

fun msg_run :: "msg_event list \<Rightarrow> msg_box \<Rightarrow> msg_box option" where
  "msg_run [] b = Some b"
| "msg_run (e # es) b = (case msg_step e b of None \<Rightarrow> None | Some b' \<Rightarrow> msg_run es b')"

definition msg_shown :: "msg_box \<Rightarrow> bool" where
  "msg_shown b \<longleftrightarrow> mb_text b \<noteq> [] \<and> mb_visible b"

subsection \<open>The landing navbar\<close>

definition navbar_links :: "(path \<times> string) list" where
  "navbar_links =
     [(''/'', ''Home''), (''/about'', ''About''), (''/contact'', ''Contact''),
      (''/login'', ''Login''), (''/signup'', ''Join Us'')]"

text \<open>\<open>isActive\<close> compares the path exactly.\<close>

definition navbar_isActive :: "path \<Rightarrow> path \<Rightarrow> bool" where
  "navbar_isActive p cur \<longleftrightarrow> cur = p"

text \<open>The rendered links, each with whether it carries the \<open>active\<close> class.\<close>

definition navbar_render :: "path \<Rightarrow> (path \<times> string \<times> bool) list" where
  "navbar_render cur = map (\<lambda>(p, l). (p, l, navbar_isActive p cur)) navbar_links"

subsection \<open>The browser's form validation\<close>

definition ascii_alnum :: "char \<Rightarrow> bool" where
  "ascii_alnum c \<longleftrightarrow>
     (let n = (of_char c :: nat) in (48 \<le> n \<and> n \<le> 57) \<or> (65 \<le> n \<and> n \<le> 90) \<or> (97 \<le> n \<and> n \<le> 122))"

text \<open>The characters of the local part of a valid e-mail address: letters, digits and
  \<open>.!#$%&'*+/=?^_`{|}~-\<close>.\<close>

definition email_local_char :: "char \<Rightarrow> bool" where
  "email_local_char c \<longleftrightarrow>
     ascii_alnum c
     \<or> (of_char c :: nat) \<in> {33, 35, 36, 37, 38, 39, 42, 43, 45, 46, 47, 61, 63, 94, 95, 96, 123, 124, 125, 126}"

fun split_on :: "char \<Rightarrow> string \<Rightarrow> string list" where
  "split_on c [] = [[]]"
| "split_on c (x # xs) = (if x = c then [] # split_on c xs
                         else (case split_on c xs of w # ws \<Rightarrow> (x # w) # ws | [] \<Rightarrow> [[x]]))"

definition email_label :: "string \<Rightarrow> bool" where
  "email_label l \<longleftrightarrow>
     l \<noteq> [] \<and> length l \<le> 63 \<and> list_all (\<lambda>c. ascii_alnum c \<or> c = CHR ''-'') l
     \<and> hd l \<noteq> CHR ''-'' \<and> last l \<noteq> CHR ''-''"

text \<open>A valid e-mail address in the sense of the HTML standard, which an
  \<open>input type="email"\<close> requires.\<close>

definition html_valid_email :: "string \<Rightarrow> bool" where
  "html_valid_email s \<longleftrightarrow>
     (let l = takeWhile (\<lambda>c. c \<noteq> CHR ''@'') s; d = drop (Suc (length l)) s in
      length l < length s \<and> l \<noteq> [] \<and> list_all email_local_char l
      \<and> list_all email_label (split_on CHR ''.'' d))"

subsection \<open>The Login page\<close>

record login_page =
  lp_username :: string
  lp_password :: string
  showPassword :: bool
  errorMessage :: string
  lp_loading :: bool

definition login_page_init :: login_page where
  "login_page_init =
     \<lparr>lp_username = [], lp_password = [], showPassword = False, errorMessage = [], lp_loading = False\<rparr>"

definition login_handleChange :: "string \<Rightarrow> string \<Rightarrow> login_page \<Rightarrow> login_page" where
  "login_handleChange name v p =
     (if name = ''username'' then p\<lparr>lp_username := v\<rparr>
      else if name = ''password'' then p\<lparr>lp_password := v\<rparr> else p)"

definition togglePasswordVisibility :: "login_page \<Rightarrow> login_page" where
  "togglePasswordVisibility p = p\<lparr>showPassword := \<not> showPassword p\<rparr>"

definition password_input_type :: "login_page \<Rightarrow> string" where
  "password_input_type p = (if showPassword p then ''text'' else ''password'')"

text \<open>A submit of the login form: both inputs are \<open>required\<close>. The body posted is the form
  state, then \<open>handleLogin\<close> updates the session and the page shows its message or
  navigates.\<close>

definition login_submit ::
  "login_reply \<Rightarrow> session \<Rightarrow> login_page
   \<Rightarrow> (string \<times> string) option \<times> session \<times> login_page \<times> path option" where
  "login_submit r s p =
     (if lp_username p = [] \<or> lp_password p = [] then (None, s, p, None)
      else
        (let (s', out) = handleLogin r s in
         (Some (lp_username p, lp_password p), s',
          case out of
            Login_message m \<Rightarrow> (p\<lparr>errorMessage := m, lp_loading := False\<rparr>, None)
          | Login_navigate q \<Rightarrow> (p\<lparr>errorMessage := [], lp_loading := False\<rparr>, Some q))))"

text \<open>The page's links and navigating buttons.\<close>

definition login_links :: "path list" where
  "login_links = [''/'', ''/signup'', ''/admin/signup'']"

subsection \<open>The Signup page\<close>

record signup_page =
  sp_form :: signup_form
  sp_message :: string
  msgType :: string
  sp_loading :: bool

definition signup_set_field :: "string \<Rightarrow> string \<Rightarrow> signup_form \<Rightarrow> signup_form" where
  "signup_set_field name v f =
     (if name = ''username'' then f\<lparr>su_username := v\<rparr>
      else if name = ''password'' then f\<lparr>su_password := v\<rparr>
      else if name = ''fName'' then f\<lparr>su_fName := v\<rparr>
      else if name = ''mName'' then f\<lparr>su_mName := v\<rparr>
      else if name = ''lName'' then f\<lparr>su_lName := v\<rparr>
      else if name = ''email'' then f\<lparr>su_email := v\<rparr>
      else if name = ''contactNo'' then f\<lparr>su_contactNo := v\<rparr>
      else f)"

definition signup_handleChange :: "string \<Rightarrow> string \<Rightarrow> signup_page \<Rightarrow> signup_page" where
  "signup_handleChange name v p = p\<lparr>sp_form := signup_set_field name v (sp_form p)\<rparr>"

text \<open>The inputs' constraints: user name and e-mail are \<open>type="email"\<close>, every field but
  the middle name is \<open>required\<close>.\<close>

definition signup_submittable :: "signup_form \<Rightarrow> bool" where
  "signup_submittable f \<longleftrightarrow>
     html_valid_email (su_username f) \<and> su_password f \<noteq> [] \<and> su_fName f \<noteq> []
     \<and> su_lName f \<noteq> [] \<and> html_valid_email (su_email f) \<and> su_contactNo f \<noteq> []"

definition signup_submit ::
  "signup_reply \<Rightarrow> signup_page \<Rightarrow> (signup_form \<times> string) option \<times> signup_page \<times> path option" where
  "signup_submit r p =
     (if \<not> signup_submittable (sp_form p) then (None, p, None)
      else
        (let (body, out) = handleSignup (sp_form p) r in
         (Some body,
          case out of
            Signup_success m q \<Rightarrow> (p\<lparr>sp_message := m, msgType := ''success'', sp_loading := False\<rparr>, Some q)
          | Signup_error m \<Rightarrow> (p\<lparr>sp_message := m, msgType := ''error'', sp_loading := False\<rparr>, None))))"

definition signup_links :: "path list" where
  "signup_links = [''/'', ''/login'', ''/admin/signup'']"

subsection \<open>The Contact page\<close>

text \<open>The contact form's inputs are uncontrolled and carry an \<open>id\<close> but no \<open>name\<close>; the
  form has no \<open>onSubmit\<close> and no \<open>action\<close>.\<close>

record contact_form =
  c_name :: string
  c_email :: string
  c_subject :: string
  c_message :: string

definition contact_submittable :: "contact_form \<Rightarrow> bool" where
  "contact_submittable f \<longleftrightarrow> c_name f \<noteq> [] \<and> html_valid_email (c_email f) \<and> c_message f \<noteq> []"

text \<open>The default submission: a GET of the page's own address with the entries of the
  form's named controls, here none.\<close>

definition contact_entries :: "contact_form \<Rightarrow> (string \<times> string) list" where
  "contact_entries f = []"

definition contact_submit :: "contact_form \<Rightarrow> (path \<times> (string \<times> string) list) option" where
  "contact_submit f = (if contact_submittable f then Some (''/contact'', contact_entries f) else None)"

subsection \<open>Properties of the toast\<close>

text \<open>Left alone, a toast shows its message for \<open>duration\<close>, hides, and five seconds later
  its parent's message is cleared.\<close>

lemma msg_auto_dismiss:
  assumes "mb_timers b = []" and "t \<noteq> []"
  shows "\<exists>b'. msg_run [Msg_fire 0, Msg_fire 0] (msg_effect t b) = Some b'
           \<and> mb_text b' = [] \<and> \<not> mb_visible b' \<and> mb_timers b' = [] \<and> mb_now b' = mb_now b + 10000"
  using assms by (simp add: msg_effect_def msg_fire_def msg_duration_def)


text \<open>The close button does not stick: any render of the parent before the close timer
  fires, with the message unchanged, shows the toast again.\<close>

lemma msg_close_undone_by_render:
  "t \<noteq> [] \<Longrightarrow>
   msg_run [Msg_render t, Msg_close_click, Msg_render t] b = Some b'
   \<Longrightarrow> msg_shown b' \<and> mb_text b' = t"
  by (auto simp: msg_effect_def msg_handleClose_def msg_shown_def)

subsection \<open>Properties of the forms and links\<close>

text \<open>The navbar highlights by exact comparison: on \<open>/about/\<close>, which the router renders
  as the About page, no link is highlighted.\<close>

lemma navbar_trailing_slash:
  "route_match ''/about/'' = Some (About_page, Public)
   \<and> route_match ''/about'' = Some (About_page, Public)
   \<and> map (snd \<circ> snd) (navbar_render ''/about/'') = [False, False, False, False, False]
   \<and> map (snd \<circ> snd) (navbar_render ''/about'') = [False, True, False, False, False]"
  by (simp add: route_match_def route_key_def navbar_render_def navbar_links_def navbar_isActive_def
                js_prim_defs)

lemma togglePasswordVisibility_twice [simp]:
  "togglePasswordVisibility (togglePasswordVisibility p) = p"
  by (simp add: togglePasswordVisibility_def)

text \<open>What is typed is what is posted: after typing a user name and a password the login
  submit posts exactly them, and the password input shows its text only after an odd number
  of clicks on the eye button.\<close>

lemma login_posts_typed:
  assumes "u \<noteq> []" and "w \<noteq> []"
  shows "fst (login_submit r s (login_handleChange ''password'' w (login_handleChange ''username'' u p)))
           = Some (u, w)"
    and "password_input_type login_page_init = ''password''"
    and "password_input_type (togglePasswordVisibility login_page_init) = ''text''"
  using assms
  by (simp_all add: login_submit_def login_handleChange_def password_input_type_def
                    togglePasswordVisibility_def login_page_init_def Let_def split: prod.split)

text \<open>The Login and Signup pages' "Create Admin Account" link leads to \<open>/admin/signup\<close>,
  which no route matches: a visitor sees an empty page.\<close>

lemma admin_signup_link_blank:
  "''/admin/signup'' \<in> set login_links \<and> ''/admin/signup'' \<in> set signup_links
   \<and> (\<not> loading s \<longrightarrow> user s = None \<longrightarrow> AppContent s ''/admin/signup'' = Shell None Blank)"
  by (simp add: login_links_def signup_links_def AppContent_def show_sidebar_def route_content_def route_match_def
                route_key_def js_prim_defs)

text \<open>The Signup form posts the fields as typed, with the role the domain test chose.\<close>

lemma signup_posts_typed:
  assumes "signup_submittable f"
  shows "fst (signup_submit r (p\<lparr>sp_form := f\<rparr>)) = Some (f, signup_role f)"
  using assms by (simp add: signup_submit_def handleSignup_def split: prod.split)

text \<open>"Send Message" sends nothing: a valid contact form only reloads the page, with no
  entry of what was typed.\<close>

lemma contact_sends_nothing:
  "contact_submit f = Some (p, es) \<Longrightarrow> p = ''/contact'' \<and> es = []"
  "contact_submit \<lparr>c_name = ''Ana'', c_email = ''ana@cit.edu'', c_subject = [],
                   c_message = ''I lost my ID''\<rparr> = Some (''/contact'', [])"
  by (auto simp: contact_submit_def contact_entries_def contact_submittable_def html_valid_email_def
                 email_local_char_def email_label_def ascii_alnum_def split: if_splits)

end
