(* ===== verification/Spec2Isabelle.thy ===== *)
theory Spec2Isabelle
  imports Router Claims Report Admin Profile Assistant Home Sidebars Pages
begin

text \<open>
  \<^bold>\<open>A verification model of the WildcatsFinder lost-and-found client.\<close>

  The repository is a React client (\<open>src/frontend/src\<close>) of a REST back end that is not
  part of it. Its logic is a session store, a role gate in front of the routes, and the
  status-driven views and actions on items and claims; everything else is markup.
  The development models that logic as plain HOL functions on records, one theory per
  part, each importing the parts it calls:

  \<^item> \<open>Prelude\<close>: the JavaScript string primitives the client calls (\<open>toLowerCase\<close>,
    \<open>toUpperCase\<close>, \<open>trim\<close>, \<open>includes\<close>, truthiness, \<open>||\<close>, \<open>String(n)\<close>) over
    \<open>string\<close>, restricted to ASCII, which contains every literal the client compares with;
    \<open>js_includes\<close> is proved equal to the reference substring relation. Unicode case
    mapping and the non-ASCII white space \<open>trim\<close> removes are not modelled: on a
    non-ASCII character the model's primitives are the identity.
  \<^item> \<open>Session\<close> (\<open>context/UserContext.js\<close>, and the storage writes of \<open>Login.js\<close>,
    \<open>Profile.js\<close>, \<open>Index.js\<close>): the React state \<open>user\<close>/\<open>loading\<close> and the three
    \<open>localStorage\<close> keys as one record; \<open>fetchUser\<close> split at its \<open>await\<close>
    (\<open>fetch_user_start\<close>, \<open>fetch_user_reply\<close>), the storage effect with the value of the
    render it runs after (\<open>sync_user_effect\<close>), and the mount order of the two effects
    (\<open>mount_transient\<close>, \<open>mount_settled\<close>, \<open>mount_session\<close>); \<open>login\<close>, \<open>logout\<close>,
    \<open>updateUser\<close>, the Login page's \<open>handleLogin\<close>, Profile's logout and reload. The reply
    of \<open>/api/users/current\<close> is a parameter (\<open>current_reply\<close>), so every outcome is
    covered. \<open>session_reach\<close> is the inductive set of states reachable by mounts, events
    and reloads; its invariant is that memory and storage agree.
  \<^item> \<open>AuthGate\<close> (\<open>components/ProtectedRoute.js\<close>, the admin checks of \<open>App.js\<close>,
    \<open>AdminDashboard.js\<close>, \<open>Sidebar.js\<close>, and \<open>Signup.js\<close>'s role choice): the decision
    Allow / to login / to home; the admin test is proved to accept exactly the 32 upper/lower
    case spellings of \<open>admin\<close>.
  \<^item> \<open>Router\<close> (\<open>App.js\<close>): \<open>AppContent\<close>, the loading screen, sidebar choice and
    route table, with React Router v6 matching (case-insensitive, trailing slashes ignored).
  \<^item> \<open>Items\<close> (\<open>Home.js\<close>, \<open>AdminDashboard.js\<close>, \<open>ReportItem.js\<close>'s edit form): the
    item record and status enumeration, the Home filter and search, the counters, the Home
    mount sequence (\<open>fetchStats\<close>, \<open>fetchAllItems\<close> and the counter effect), the admin
    item filter and status buttons, and two inductive relations of status changes: the
    admin's (\<open>admin_status_step\<close>) and all the client's (\<open>ui_status_step\<close>).
    \<open>parse_status\<close> is the model's reading of the status string the server sends
    (the client compares the string itself); it keeps unknown strings.
  \<^item> \<open>Claims\<close> (\<open>Home.js\<close> \<open>handleMineButtonClick\<close>, \<open>Claim.js\<close>, \<open>AdminDashboard.js\<close>):
    claim submission with its guards; the whole Claim page: its mount effect
    (\<open>claim_mount\<close>), the aggregation of received claims (\<open>fetchClaimsData\<close>), the tabs,
    \<open>handleApprove\<close>/\<open>handleReject\<close> with their alert and reload, and what each tab
    renders (\<open>claim_render\<close>); the admin's decision buttons; the inductive set
    \<open>claim_reach\<close> of claims the client can bring about, and \<open>claim_hist\<close>, the histories
    of a claim in which each decision is taken on the copy the deciding page last fetched,
    which may be stale. A claims reply that is not an array is modelled as an object (the
    back end answers with an array or an error object); a JSON string is not modelled: a
    non-empty one would pass \<open>claims.length > 0\<close> and make \<open>forEach\<close> throw, aborting the
    whole aggregation. The server's effect on a claim
    (create, approve, reject, verify) and its claim table (\<open>store_claims_for\<close>,
    \<open>store_decide\<close>) are not in the repository and are modelled from the spec's interface
    section.
  \<^item> \<open>Admin\<close> (\<open>AdminDashboard.js\<close>): the dashboard as an event system. Its state
    is the component's state plus the requests in flight and the status changes the server
    has applied; each handler is split at its \<open>await\<close> (\<open>fetchItems_start\<close> /
    \<open>fetchItems_done\<close>, \<open>updateItemStatus\<close> / \<open>updateItemStatus_done\<close>, ...), a reply
    may answer any request in flight (\<open>admin_reply_step\<close>), clicks are possible only on
    what the last render shows (\<open>admin_step\<close>), and a render may throw
    (\<open>admin_render\<close> is \<open>None\<close>). \<open>admin_reach\<close> is the inductive set of reachable
    states; \<open>admin_run\<close> runs a list of events, which is how interleavings are exhibited.
    \<open>admin_drain\<close> lets any server (a function from request to reply) answer the oldest
    request in flight until none is left; it is a \<open>function\<close> whose termination is proved
    with a measure that weights a PUT request two and a fetch one, since a successful PUT
    starts a refetch. With the loading invariant (the flag is on only while a fetch is in
    flight) this shows the page settles for every server whose replies fit their requests.
  \<^item> \<open>Profile\<close> (\<open>Profile.js\<close>, \<open>Sidebar.js\<close>, \<open>AdminSidebar.js\<close>): the three
    copies of the name, initials, e-mail and role helpers, and the Profile page's
    \<open>fetchReports\<close>, tabs, counters and tab content.
  \<^item> \<open>Assistant\<close> (\<open>Home.js\<close> \<open>startAISearch\<close>): the match assistant, with the
    \<open>Math.random()\<close> draws as a parameter; every suggestion pairs one of the user's lost
    items with another user's found item sharing category, location or title, and its
    confidence lies between 70 and 99 for draws in \<open>[0, 1)\<close>.
  \<^item> \<open>Report\<close> (\<open>ReportItem.js\<close>): every state change of the page. The report form,
    its per-field \<open>handleChange\<close> and \<open>handleSubmit\<close> with its guards and the browser's
    \<open>required\<close> validation (\<open>submit_report\<close>), the user's list (\<open>fetchReportedItems\<close>,
    \<open>refreshUserItems\<close>), \<open>handleDelete\<close>, and the edit form (\<open>handleEditClick\<close>,
    \<open>handleEditChange\<close>, \<open>handleUpdateSubmit\<close>, \<open>handleCancelEdit\<close>), whose fields are not
    in a \<open>form\<close> element and so are never validated; the panel chosen by the address, the
    categories/departments load and the image preview (\<open>report_view\<close>). The owner's edit,
    for any sequence of input changes, is shown to refine the abstract status relation
    \<open>ui_status_step\<close> of \<open>Items\<close>.
  \<^item> \<open>Home\<close> (\<open>Home.js\<close>): the page state around the list, the filter buttons, the search
    handlers, the click-outside listener, the greeting, the stat cards, the item cards and
    the assistant's modal; it composes \<open>Items\<close>, \<open>Claims\<close> and \<open>Assistant\<close>.
  \<^item> \<open>Sidebars\<close> (\<open>Sidebar.js\<close>, \<open>AdminSidebar.js\<close>): collapse and submenu state, the
    toggles with the body class both write, the links with \<open>NavLink\<close>'s active test, and
    the user block.
  \<^item> \<open>Pages\<close> (\<open>message.js\<close>, \<open>Navbar.js\<close>, \<open>Login.js\<close>, \<open>Signup.js\<close>, \<open>Contact.js\<close>):
    the \<open>Message\<close> toast as a timed event system (\<open>msg_step\<close>: parent renders, the close
    click, timers firing in due order, time passing), the navbar, and the three forms with
    the browser's constraint validation (\<open>html_valid_email\<close>, from the HTML standard).

  Every network reply is a parameter of the handler that awaits it, as a datatype of the
  shapes the code distinguishes (2xx with a body that parses or not, non-2xx, exception),
  so each branch of each handler is a case of the model. No loop of the client can run
  forever (they are \<open>map\<close>/\<open>filter\<close>/\<open>forEach\<close> over finite lists), so there is no fuel;
  every handler is a total function. Time appears only in the toast, as due times of its
  timers; the five-second constants are the code's.

  What the lemmas show, by group: the Session Store's operations and their storage effects,
  the outcome of initialisation for each reply, the transient disagreement the mount order
  causes, and the agreement invariant over all reachable states; the gate's decision on
  every identity; the router's suspension while loading and its redirects; the Home filter,
  search and counters, and the mount sequence's two outcomes; that an item the admin marks
  leaves every filtered Home view and every counter but the user's own; the admin status
  lifecycle and the owner's edit that reopens a claimed or returned item; claim guards (an
  own item is refused, and the refusal is unreachable from the card and the assistant),
  failure isolation of the aggregation, the reachable approved-but-unverified claim of the
  stale-copy histories, and the Claim page's buttons after a decision; the body a report
  posts (its fields well typed, the department's name as location), the report's error
  paths, the list after a report or a delete, the edit round trip, which resends the item
  but clears its image name, and the edit's refinement of the status relation; the
  dashboard's filter invariant, the two status changes its stale details modal lets
  through, the blank page after a non-array reply, its shared loading flag, and that it
  settles for every fitting server; the assistant's confidence bounds; the dead links of
  the admin sidebar and of the Login and Signup pages; the toast's stale close timer; the
  contact form that sends nothing. Across components (this theory): an identity stored by
  the Login page is trusted forever without a token, the \<open>isAuthenticated\<close> flag
  \<open>logout()\<close> leaves behind and the redirects it causes, Profile's logout ends the
  session, and the spec's end-to-end scenario (report, claim, approval) runs through the
  report page, the server's report endpoint (\<open>server_report\<close>, from the spec), the claim
  button and the owner's approval.

  Not modelled: markup, styling, images, dates and sounds; Home's debug fetch, which only
  logs; \<open>About\<close> and \<open>Index\<close>'s markup, \<open>StatCard\<close> (it displays the pairs
  \<open>home_counters\<close> computes), \<open>ConfirmModal\<close> and \<open>ClaimItemModal\<close> (rendered by no
  page); \<open>pages/Search\<close>, which \<open>App.js\<close> imports but the repository does not contain;
  the dashboard's icons and badges.
\<close>

subsection \<open>Properties across components\<close>

text \<open>C12: the Login page stores the identity and the \<open>isAuthenticated\<close> flag but never a
  token, so the stored identity is unpaired, and every later reload shows that identity
  without asking the server, whatever the server would answer.\<close>

theorem page_login_trusted_without_token:
  assumes "ls_token (storage s) = None"
  shows "ls_user (storage (fst (handleLogin (Login_accepted u) s))) = Some u
         \<and> ls_token (storage (fst (handleLogin (Login_accepted u) s))) = None
         \<and> \<not> paired (storage (fst (handleLogin (Login_accepted u) s)))
         \<and> user (mount_session (storage (fst (handleLogin (Login_accepted u) s))) r) = Some u"
proof -
  let ?st = "storage (fst (handleLogin (Login_accepted u) s))"
  have st: "ls_user ?st = Some u" "ls_token ?st = None"
    using assms by (simp_all add: handleLogin_def)
  then have "\<not> js_truthy (ls_token ?st)" by simp
  then have "mount_session ?st r = mount_settled ?st" by (rule mount_session_no_token)
  with st show ?thesis by (simp add: paired_def mount_settled_simps)
qed

lemma page_login_trusted_without_token_witness:
  "user (mount_session (storage (fst (handleLogin
      (Login_accepted \<lparr>userId = Some 3, username = Some ''amy'', email = None, fname = None,
                        lname = None, role = Some ''USER'', mname = None\<rparr>)
      \<lparr>user = None, loading = False, storage = \<lparr>ls_user = None, ls_token = None, ls_auth = None\<rparr>\<rparr>)))
      Reply_not_ok)
   = Some \<lparr>userId = Some 3, username = Some ''amy'', email = None, fname = None,
           lname = None, role = Some ''USER'', mname = None\<rparr>"
  using page_login_trusted_without_token
    [of "\<lparr>user = None, loading = False, storage = \<lparr>ls_user = None, ls_token = None, ls_auth = None\<rparr>\<rparr>"]
  by simp

text \<open>C13: the context's \<open>logout()\<close> leaves the \<open>isAuthenticated\<close> flag behind: after it,
  the router sends \<open>/home\<close> to \<open>/login\<close> and the Login page's mount effect sends
  \<open>/login\<close> back to \<open>/home\<close>.\<close>

theorem logout_leaves_auth_flag:
  assumes "ls_auth (storage s) = Some ''true''" and "\<not> loading s"
  shows "ls_auth (storage (logout s)) = Some ''true''
         \<and> AppContent (logout s) ''/home'' = Shell None (Redirect ''/login'')
         \<and> login_redirect (logout s) = Some ''/home''"
  using assms
  by (simp add: logout_def login_redirect_def AppContent_def show_sidebar_def route_content_def
                route_match_home)

lemma logout_leaves_auth_flag_witness:
  "login_redirect (logout \<lparr>user = None, loading = False,
      storage = \<lparr>ls_user = None, ls_token = None, ls_auth = Some ''true''\<rparr>\<rparr>) = Some ''/home''"
  using logout_leaves_auth_flag
    [of "\<lparr>user = None, loading = False,
          storage = \<lparr>ls_user = None, ls_token = None, ls_auth = Some ''true''\<rparr>\<rparr>"]
  by simp

text \<open>Profile's confirmed logout ends the session: the storage it leaves has no
  identity, no token and no flag, and the reload it triggers starts with no identity and
  no redirect from the Login page; an unconfirmed logout changes nothing.\<close>

theorem profile_logout_ends_session:
  "profile_logout False s = None
   \<and> (\<exists>st. profile_logout True s = Some st \<and> ls_user st = None \<and> ls_token st = None
          \<and> ls_auth st = None \<and> user (mount_session st r) = None
          \<and> login_redirect (mount_session st r) = None)"
  by (simp add: profile_logout_def logout_def mount_session_no_token mount_settled_simps
                login_redirect_def)

lemma profile_logout_ends_session_witness:
  "profile_logout True \<lparr>user = None, loading = False,
      storage = \<lparr>ls_user = None, ls_token = Some ''tok'', ls_auth = Some ''true''\<rparr>\<rparr>
   = Some \<lparr>ls_user = None, ls_token = None, ls_auth = None\<rparr>"
  using profile_logout_ends_session
          [of "\<lparr>user = None, loading = False,
                storage = \<lparr>ls_user = None, ls_token = Some ''tok'', ls_auth = Some ''true''\<rparr>\<rparr>"
              Network_error]
  by auto

text \<open>The spec's end-to-end scenario: user A reports a blue backpack found on the main
  campus; the created item is \<open>FOUND\<close> at the department's name; user B claims it with a
  description, the claim is \<open>PENDING\<close> and unverified, and A's approval makes it
  \<open>APPROVED\<close> and verified.\<close>

lemma blue_backpack_scenario:
  "\<exists>pl. fst (submit_report (Some \<lparr>userId = Some 1, username = Some ''alice'', email = None, fname = None,
         lname = None, role = Some ''USER'', mname = None\<rparr>) [\<lparr>cat_categoryId = 3, cat_categoryName = ''Bags''\<rparr>] [\<lparr>dep_depId = 1, dep_depName = ''Main Campus''\<rparr>] Report_created_unparsable List_error
              ''2025-01-11'' \<lparr>reportedItems = [], page_message = error_message [] [],
          formData = \<lparr>f_itemTitle = ''Blue Backpack'', f_itemDesc = ''navy'', f_categoryId = ''3'',
                      f_departmentId = ''1'', f_location = [], f_dateReport = ''2025-01-10'',
                      f_status = ''FOUND'', f_image = None\<rparr>,
          editingItem = None,
          editFormData = \<lparr>e_itemTitle = [], e_itemDesc = [], e_categoryId = [],
                          e_departmentId = [], e_status = [], e_dateReport = [], e_image = None\<rparr>\<rparr>) = Some pl
     \<and> status (server_report 7 ''Bags'' pl) = FOUND
     \<and> location (server_report 7 ''Bags'' pl) = Some ''Main Campus''
     \<and> (\<exists>q. fst (handleMineButtonClick (Some \<lparr>userId = Some 2, username = Some ''bob'', email = None, fname = None,
         lname = None, role = Some ''USER'', mname = None\<rparr>) (server_report 7 ''Bags'' pl)
                  (Some ''Has a keychain shaped like a cat'') (Post_created 11 ''PENDING'')) = Some q
           \<and> claim_status (server_create 11 q) = PENDING \<and> \<not> verified (server_create 11 q)
           \<and> claim_status (server_approve (server_create 11 q)) = APPROVED
           \<and> verified (server_approve (server_create 11 q)))"
  by (simp add: submit_report_def handleSubmit_def form_submittable_def find_category_def
                find_department_def js_string_of_nat_small report_payload_of_def server_report_def
                handleMineButtonClick_def server_create_def server_approve_def parse_status_def
                js_prim_defs Let_def)

end
